theory Spec2Isabelle
  imports Main "HOL-Library.Word" "HOL-Library.AList" "HOL-Library.Sublist"
begin

text \<open>
  The command-line tool of the repository: the Format Converter and the sync commands
  (\<^verbatim>\<open>sync.ts\<close>), the Stack Detector (\<^verbatim>\<open>detector.ts\<close>), the \<^verbatim>\<open>add\<close> command
  (\<^verbatim>\<open>add.ts\<close>), the \<^verbatim>\<open>init\<close> command (\<^verbatim>\<open>init.ts\<close>) and the helpers of
  \<^verbatim>\<open>paths.ts\<close>, as functions on an explicit world of files and console output. The
  definitions come first, section by section; the properties follow.
\<close>

section \<open>JavaScript strings\<close>

text \<open>
  A JavaScript string is a sequence of UTF-16 code units; the regular expressions of
  \<^verbatim>\<open>sync.ts\<close> carry no \<^verbatim>\<open>u\<close> flag, so they work on code units too.
  \<open>lit\<close> embeds an ASCII literal of the source.
\<close>

type_synonym cu = "16 word"
type_synonym jsstring = "cu list"

definition lit :: "string \<Rightarrow> jsstring" where
  "lit s = map (\<lambda>c. of_nat (of_char c)) s"

text \<open>ECMAScript \<open>LineTerminator\<close>: LF, CR, LS, PS. The dot of a regular expression
  (without the \<^verbatim>\<open>s\<close> flag) matches every code unit but these.\<close>

definition line_terminator :: "cu \<Rightarrow> bool" where
  "line_terminator c = (c = 0x0A \<or> c = 0x0D \<or> c = 0x2028 \<or> c = 0x2029)"

text \<open>The class \<^verbatim>\<open>\s\<close>: ECMAScript \<open>WhiteSpace\<close> (TAB, VT, FF, SP, NBSP, ZWNBSP and the
  Unicode space separators) together with the line terminators.\<close>

definition white_space :: "cu \<Rightarrow> bool" where
  "white_space c =
     (c = 0x09 \<or> c = 0x0B \<or> c = 0x0C \<or> c = 0x20 \<or> c = 0xA0 \<or> c = 0x1680
      \<or> (0x2000 \<le> c \<and> c \<le> 0x200A)
      \<or> c = 0x202F \<or> c = 0x205F \<or> c = 0x3000 \<or> c = 0xFEFF
      \<or> line_terminator c)"

section \<open>The two patterns of the Format Converter\<close>

text \<open>
  \<^verbatim>\<open>(.+)$\<close> under the \<^verbatim>\<open>m\<close> flag, tried at the head of the given text: the greedy
  \<^verbatim>\<open>.+\<close> takes the longest run of code units that are no line terminators, and at
  its end \<^verbatim>\<open>$\<close> holds (end of input, or a line terminator follows), so no shorter
  run is ever tried. The result is capture group 1.
\<close>

definition dot_plus_eol :: "jsstring \<Rightarrow> jsstring option" where
  "dot_plus_eol s =
     (let t = takeWhile (\<lambda>c. \<not> line_terminator c) s
      in if t = [] then None else Some t)"

text \<open>
  \<^verbatim>\<open>\s*(.+)$\<close>: the greedy star first tries to take one more white-space code unit
  and falls back to stopping where it is when the rest of the pattern fails.
\<close>

fun ws_star_capture :: "jsstring \<Rightarrow> jsstring option" where
  "ws_star_capture [] = dot_plus_eol []"
| "ws_star_capture (c # cs) =
     (if white_space c
      then (case ws_star_capture cs of
              Some r \<Rightarrow> Some r
            | None \<Rightarrow> dot_plus_eol (c # cs))
      else dot_plus_eol (c # cs))"

text \<open>\<^verbatim>\<open>#\s+(.+)$\<close> and \<^verbatim>\<open>>\s*(.+)$\<close> tried at the head of the given text.\<close>

fun heading_here :: "jsstring \<Rightarrow> jsstring option" where
  "heading_here (h # w # cs) =
     (if h = 0x23 \<and> white_space w then ws_star_capture cs else None)"
| "heading_here _ = None"

fun quote_here :: "jsstring \<Rightarrow> jsstring option" where
  "quote_here (g # cs) = (if g = 0x3E then ws_star_capture cs else None)"
| "quote_here [] = None"

text \<open>
  \<^verbatim>\<open>String.prototype.match\<close> with a pattern that has no \<^verbatim>\<open>g\<close> flag: the start
  positions are tried from left to right and the first success is the result. Under the
  \<^verbatim>\<open>m\<close> flag \<^verbatim>\<open>^\<close> holds at position 0 and after every line terminator; the flag
  \<open>bol\<close> says whether it holds at the head of the remaining text.
\<close>

fun first_match :: "(jsstring \<Rightarrow> jsstring option) \<Rightarrow> bool \<Rightarrow> jsstring \<Rightarrow> jsstring option" where
  "first_match here bol [] = (if bol then here [] else None)"
| "first_match here bol (c # cs) =
     (case (if bol then here (c # cs) else None) of
        Some r \<Rightarrow> Some r
      | None \<Rightarrow> first_match here (line_terminator c) cs)"

text \<open>\<^verbatim>\<open>content.match(/^#\s+(.+)$/m)\<close> and \<^verbatim>\<open>content.match(/^>\s*(.+)$/m)\<close>:
  \<open>None\<close> is \<^verbatim>\<open>null\<close>, \<open>Some t\<close> is a match array whose element 1 is \<open>t\<close>.\<close>

definition match_heading :: "jsstring \<Rightarrow> jsstring option" where
  "match_heading content = first_match heading_here True content"

definition match_quote :: "jsstring \<Rightarrow> jsstring option" where
  "match_quote content = first_match quote_here True content"

section \<open>Format Converter: the text that is written\<close>

text \<open>Lines 30 to 34 of \<^verbatim>\<open>convertSkillToOpenCode\<close>.\<close>

definition skill_title :: "jsstring \<Rightarrow> jsstring \<Rightarrow> jsstring" where
  "skill_title skillName content =
     (case match_heading content of Some t \<Rightarrow> t | None \<Rightarrow> skillName)"

definition skill_description :: "jsstring \<Rightarrow> jsstring \<Rightarrow> jsstring" where
  "skill_description skillName content =
     (case match_quote content of
        Some d \<Rightarrow> d
      | None \<Rightarrow> skill_title skillName content @ lit '' skill'')"

text \<open>The template literal of lines 37 to 47.\<close>

definition skill_openCodeContent :: "jsstring \<Rightarrow> jsstring \<Rightarrow> jsstring" where
  "skill_openCodeContent skillName content =
     lit ''---\<newline>name: '' @ skillName
     @ lit ''\<newline>description: '' @ skill_description skillName content
     @ lit ''\<newline>license: MIT\<newline>compatibility: opencode\<newline>metadata:\<newline>  source: ai-dev-system\<newline>---\<newline>\<newline>''
     @ content @ lit ''\<newline>''"

text \<open>Lines 65 and 66 of \<^verbatim>\<open>convertAgentToOpenCode\<close>: \<^verbatim>\<open>a || b\<close> is \<open>a\<close> when
  \<open>a\<close> is a match array (every array is truthy) and \<open>b\<close> when \<open>a\<close> is \<^verbatim>\<open>null\<close>.\<close>

definition agent_descMatch :: "jsstring \<Rightarrow> jsstring option" where
  "agent_descMatch content =
     (case match_heading content of Some t \<Rightarrow> Some t | None \<Rightarrow> match_quote content)"

definition agent_description :: "jsstring \<Rightarrow> jsstring \<Rightarrow> jsstring" where
  "agent_description agentName content =
     (case agent_descMatch content of
        Some d \<Rightarrow> d
      | None \<Rightarrow> agentName @ lit '' agent'')"

text \<open>The template literal of lines 69 to 75.\<close>

definition agent_openCodeContent :: "jsstring \<Rightarrow> jsstring \<Rightarrow> jsstring" where
  "agent_openCodeContent agentName content =
     lit ''---\<newline>description: '' @ agent_description agentName content
     @ lit ''\<newline>model: anthropic/claude-sonnet-4-5\<newline>---\<newline>\<newline>''
     @ content @ lit ''\<newline>''"

section \<open>File system, console and exceptions\<close>

text \<open>
  A path is the list of its segments below the root: an absolute, normalised path.
  \<^verbatim>\<open>path.join(d, 'x')\<close> with a directory entry or a literal name \<open>x\<close> of the source is
  \<open>d @ [x]\<close>; the names that the user types are joined with \<open>path_join\<close> below. The file
  system is an association list from paths to nodes; the root \<open>[]\<close> is always a directory.
  A node is a file or a directory: the file system has no symbolic links and no hard
  links, so a path names its node and nothing else does.
\<close>

type_synonym path = "jsstring list"

datatype node = File jsstring | Dir

datatype error = ENOENT | EISDIR | ENOTDIR | EEXIST | TypeError | SyntaxError | CopyError

text \<open>What reaches the terminal: \<^verbatim>\<open>console.log\<close> lines and the final states of an
  \<^verbatim>\<open>ora\<close> spinner. The colours of \<^verbatim>\<open>chalk\<close> are not part of the text.\<close>

datatype event =
    Log jsstring
  | SpinnerStart jsstring
  | SpinnerSucceed jsstring
  | SpinnerFail jsstring
  | SpinnerWarn jsstring

record world =
  files :: "(path \<times> node) list"
  console :: "event list"

text \<open>A computation runs on the world and either returns a value or throws; the world
  it leaves behind is kept in both cases, since a caller may catch the exception.\<close>

type_synonym 'a io = "world \<Rightarrow> (error + 'a) \<times> world"

definition io_return :: "'a \<Rightarrow> 'a io" where
  "io_return x = (\<lambda>w. (Inr x, w))"

definition io_throw :: "error \<Rightarrow> 'a io" where
  "io_throw e = (\<lambda>w. (Inl e, w))"

definition io_bind :: "'a io \<Rightarrow> ('a \<Rightarrow> 'b io) \<Rightarrow> 'b io" where
  "io_bind m f = (\<lambda>w. case m w of (Inl e, w') \<Rightarrow> (Inl e, w') | (Inr x, w') \<Rightarrow> f x w')"

definition io_catch :: "'a io \<Rightarrow> (error \<Rightarrow> 'a io) \<Rightarrow> 'a io" where
  "io_catch m h = (\<lambda>w. case m w of (Inl e, w') \<Rightarrow> h e w' | (Inr x, w') \<Rightarrow> (Inr x, w'))"

definition io_lift :: "error + 'a \<Rightarrow> 'a io" where
  "io_lift r = (\<lambda>w. (r, w))"

text \<open>\<^verbatim>\<open>for (const x of xs) { await body(x) }\<close>\<close>

fun for_each :: "'a list \<Rightarrow> ('a \<Rightarrow> unit io) \<Rightarrow> unit io" where
  "for_each [] body = io_return ()"
| "for_each (x # xs) body = io_bind (body x) (\<lambda>_. for_each xs body)"

text \<open>\<^verbatim>\<open>xs.filter(x => test(x))\<close> with a test that may throw.\<close>

fun filter_io :: "('a \<Rightarrow> bool io) \<Rightarrow> 'a list \<Rightarrow> 'a list io" where
  "filter_io test [] = io_return []"
| "filter_io test (x # xs) =
     io_bind (test x) (\<lambda>keep.
     io_bind (filter_io test xs) (\<lambda>rest.
     io_return (if keep then x # rest else rest)))"

definition console_log :: "jsstring \<Rightarrow> unit io" where
  "console_log s = (\<lambda>w. (Inr (), w\<lparr>console := console w @ [Log s]\<rparr>))"

definition spinner :: "event \<Rightarrow> unit io" where
  "spinner ev = (\<lambda>w. (Inr (), w\<lparr>console := console w @ [ev]\<rparr>))"

definition node_at :: "world \<Rightarrow> path \<Rightarrow> node option" where
  "node_at w p = (if p = [] then Some Dir else map_of (files w) p)"

definition is_file :: "world \<Rightarrow> path \<Rightarrow> bool" where
  "is_file w p = (case node_at w p of Some (File c) \<Rightarrow> True | _ \<Rightarrow> False)"

definition is_dir :: "world \<Rightarrow> path \<Rightarrow> bool" where
  "is_dir w p = (node_at w p = Some Dir)"

text \<open>The names in a directory, in the order of the association list.\<close>

definition dir_entries :: "world \<Rightarrow> path \<Rightarrow> jsstring list" where
  "dir_entries w d = remdups [last p. p \<leftarrow> map fst (files w), p \<noteq> [], butlast p = d]"

definition existsSync :: "path \<Rightarrow> bool io" where
  "existsSync p = (\<lambda>w. (Inr (node_at w p \<noteq> None), w))"

definition readFileSync :: "path \<Rightarrow> jsstring io" where
  "readFileSync p =
     (\<lambda>w. case node_at w p of
            Some (File c) \<Rightarrow> (Inr c, w)
          | Some Dir \<Rightarrow> (Inl EISDIR, w)
          | None \<Rightarrow> (Inl ENOENT, w))"

text \<open>\<^verbatim>\<open>fs.writeFileSync(p, data)\<close> creates or replaces the file \<open>p\<close>; its
  directory must exist.\<close>

definition writeFileSync :: "path \<Rightarrow> jsstring \<Rightarrow> unit io" where
  "writeFileSync p data =
     (\<lambda>w. if is_dir w p then (Inl EISDIR, w)
          else (case node_at w (butlast p) of
                  Some Dir \<Rightarrow> (Inr (), w\<lparr>files := AList.update p (File data) (files w)\<rparr>)
                | Some (File c) \<Rightarrow> (Inl ENOTDIR, w)
                | None \<Rightarrow> (Inl ENOENT, w)))"

text \<open>\<^verbatim>\<open>fs.mkdirSync(p, { recursive: true })\<close>: every missing directory on the way to
  \<open>p\<close> is created; a file on the way makes the call fail and nothing is created.\<close>

definition mkdirSync_recursive :: "path \<Rightarrow> unit io" where
  "mkdirSync_recursive p =
     (\<lambda>w. if is_file w p then (Inl EEXIST, w)
          else if list_ex (is_file w) (prefixes p) then (Inl ENOTDIR, w)
          else (Inr (), w\<lparr>files :=
                  foldl (\<lambda>fs q. if q = [] \<or> map_of fs q \<noteq> None then fs else AList.update q Dir fs)
                        (files w) (prefixes p)\<rparr>))"

definition readdirSync :: "path \<Rightarrow> jsstring list io" where
  "readdirSync d =
     (\<lambda>w. case node_at w d of
            Some Dir \<Rightarrow> (Inr (dir_entries w d), w)
          | Some (File c) \<Rightarrow> (Inl ENOTDIR, w)
          | None \<Rightarrow> (Inl ENOENT, w))"

text \<open>\<^verbatim>\<open>fs.statSync(p).isDirectory()\<close>\<close>

definition statSync_isDirectory :: "path \<Rightarrow> bool io" where
  "statSync_isDirectory p =
     (\<lambda>w. case node_at w p of
            Some n \<Rightarrow> (Inr (n = Dir), w)
          | None \<Rightarrow> (Inl ENOENT, w))"

text \<open>\<^verbatim>\<open>String(n)\<close> for an array length.\<close>

function decimal :: "nat \<Rightarrow> jsstring" where
  "decimal n = (if n < 10 then [of_nat (48 + n)] else decimal (n div 10) @ [of_nat (48 + n mod 10)])"
  by pat_completeness auto
termination
  by (relation "measure id") auto

text \<open>\<^verbatim>\<open>s.endsWith(x)\<close>, \<^verbatim>\<open>s.replace(x, y)\<close> with a string pattern (the first
  occurrence only), \<^verbatim>\<open>xs.join(sep)\<close> and \<^verbatim>\<open>path.basename\<close>.\<close>

definition endsWith :: "jsstring \<Rightarrow> jsstring \<Rightarrow> bool" where
  "endsWith s x = (length x \<le> length s \<and> drop (length s - length x) s = x)"

fun replace_first :: "jsstring \<Rightarrow> jsstring \<Rightarrow> jsstring \<Rightarrow> jsstring" where
  "replace_first [] x y = (if x = [] then y else [])"
| "replace_first (c # cs) x y =
     (if take (length x) (c # cs) = x then y @ drop (length x) (c # cs)
      else c # replace_first cs x y)"

fun join_with :: "jsstring \<Rightarrow> jsstring list \<Rightarrow> jsstring" where
  "join_with sep [] = []"
| "join_with sep [x] = x"
| "join_with sep (x # y # ys) = x @ sep @ join_with sep (y # ys)"

definition basename :: "path \<Rightarrow> jsstring" where
  "basename p = (if p = [] then [] else last p)"

definition dq :: jsstring where
  "dq = [0x22]"

section \<open>sync.ts\<close>

subsection \<open>convertSkillToOpenCode and convertAgentToOpenCode\<close>

definition convertSkillToOpenCode :: "path \<Rightarrow> path \<Rightarrow> jsstring \<Rightarrow> unit io" where
  "convertSkillToOpenCode sourceSkillPath targetDir skillName =
     (let sourceFile = sourceSkillPath @ [lit ''SKILL.md'']
      in io_bind (existsSync sourceFile) (\<lambda>ex.
         if \<not> ex then io_return ()
         else
           io_bind (readFileSync sourceFile) (\<lambda>content.
           let openCodeContent = skill_openCodeContent skillName content;
               targetSkillDir = targetDir @ [skillName]
           in io_bind (mkdirSync_recursive targetSkillDir) (\<lambda>_.
              writeFileSync (targetSkillDir @ [lit ''SKILL.md'']) openCodeContent))))"

definition convertAgentToOpenCode :: "path \<Rightarrow> path \<Rightarrow> jsstring \<Rightarrow> unit io" where
  "convertAgentToOpenCode sourceAgentPath targetDir agentName =
     io_bind (readFileSync sourceAgentPath) (\<lambda>content.
     let openCodeContent = agent_openCodeContent agentName content
     in io_bind (mkdirSync_recursive targetDir) (\<lambda>_.
        writeFileSync (targetDir @ [agentName @ lit ''.md'']) openCodeContent))"

subsection \<open>generateCommands\<close>

definition command_description :: "jsstring \<Rightarrow> jsstring \<Rightarrow> jsstring" where
  "command_description skill content =
     (case match_quote content of
        Some d \<Rightarrow> d
      | None \<Rightarrow> lit ''Run '' @ skill @ lit '' skill'')"

definition commandContent :: "jsstring \<Rightarrow> jsstring \<Rightarrow> jsstring" where
  "commandContent skill content =
     lit ''---\<newline>description: '' @ command_description skill content
     @ lit ''\<newline>agent: build\<newline>---\<newline>\<newline>Load and execute the '' @ skill
     @ lit '' skill for the current context.\<newline>\<newline>Use the skill tool to load: skill({ name: ''
     @ dq @ skill @ dq
     @ lit '' })\<newline>\<newline>Then follow the skill instructions to complete the task.\<newline>\<newline>$ARGUMENTS\<newline>''"

text \<open>\<^verbatim>\<open>fs.readdirSync(dir).filter(f => fs.statSync(path.join(dir, f)).isDirectory())\<close>\<close>

definition skill_folders :: "path \<Rightarrow> jsstring list io" where
  "skill_folders dir =
     io_bind (readdirSync dir) (\<lambda>names.
     filter_io (\<lambda>f. statSync_isDirectory (dir @ [f])) names)"

definition generateCommands :: "path \<Rightarrow> path \<Rightarrow> unit io" where
  "generateCommands sourceSkillsDir targetCommandDir =
     io_bind (existsSync sourceSkillsDir) (\<lambda>ex.
     if \<not> ex then io_return ()
     else
       io_bind (mkdirSync_recursive targetCommandDir) (\<lambda>_.
       io_bind (skill_folders sourceSkillsDir) (\<lambda>skills.
       for_each skills (\<lambda>skill.
         let skillFile = sourceSkillsDir @ [skill, lit ''SKILL.md'']
         in io_bind (existsSync skillFile) (\<lambda>ex.
            if \<not> ex then io_return ()
            else
              io_bind (readFileSync skillFile) (\<lambda>content.
              writeFileSync (targetCommandDir @ [skill @ lit ''.md''])
                (commandContent skill content)))))))"

subsection \<open>generateOpenCodeConfig, generateAgentsMd, generatePluginTemplate\<close>

text \<open>\<^verbatim>\<open>JSON.stringify(config, null, 2)\<close> for the constant \<^verbatim>\<open>config\<close> of lines 127
  to 152.\<close>

definition opencode_config_text :: jsstring where
  "opencode_config_text =
     lit ''{\<newline>''
     @ lit ''  '' @ dq @ lit ''$schema'' @ dq @ lit '': '' @ dq @ lit ''https://opencode.ai/config.json'' @ dq @ lit '',\<newline>''
     @ lit ''  '' @ dq @ lit ''theme'' @ dq @ lit '': '' @ dq @ lit ''opencode'' @ dq @ lit '',\<newline>''
     @ lit ''  '' @ dq @ lit ''autoupdate'' @ dq @ lit '': true,\<newline>''
     @ lit ''  '' @ dq @ lit ''share'' @ dq @ lit '': '' @ dq @ lit ''manual'' @ dq @ lit '',\<newline>''
     @ lit ''  '' @ dq @ lit ''instructions'' @ dq @ lit '': [\<newline>''
     @ lit ''    '' @ dq @ lit ''.ai/context/index.md'' @ dq @ lit ''\<newline>''
     @ lit ''  ],\<newline>''
     @ lit ''  '' @ dq @ lit ''permission'' @ dq @ lit '': {\<newline>''
     @ lit ''    '' @ dq @ lit ''edit'' @ dq @ lit '': '' @ dq @ lit ''allow'' @ dq @ lit '',\<newline>''
     @ lit ''    '' @ dq @ lit ''write'' @ dq @ lit '': '' @ dq @ lit ''allow'' @ dq @ lit '',\<newline>''
     @ lit ''    '' @ dq @ lit ''bash'' @ dq @ lit '': '' @ dq @ lit ''allow'' @ dq @ lit '',\<newline>''
     @ lit ''    '' @ dq @ lit ''skill'' @ dq @ lit '': {\<newline>''
     @ lit ''      '' @ dq @ lit ''*'' @ dq @ lit '': '' @ dq @ lit ''allow'' @ dq @ lit ''\<newline>''
     @ lit ''    }\<newline>''
     @ lit ''  },\<newline>''
     @ lit ''  '' @ dq @ lit ''compaction'' @ dq @ lit '': {\<newline>''
     @ lit ''    '' @ dq @ lit ''auto'' @ dq @ lit '': true,\<newline>''
     @ lit ''    '' @ dq @ lit ''prune'' @ dq @ lit '': true\<newline>''
     @ lit ''  },\<newline>''
     @ lit ''  '' @ dq @ lit ''formatter'' @ dq @ lit '': {\<newline>''
     @ lit ''    '' @ dq @ lit ''prettier'' @ dq @ lit '': {\<newline>''
     @ lit ''      '' @ dq @ lit ''disabled'' @ dq @ lit '': false\<newline>''
     @ lit ''    }\<newline>''
     @ lit ''  }\<newline>''
     @ lit ''}''"

definition generateOpenCodeConfig :: "path \<Rightarrow> path \<Rightarrow> unit io" where
  "generateOpenCodeConfig targetDir projectDir =
     writeFileSync (projectDir @ [lit ''opencode.json'']) opencode_config_text"

definition agentsMd_content :: "jsstring \<Rightarrow> jsstring" where
  "agentsMd_content projectName =
     lit ''# '' @ projectName
     @ lit ''\<newline>''
     @ lit ''\<newline>''
     @ lit ''## Project Overview\<newline>''
     @ lit ''\<newline>''
     @ lit ''[Brief description of the project]\<newline>''
     @ lit ''\<newline>''
     @ lit ''## Tech Stack\<newline>''
     @ lit ''\<newline>''
     @ lit ''[List the main technologies used]\<newline>''
     @ lit ''\<newline>''
     @ lit ''## Development Commands\<newline>''
     @ lit ''\<newline>''
     @ lit ''```bash\<newline>''
     @ lit ''# Install dependencies\<newline>''
     @ lit ''npm install  # or bun install\<newline>''
     @ lit ''\<newline>''
     @ lit ''# Run development server\<newline>''
     @ lit ''npm run dev\<newline>''
     @ lit ''\<newline>''
     @ lit ''# Run tests\<newline>''
     @ lit ''npm test\<newline>''
     @ lit ''\<newline>''
     @ lit ''# Build for production\<newline>''
     @ lit ''npm run build\<newline>''
     @ lit ''```\<newline>''
     @ lit ''\<newline>''
     @ lit ''## Project Structure\<newline>''
     @ lit ''\<newline>''
     @ lit ''```\<newline>''
     @ lit ''src/\<newline>''
     @ [0x251C, 0x2500, 0x2500] @ lit '' components/    # UI components\<newline>''
     @ [0x251C, 0x2500, 0x2500] @ lit '' lib/           # Utility functions\<newline>''
     @ [0x251C, 0x2500, 0x2500] @ lit '' api/           # API routes/handlers\<newline>''
     @ [0x2514, 0x2500, 0x2500] @ lit '' types/         # TypeScript types\<newline>''
     @ lit ''```\<newline>''
     @ lit ''\<newline>''
     @ lit ''## Coding Standards\<newline>''
     @ lit ''\<newline>''
     @ lit ''- Follow the standards in `.ai/context/core/standards/`\<newline>''
     @ lit ''- Use conventional commits for git messages\<newline>''
     @ lit ''- Write tests for new features\<newline>''
     @ lit ''\<newline>''
     @ lit ''## Context Files\<newline>''
     @ lit ''\<newline>''
     @ lit ''This project uses ai-dev-system for AI-assisted development:\<newline>''
     @ lit ''\<newline>''
     @ lit ''- `.ai/context/` - Coding standards and workflows\<newline>''
     @ lit ''- `.ai/skills/` - Reusable AI skills\<newline>''
     @ lit ''- `.ai/agents/` - Specialized AI agents\<newline>''
     @ lit ''- `.ai/stacks/` - Tech stack configurations\<newline>''
     @ lit ''\<newline>''
     @ lit ''Load context with: `@.ai/context/index.md`\<newline>''"

definition generateAgentsMd :: "path \<Rightarrow> jsstring \<Rightarrow> unit io" where
  "generateAgentsMd projectDir projectName =
     (let content = agentsMd_content projectName;
          agentsMdPath = projectDir @ [lit ''AGENTS.md'']
      in io_bind (existsSync agentsMdPath) (\<lambda>ex.
         if \<not> ex then writeFileSync agentsMdPath content
         else io_return ()))"

definition pluginContent :: jsstring where
  "pluginContent =
     lit ''import type { Plugin } from '' @ dq @ lit ''@opencode-ai/plugin'' @ dq @ lit ''\<newline>''
     @ lit ''\<newline>''
     @ lit ''/**\<newline>''
     @ lit '' * AI Dev System Plugin\<newline>''
     @ lit '' * \<newline>''
     @ lit '' * Provides hooks for automatic context loading and protection.\<newline>''
     @ lit '' */\<newline>''
     @ lit ''export const AiDevPlugin: Plugin = async ({ project, client, $, directory }) => {\<newline>''
     @ lit ''  // Log plugin initialization\<newline>''
     @ lit ''  await client.app.log({\<newline>''
     @ lit ''    service: '' @ dq @ lit ''ai-dev-plugin'' @ dq @ lit '',\<newline>''
     @ lit ''    level: '' @ dq @ lit ''info'' @ dq @ lit '',\<newline>''
     @ lit ''    message: '' @ dq @ lit ''AI Dev System plugin loaded'' @ dq @ lit '',\<newline>''
     @ lit ''  })\<newline>''
     @ lit ''\<newline>''
     @ lit ''  return {\<newline>''
     @ lit ''    // Auto-load context when session starts\<newline>''
     @ lit ''    '' @ dq @ lit ''session.created'' @ dq @ lit '': async () => {\<newline>''
     @ lit ''      await client.app.log({\<newline>''
     @ lit ''        service: '' @ dq @ lit ''ai-dev-plugin'' @ dq @ lit '',\<newline>''
     @ lit ''        level: '' @ dq @ lit ''info'' @ dq @ lit '',\<newline>''
     @ lit ''        message: '' @ dq @ lit ''Session created - context available at .ai/context/index.md'' @ dq @ lit '',\<newline>''
     @ lit ''      })\<newline>''
     @ lit ''    },\<newline>''
     @ lit ''\<newline>''
     @ lit ''    // Protect sensitive files\<newline>''
     @ lit ''    '' @ dq @ lit ''tool.execute.before'' @ dq @ lit '': async (input, output) => {\<newline>''
     @ lit ''      const protectedPatterns = [\<newline>''
     @ lit ''        '' @ dq @ lit ''.env'' @ dq @ lit '',\<newline>''
     @ lit ''        '' @ dq @ lit ''credentials'' @ dq @ lit '',\<newline>''
     @ lit ''        '' @ dq @ lit ''secrets'' @ dq @ lit '',\<newline>''
     @ lit ''        '' @ dq @ lit ''.pem'' @ dq @ lit '',\<newline>''
     @ lit ''        '' @ dq @ lit ''.key'' @ dq @ lit '',\<newline>''
     @ lit ''        '' @ dq @ lit ''password'' @ dq @ lit '',\<newline>''
     @ lit ''      ]\<newline>''
     @ lit ''\<newline>''
     @ lit ''      if (input.tool === '' @ dq @ lit ''read'' @ dq @ lit '') {\<newline>''
     @ lit ''        const filePath = output.args.filePath?.toLowerCase() || '' @ dq @ dq @ lit ''\<newline>''
     @ lit ''        for (const pattern of protectedPatterns) {\<newline>''
     @ lit ''          if (filePath.includes(pattern)) {\<newline>''
     @ lit ''            throw new Error(`Protected file access denied: ${pattern}`)\<newline>''
     @ lit ''          }\<newline>''
     @ lit ''        }\<newline>''
     @ lit ''      }\<newline>''
     @ lit ''    },\<newline>''
     @ lit ''\<newline>''
     @ lit ''    // Notify on session completion (macOS)\<newline>''
     @ lit ''    '' @ dq @ lit ''session.idle'' @ dq @ lit '': async () => {\<newline>''
     @ lit ''      try {\<newline>''
     @ lit ''        await $`osascript -e 'display notification '' @ dq @ lit ''Task completed!'' @ dq @ lit '' with title '' @ dq @ lit ''OpenCode'' @ dq @ lit ''`\<newline>''
     @ lit ''      } catch {\<newline>''
     @ lit ''        // Notification failed, ignore (non-macOS or permission issue)\<newline>''
     @ lit ''      }\<newline>''
     @ lit ''    },\<newline>''
     @ lit ''\<newline>''
     @ lit ''    // Log file edits\<newline>''
     @ lit ''    '' @ dq @ lit ''file.edited'' @ dq @ lit '': async ({ path }) => {\<newline>''
     @ lit ''      await client.app.log({\<newline>''
     @ lit ''        service: '' @ dq @ lit ''ai-dev-plugin'' @ dq @ lit '',\<newline>''
     @ lit ''        level: '' @ dq @ lit ''debug'' @ dq @ lit '',\<newline>''
     @ lit ''        message: `File edited: ${path}`,\<newline>''
     @ lit ''      })\<newline>''
     @ lit ''    },\<newline>''
     @ lit ''  }\<newline>''
     @ lit ''}\<newline>''"

definition generatePluginTemplate :: "path \<Rightarrow> unit io" where
  "generatePluginTemplate targetDir =
     (let pluginDir = targetDir @ [lit ''plugin'']
      in io_bind (mkdirSync_recursive pluginDir) (\<lambda>_.
         writeFileSync (pluginDir @ [lit ''ai-dev-hooks.ts'']) pluginContent))"

subsection \<open>syncOpenCode\<close>

text \<open>\<^verbatim>\<open>getSourceAiDir()\<close> is the \<^verbatim>\<open>.ai\<close> directory of the installed package; it is
  the parameter \<open>sourceAiDir\<close>.\<close>

definition convert_skills :: "path \<Rightarrow> path \<Rightarrow> jsstring list \<Rightarrow> unit io" where
  "convert_skills skillsDir targetSkillsDir skills =
     for_each skills (\<lambda>skill.
       convertSkillToOpenCode (skillsDir @ [skill]) targetSkillsDir skill)"

definition convert_agents :: "path \<Rightarrow> path \<Rightarrow> jsstring list \<Rightarrow> unit io" where
  "convert_agents agentsDir targetAgentsDir agents =
     for_each agents (\<lambda>agent.
       let agentName = replace_first agent (lit ''.md'') []
       in convertAgentToOpenCode (agentsDir @ [agent]) targetAgentsDir agentName)"

definition syncOpenCode :: "path \<Rightarrow> path \<Rightarrow> unit io" where
  "syncOpenCode sourceAiDir projectDir =
     (let projectAiDir = projectDir @ [lit ''.ai''];
          openCodeDir = projectDir @ [lit ''.opencode'']
      in
      io_bind (existsSync projectAiDir) (\<lambda>ex.
      let aiDir = (if ex then projectAiDir else sourceAiDir) in
      io_bind (console_log ([0xD83D, 0xDD04] @ lit '' Syncing to OpenCode format...\<newline>'')) (\<lambda>_.
      io_bind (mkdirSync_recursive openCodeDir) (\<lambda>_.
      io_bind (console_log ([0xD83D, 0xDCC1] @ lit '' Created .opencode/ directory'')) (\<lambda>_.
      let skillsDir = aiDir @ [lit ''skills''];
          targetSkillsDir = openCodeDir @ [lit ''skill'']
      in
      io_bind (existsSync skillsDir) (\<lambda>ex.
      io_bind (if ex then
                 io_bind (skill_folders skillsDir) (\<lambda>skills.
                 io_bind (convert_skills skillsDir targetSkillsDir skills) (\<lambda>_.
                 console_log ([0x2705] @ lit '' Converted '' @ decimal (length skills)
                              @ lit '' skills to .opencode/skill/'')))
               else io_return ()) (\<lambda>_.
      let agentsDir = aiDir @ [lit ''agents''];
          targetAgentsDir = openCodeDir @ [lit ''agent'']
      in
      io_bind (existsSync agentsDir) (\<lambda>ex.
      io_bind (if ex then
                 io_bind (readdirSync agentsDir) (\<lambda>names.
                 let agents = filter (\<lambda>f. endsWith f (lit ''.md'')) names in
                 io_bind (convert_agents agentsDir targetAgentsDir agents) (\<lambda>_.
                 console_log ([0x2705] @ lit '' Converted '' @ decimal (length agents)
                              @ lit '' agents to .opencode/agent/'')))
               else io_return ()) (\<lambda>_.
      let targetCommandDir = openCodeDir @ [lit ''command''] in
      io_bind (generateCommands skillsDir targetCommandDir) (\<lambda>_.
      io_bind (console_log ([0x2705] @ lit '' Generated commands in .opencode/command/'')) (\<lambda>_.
      io_bind (generatePluginTemplate openCodeDir) (\<lambda>_.
      io_bind (console_log ([0x2705] @ lit '' Created plugin template .opencode/plugin/ai-dev-hooks.ts'')) (\<lambda>_.
      io_bind (generateOpenCodeConfig openCodeDir projectDir) (\<lambda>_.
      io_bind (console_log ([0x2705] @ lit '' Generated opencode.json'')) (\<lambda>_.
      let projectName = basename projectDir in
      io_bind (generateAgentsMd projectDir projectName) (\<lambda>_.
      io_bind (console_log ([0x2705] @ lit '' Generated AGENTS.md'')) (\<lambda>_.
      io_bind (console_log (lit ''\<newline>''
       @ [0xD83C, 0xDF89] @ lit '' OpenCode sync complete!\<newline>'')) (\<lambda>_.
      io_bind (console_log (lit ''Generated structure:'')) (\<lambda>_.
      io_bind (console_log (lit ''  .opencode/'')) (\<lambda>_.
      io_bind (console_log (lit ''  '' @ [0x251C, 0x2500, 0x2500] @ lit '' skill/        # Converted skills'')) (\<lambda>_.
      io_bind (console_log (lit ''  '' @ [0x251C, 0x2500, 0x2500] @ lit '' agent/        # Converted agents'')) (\<lambda>_.
      io_bind (console_log (lit ''  '' @ [0x251C, 0x2500, 0x2500] @ lit '' command/      # Generated commands'')) (\<lambda>_.
      io_bind (console_log (lit ''  '' @ [0x2514, 0x2500, 0x2500] @ lit '' plugin/       # Hook templates'')) (\<lambda>_.
      io_bind (console_log (lit ''  opencode.json     # Configuration'')) (\<lambda>_.
      io_bind (console_log (lit ''  AGENTS.md         # Project context'')) (\<lambda>_.
      console_log (lit ''\<newline>''
       @ lit ''Run `opencode` to start using!'')))))))))))))))))))))))))))"

subsection \<open>syncClaude and the sync commands\<close>

definition claudeMdContent :: "jsstring \<Rightarrow> jsstring \<Rightarrow> jsstring" where
  "claudeMdContent projectName skillList =
     lit ''# '' @ projectName
     @ lit ''\<newline>''
     @ lit ''\<newline>''
     @ lit ''## Project Overview\<newline>''
     @ lit ''\<newline>''
     @ lit ''[Brief description of the project]\<newline>''
     @ lit ''\<newline>''
     @ lit ''## Tech Stack\<newline>''
     @ lit ''\<newline>''
     @ lit ''[List the main technologies used]\<newline>''
     @ lit ''\<newline>''
     @ lit ''## Development Commands\<newline>''
     @ lit ''\<newline>''
     @ lit ''```bash\<newline>''
     @ lit ''npm install && npm run dev\<newline>''
     @ lit ''```\<newline>''
     @ lit ''\<newline>''
     @ lit ''## Context\<newline>''
     @ lit ''\<newline>''
     @ lit ''This project uses ai-dev-system. Load context from:\<newline>''
     @ lit ''- `.ai/context/index.md` - Main context index\<newline>''
     @ lit ''- `.ai/stacks/` - Tech stack standards\<newline>''
     @ lit ''\<newline>''
     @ lit ''## Skills\<newline>''
     @ lit ''\<newline>''
     @ lit ''Custom skills are available in `.claude/skills/`:\<newline>''
     @ skillList @ lit ''\<newline>''"

text \<open>Lines 457 to 461: \<^verbatim>\<open>CLAUDE.md\<close> is written only when it does not exist.\<close>

definition writeClaudeMd :: "path \<Rightarrow> jsstring \<Rightarrow> unit io" where
  "writeClaudeMd projectDir content =
     (let claudeMdPath = projectDir @ [lit ''CLAUDE.md'']
      in io_bind (existsSync claudeMdPath) (\<lambda>ex.
         if \<not> ex then
           io_bind (writeFileSync claudeMdPath content) (\<lambda>_.
           console_log ([0x2705] @ lit '' Generated CLAUDE.md''))
         else io_return ()))"

definition syncClaude :: "path \<Rightarrow> path \<Rightarrow> unit io" where
  "syncClaude sourceAiDir projectDir =
     (let projectAiDir = projectDir @ [lit ''.ai''];
          claudeDir = projectDir @ [lit ''.claude'']
      in
      io_bind (existsSync projectAiDir) (\<lambda>ex.
      let aiDir = (if ex then projectAiDir else sourceAiDir) in
      io_bind (console_log ([0xD83D, 0xDD04] @ lit '' Syncing to Claude Code format...\<newline>'')) (\<lambda>_.
      io_bind (mkdirSync_recursive (claudeDir @ [lit ''commands''])) (\<lambda>_.
      io_bind (mkdirSync_recursive (claudeDir @ [lit ''skills''])) (\<lambda>_.
      io_bind (console_log ([0xD83D, 0xDCC1] @ lit '' Created .claude/ directory'')) (\<lambda>_.
      let skillsDir = aiDir @ [lit ''skills''];
          targetSkillsDir = claudeDir @ [lit ''skills'']
      in
      io_bind (existsSync skillsDir) (\<lambda>ex.
      io_bind (if ex then
                 io_bind (skill_folders skillsDir) (\<lambda>skills.
                 io_bind (convert_skills skillsDir targetSkillsDir skills) (\<lambda>_.
                 console_log ([0x2705] @ lit '' Converted '' @ decimal (length skills)
                              @ lit '' skills to .claude/skills/'')))
               else io_return ()) (\<lambda>_.
      io_bind (generateCommands skillsDir (claudeDir @ [lit ''commands''])) (\<lambda>_.
      io_bind (console_log ([0x2705] @ lit '' Generated commands in .claude/commands/'')) (\<lambda>_.
      let projectName = basename projectDir in
      io_bind (existsSync skillsDir) (\<lambda>ex.
      io_bind (if ex then
                 io_bind (skill_folders skillsDir) (\<lambda>skills.
                 io_return (join_with (lit ''\<newline>'') (map (\<lambda>s. lit ''- '' @ s) skills)))
               else io_return (lit ''- (none)'')) (\<lambda>skillList.
      io_bind (writeClaudeMd projectDir (claudeMdContent projectName skillList)) (\<lambda>_.
      console_log (lit ''\<newline>''
       @ [0xD83C, 0xDF89] @ lit '' Claude Code sync complete!\<newline>''))))))))))))))"

text \<open>The three subcommands registered by \<^verbatim>\<open>registerSyncCommand\<close>.\<close>

datatype sync_target = opencode | claude | all_tools

definition sync :: "path \<Rightarrow> sync_target \<Rightarrow> path \<Rightarrow> unit io" where
  "sync sourceAiDir target dir =
     (case target of
        opencode \<Rightarrow> syncOpenCode sourceAiDir dir
      | claude \<Rightarrow> syncClaude sourceAiDir dir
      | all_tools \<Rightarrow>
          io_bind (syncOpenCode sourceAiDir dir) (\<lambda>_.
          io_bind (console_log (lit ''\<newline>---\<newline>'')) (\<lambda>_.
          syncClaude sourceAiDir dir)))"

section \<open>fs-extra and the helpers of paths.ts\<close>

text \<open>The promise API used by the detector and by the \<^verbatim>\<open>add\<close> command: a rejected
  promise that is awaited is a thrown exception.\<close>

definition directoryExists :: "path \<Rightarrow> bool io" where
  "directoryExists dir = (\<lambda>w. (Inr (is_dir w dir), w))"

definition fileExists :: "path \<Rightarrow> bool io" where
  "fileExists filePath = (\<lambda>w. (Inr (is_file w filePath), w))"

definition readdir :: "path \<Rightarrow> jsstring list io" where
  "readdir d = readdirSync d"

definition ensureDir :: "path \<Rightarrow> unit io" where
  "ensureDir d = mkdirSync_recursive d"

definition getTargetAiDir :: "path \<Rightarrow> path" where
  "getTargetAiDir targetDir = targetDir @ [lit ''.ai'']"

text \<open>The type \<^verbatim>\<open>Stack\<close> and the constant \<^verbatim>\<open>AVAILABLE_STACKS\<close>.\<close>

datatype Stack = react_typescript | php_laravel | node_express

fun stack_name :: "Stack \<Rightarrow> jsstring" where
  "stack_name react_typescript = lit ''react-typescript''"
| "stack_name php_laravel = lit ''php-laravel''"
| "stack_name node_express = lit ''node-express''"

definition AVAILABLE_STACKS :: "Stack list" where
  "AVAILABLE_STACKS = [react_typescript, php_laravel, node_express]"

section \<open>Parsed JSON and the JavaScript operations on it\<close>

text \<open>
  The value that \<^verbatim>\<open>JSON.parse\<close> returns. An object keeps its properties as an
  association list. The detector looks at a number only to see whether it is zero, so
  a number is kept as an integer.
\<close>

datatype json =
    JNull
  | JBool bool
  | JNum int
  | JStr jsstring
  | JArr "json list"
  | JObj "(jsstring \<times> json) list"

text \<open>\<^verbatim>\<open>v.k\<close> and \<^verbatim>\<open>v['k']\<close> for the property names the detector reads
  (\<^verbatim>\<open>require\<close>, \<^verbatim>\<open>require-dev\<close>, \<^verbatim>\<open>dependencies\<close>, \<^verbatim>\<open>devDependencies\<close>): a
  property of \<^verbatim>\<open>null\<close> throws a TypeError, an object gives its own property or
  \<^verbatim>\<open>undefined\<close> (\<open>None\<close>), and arrays, strings, numbers and booleans have no property
  of these names.\<close>

fun get_prop :: "json \<Rightarrow> jsstring \<Rightarrow> error + json option" where
  "get_prop JNull k = Inl TypeError"
| "get_prop (JObj kvs) k = Inr (map_of kvs k)"
| "get_prop _ k = Inr None"

text \<open>The own enumerable properties that \<^verbatim>\<open>{ ...v }\<close> copies: those of an object,
  the indices of an array or of a string, and nothing for \<^verbatim>\<open>undefined\<close>, \<^verbatim>\<open>null\<close>,
  numbers and booleans.\<close>

fun spread_props :: "json option \<Rightarrow> (jsstring \<times> json) list" where
  "spread_props (Some (JObj kvs)) = kvs"
| "spread_props (Some (JArr xs)) = zip (map decimal [0..<length xs]) xs"
| "spread_props (Some (JStr s)) = zip (map decimal [0..<length s]) (map (\<lambda>c. JStr [c]) s)"
| "spread_props _ = []"

text \<open>\<^verbatim>\<open>{ ...m[a], ...m[b] }\<close>: the properties of the second operand win.\<close>

definition merged_deps :: "json \<Rightarrow> jsstring \<Rightarrow> jsstring \<Rightarrow> error + (jsstring \<rightharpoonup> json)" where
  "merged_deps m a b =
     (case get_prop m a of
        Inl e \<Rightarrow> Inl e
      | Inr x \<Rightarrow>
          (case get_prop m b of
             Inl e \<Rightarrow> Inl e
           | Inr y \<Rightarrow> Inr (map_of (spread_props x) ++ map_of (spread_props y))))"

text \<open>The truth value of \<^verbatim>\<open>deps['name']\<close> in a condition.\<close>

fun truthy :: "json option \<Rightarrow> bool" where
  "truthy None = False"
| "truthy (Some JNull) = False"
| "truthy (Some (JBool b)) = b"
| "truthy (Some (JNum n)) = (n \<noteq> 0)"
| "truthy (Some (JStr s)) = (s \<noteq> [])"
| "truthy (Some (JArr xs)) = True"
| "truthy (Some (JObj kvs)) = True"

text \<open>\<^verbatim>\<open>fs.readJson(p)\<close> reads the file and parses it; \<^verbatim>\<open>JSON.parse\<close> is the
  parameter \<open>parse_json\<close>, \<open>None\<close> for a text that it rejects.\<close>

definition readJson :: "(jsstring \<Rightarrow> json option) \<Rightarrow> path \<Rightarrow> json io" where
  "readJson parse_json p =
     io_bind (readFileSync p) (\<lambda>text.
     case parse_json text of
       Some v \<Rightarrow> io_return v
     | None \<Rightarrow> io_throw SyntaxError)"

section \<open>detector.ts\<close>

datatype confidence = high | medium | low

record DetectionResult =
  stack :: "Stack option"
  confidence :: confidence
  reason :: jsstring

text \<open>Lines 17 to 34: the \<^verbatim>\<open>return\<close> inside the \<^verbatim>\<open>try\<close> is the result \<open>Some r\<close>;
  \<open>None\<close> lets \<^verbatim>\<open>detectStack\<close> go on. \<^verbatim>\<open>path.resolve\<close> of a path that is
  absolute already is that path.\<close>

definition check_composer :: "(jsstring \<Rightarrow> json option) \<Rightarrow> path \<Rightarrow> DetectionResult option io" where
  "check_composer parse_json resolvedDir =
     (let composerPath = resolvedDir @ [lit ''composer.json'']
      in io_bind (fileExists composerPath) (\<lambda>ex.
         if ex then
           io_catch
             (io_bind (readJson parse_json composerPath) (\<lambda>composer.
              io_bind (io_lift (merged_deps composer (lit ''require'') (lit ''require-dev''))) (\<lambda>deps.
              if truthy (deps (lit ''laravel/framework'')) then
                io_return (Some \<lparr>stack = Some php_laravel, confidence = high,
                                 reason = lit ''Found laravel/framework in composer.json''\<rparr>)
              else io_return None)))
             (\<lambda>_. io_return None)
         else io_return None))"

text \<open>Lines 36 to 72.\<close>

definition check_package :: "(jsstring \<Rightarrow> json option) \<Rightarrow> path \<Rightarrow> DetectionResult option io" where
  "check_package parse_json resolvedDir =
     (let packagePath = resolvedDir @ [lit ''package.json'']
      in io_bind (fileExists packagePath) (\<lambda>ex.
         if ex then
           io_catch
             (io_bind (readJson parse_json packagePath) (\<lambda>pkg.
              io_bind (io_lift (merged_deps pkg (lit ''dependencies'') (lit ''devDependencies''))) (\<lambda>deps.
              if truthy (deps (lit ''react'')) \<or> truthy (deps (lit ''react-dom'')) then
                io_return (Some \<lparr>stack = Some react_typescript, confidence = high,
                                 reason = lit ''Found react in package.json''\<rparr>)
              else if truthy (deps (lit ''express'')) then
                io_return (Some \<lparr>stack = Some node_express, confidence = high,
                                 reason = lit ''Found express in package.json''\<rparr>)
              else if truthy (deps (lit ''typescript'')) then
                io_return (Some \<lparr>stack = Some react_typescript, confidence = low,
                                 reason = lit ''Found typescript but no specific framework''\<rparr>)
              else io_return None)))
             (\<lambda>_. io_return None)
         else io_return None))"

text \<open>Lines 74 to 100.\<close>

definition scan_extensions :: "path \<Rightarrow> DetectionResult io" where
  "scan_extensions resolvedDir =
     io_bind (io_catch (readdir resolvedDir) (\<lambda>_. io_return [])) (\<lambda>files.
     let hasTsx = list_ex (\<lambda>f. endsWith f (lit ''.tsx'')) files;
         hasPhp = list_ex (\<lambda>f. endsWith f (lit ''.php'')) files
     in if hasTsx then
          io_return \<lparr>stack = Some react_typescript, confidence = medium,
                     reason = lit ''Found .tsx files in project root''\<rparr>
        else if hasPhp then
          io_return \<lparr>stack = Some php_laravel, confidence = low,
                     reason = lit ''Found .php files (assuming Laravel)''\<rparr>
        else
          io_return \<lparr>stack = None, confidence = low,
                     reason = lit ''Could not detect stack''\<rparr>)"

definition detectStack :: "(jsstring \<Rightarrow> json option) \<Rightarrow> path \<Rightarrow> DetectionResult io" where
  "detectStack parse_json projectDir =
     (let resolvedDir = projectDir
      in io_bind (check_composer parse_json resolvedDir) (\<lambda>found.
         case found of
           Some r \<Rightarrow> io_return r
         | None \<Rightarrow>
             io_bind (check_package parse_json resolvedDir) (\<lambda>found.
             case found of
               Some r \<Rightarrow> io_return r
             | None \<Rightarrow> scan_extensions resolvedDir)))"

definition isValidStack :: "jsstring \<Rightarrow> bool" where
  "isValidStack name = (name \<in> set (map stack_name AVAILABLE_STACKS))"

section \<open>The path module of Node and \<^verbatim>\<open>fs.copy\<close> of fs-extra\<close>

text \<open>\<^verbatim>\<open>s.split(c)\<close> for a separator of one code unit, and \<^verbatim>\<open>s.trim()\<close>, which strips
  the white space and the line terminators at both ends.\<close>

fun split_on :: "cu \<Rightarrow> jsstring \<Rightarrow> jsstring list" where
  "split_on sep [] = [[]]"
| "split_on sep (c # cs) =
     (if c = sep then [] # split_on sep cs
      else (case split_on sep cs of
              l # ls \<Rightarrow> (c # l) # ls
            | [] \<Rightarrow> [[c]]))"

definition trim :: "jsstring \<Rightarrow> jsstring" where
  "trim s = rev (dropWhile white_space (rev (dropWhile white_space s)))"

text \<open>
  \<^verbatim>\<open>path.join(p, s)\<close> on POSIX, for an absolute normalised path \<open>p\<close> and a string \<open>s\<close>:
  the result is normalised, so the segments of \<open>s\<close> between \<^verbatim>\<open>/\<close> are applied one by
  one; an empty segment and \<^verbatim>\<open>.\<close> change nothing, \<^verbatim>\<open>..\<close> removes the last segment (the
  root is its own parent) and every other segment is appended. A separator at the end of
  the result is not kept: the calls made on the result treat both forms alike.
\<close>

definition push_segment :: "path \<Rightarrow> jsstring \<Rightarrow> path" where
  "push_segment p s =
     (if s = [] \<or> s = lit ''.'' then p
      else if s = lit ''..'' then butlast p
      else p @ [s])"

definition path_join :: "path \<Rightarrow> jsstring \<Rightarrow> path" where
  "path_join p s = foldl push_segment p (split_on 0x2F s)"

text \<open>\<^verbatim>\<open>path.resolve(s)\<close> in the working directory \<open>cwd\<close>, and the string of an
  absolute path.\<close>

definition path_resolve :: "path \<Rightarrow> jsstring \<Rightarrow> path" where
  "path_resolve cwd s =
     (case s of
        [] \<Rightarrow> cwd
      | c # cs \<Rightarrow> if c = 0x2F then path_join [] s else path_join cwd s)"

definition path_string :: "path \<Rightarrow> jsstring" where
  "path_string p = (if p = [] then lit ''/'' else concat (map (\<lambda>s. 0x2F # s) p))"

text \<open>
  \<^verbatim>\<open>fs.copy(src, dest)\<close> of fs-extra with its default options (\<^verbatim>\<open>overwrite: true\<close>).
  The source must exist. A directory is not copied onto a file nor into itself, and a
  file is not copied onto a directory: fs-extra throws an error of its own. Otherwise the
  missing directories on the way are created and the file, or every entry below the
  source directory, is written at the destination, replacing the files that are there.
\<close>

definition copy_entry :: "path \<Rightarrow> path \<Rightarrow> path \<times> node \<Rightarrow> unit io" where
  "copy_entry src dest entry =
     (let target = dest @ drop (length src) (fst entry)
      in case snd entry of
           Dir \<Rightarrow> mkdirSync_recursive target
         | File c \<Rightarrow>
             io_bind (mkdirSync_recursive (butlast target)) (\<lambda>_.
             writeFileSync target c))"

definition fs_copy :: "path \<Rightarrow> path \<Rightarrow> unit io" where
  "fs_copy src dest =
     (\<lambda>w. case node_at w src of
            None \<Rightarrow> (Inl ENOENT, w)
          | Some (File c) \<Rightarrow>
              (if is_dir w dest then (Inl CopyError, w)
               else io_bind (mkdirSync_recursive (butlast dest)) (\<lambda>_.
                    writeFileSync dest c) w)
          | Some Dir \<Rightarrow>
              (if is_file w dest \<or> prefix src dest then (Inl CopyError, w)
               else io_bind (mkdirSync_recursive dest) (\<lambda>_.
                    for_each (filter (\<lambda>entry. strict_prefix src (fst entry)) (files w))
                      (copy_entry src dest)) w))"

section \<open>add.ts\<close>

text \<open>\<^verbatim>\<open>process.cwd()\<close> is the parameter \<open>cwd\<close> and \<^verbatim>\<open>getSourceAiDir()\<close> the parameter
  \<open>sourceDir\<close>. The text that \<^verbatim>\<open>${error}\<close> gives for a caught exception is the message
  of Node or of fs-extra; it is the parameter \<open>error_string\<close>.\<close>

text \<open>\<^verbatim>\<open>path.relative(from, to)\<close> on two absolute paths.\<close>

definition path_relative :: "path \<Rightarrow> path \<Rightarrow> jsstring" where
  "path_relative from to =
     (let k = length (longest_common_prefix from to)
      in join_with (lit ''/'') (replicate (length from - k) (lit ''..'') @ drop k to))"

definition addStack :: "path \<Rightarrow> path \<Rightarrow> jsstring \<Rightarrow> unit io" where
  "addStack sourceDir targetAiDir name =
     (if \<not> isValidStack name then
        io_bind (spinner (SpinnerFail (lit ''Invalid stack: '' @ name))) (\<lambda>_.
        console_log (lit ''Available stacks: ''
                     @ join_with (lit '', '') (map stack_name AVAILABLE_STACKS)))
      else
        let srcPath = path_join (sourceDir @ [lit ''stacks'']) name;
            destPath = path_join (targetAiDir @ [lit ''stacks'']) name
        in io_bind (directoryExists srcPath) (\<lambda>ex.
           if \<not> ex then spinner (SpinnerFail (lit ''Stack not found in source: '' @ name))
           else
             io_bind (directoryExists destPath) (\<lambda>ex.
             if ex then
               io_bind (spinner (SpinnerWarn (lit ''Stack already exists: '' @ name))) (\<lambda>_.
               console_log (lit ''  Use `ai-dev update --stack '' @ name @ lit ''` to update''))
             else
               io_bind (fs_copy srcPath destPath) (\<lambda>_.
               io_bind (spinner (SpinnerSucceed (lit ''Added stack: '' @ name))) (\<lambda>_.
               io_bind (console_log (lit ''  Location: .ai/stacks/'' @ name @ lit ''/'')) (\<lambda>_.
               io_bind (readdir destPath) (\<lambda>items.
               io_bind (console_log (lit ''  Contents:'')) (\<lambda>_.
               for_each items (\<lambda>item. console_log (lit ''    - '' @ item))))))))))"

text \<open>The loop of lines 103 to 110: the first stack that has the skill sets
  \<^verbatim>\<open>srcPath\<close> and \<^verbatim>\<open>destPath\<close> and ends the loop. The stack is a directory entry,
  the skill name is what the user typed.\<close>

fun find_in_stacks :: "path \<Rightarrow> path \<Rightarrow> jsstring \<Rightarrow> jsstring list \<Rightarrow> (path \<times> path) option io" where
  "find_in_stacks sourceDir targetAiDir name [] = io_return None"
| "find_in_stacks sourceDir targetAiDir name (stk # stacks) =
     (let stackSkillPath = path_join (sourceDir @ [lit ''stacks'', stk, lit ''skills'']) name
      in io_bind (directoryExists stackSkillPath) (\<lambda>ex.
         if ex then
           io_return (Some (stackSkillPath,
                            path_join (targetAiDir @ [lit ''stacks'', stk, lit ''skills'']) name))
         else find_in_stacks sourceDir targetAiDir name stacks))"

text \<open>Lines 117 to 137: the list of the available skills.\<close>

definition list_stack_skills :: "path \<Rightarrow> jsstring \<Rightarrow> unit io" where
  "list_stack_skills sourceDir stk =
     (let stackSkillsDir = sourceDir @ [lit ''stacks'', stk, lit ''skills'']
      in io_bind (directoryExists stackSkillsDir) (\<lambda>ex.
         if ex then
           io_bind (readdir stackSkillsDir) (\<lambda>stackSkills.
           if length stackSkills > 0 then
             io_bind (console_log (lit ''  '' @ stk @ lit '' skills:'')) (\<lambda>_.
             for_each stackSkills (\<lambda>s. console_log (lit ''    - '' @ s)))
           else io_return ())
         else io_return ()))"

definition list_available_skills :: "path \<Rightarrow> unit io" where
  "list_available_skills sourceDir =
     io_bind (console_log (lit ''\<newline>Available skills:'')) (\<lambda>_.
     io_bind (io_catch (readdir (sourceDir @ [lit ''skills''])) (\<lambda>_. io_return [])) (\<lambda>mainSkills.
     io_bind (if length mainSkills > 0 then
                io_bind (console_log (lit ''  Core skills:'')) (\<lambda>_.
                for_each mainSkills (\<lambda>s. console_log (lit ''    - '' @ s)))
              else io_return ()) (\<lambda>_.
     io_bind (io_catch (readdir (sourceDir @ [lit ''stacks''])) (\<lambda>_. io_return [])) (\<lambda>stacks.
     for_each stacks (list_stack_skills sourceDir)))))"

definition addSkill :: "path \<Rightarrow> path \<Rightarrow> path \<Rightarrow> jsstring \<Rightarrow> unit io" where
  "addSkill cwd sourceDir targetAiDir name =
     (let srcPath0 = path_join (sourceDir @ [lit ''skills'']) name;
          destPath0 = path_join (targetAiDir @ [lit ''skills'']) name
      in
      io_bind (directoryExists srcPath0) (\<lambda>ex.
      io_bind (if \<not> ex then
                 io_bind (readdir (sourceDir @ [lit ''stacks''])) (\<lambda>stacks.
                 io_bind (find_in_stacks sourceDir targetAiDir name stacks) (\<lambda>hit.
                 io_return (case hit of Some sd \<Rightarrow> sd | None \<Rightarrow> (srcPath0, destPath0))))
               else io_return (srcPath0, destPath0)) (\<lambda>(srcPath, destPath).
      io_bind (directoryExists srcPath) (\<lambda>ex.
      if \<not> ex then
        io_bind (spinner (SpinnerFail (lit ''Skill not found: '' @ name))) (\<lambda>_.
        list_available_skills sourceDir)
      else
        io_bind (directoryExists destPath) (\<lambda>ex.
        if ex then spinner (SpinnerWarn (lit ''Skill already exists: '' @ name))
        else
          io_bind (ensureDir (butlast destPath)) (\<lambda>_.
          io_bind (fs_copy srcPath destPath) (\<lambda>_.
          io_bind (spinner (SpinnerSucceed (lit ''Added skill: '' @ name))) (\<lambda>_.
          console_log (lit ''  Location: '' @ path_relative cwd destPath @ lit ''/'')))))))))"

definition add :: "(error \<Rightarrow> jsstring) \<Rightarrow> path \<Rightarrow> path \<Rightarrow> jsstring \<Rightarrow> jsstring \<Rightarrow> unit io" where
  "add error_string cwd sourceDir type name =
     (let targetDir = cwd;
          targetAiDir = getTargetAiDir targetDir
      in
      io_bind (console_log (lit ''\<newline>''
       @ [0x2795] @ lit '' Adding '' @ type @ lit '': '' @ name @ lit ''\<newline>'')) (\<lambda>_.
      io_bind (directoryExists targetAiDir) (\<lambda>ex.
      if \<not> ex then
        io_bind (console_log (lit ''Error: .ai directory not found.'')) (\<lambda>_.
        console_log (lit ''Run `ai-dev init` first to initialize the project.''))
      else if type \<noteq> lit ''stack'' \<and> type \<noteq> lit ''skill'' then
        io_bind (console_log (lit ''Invalid type: '' @ type)) (\<lambda>_.
        console_log (lit ''Valid types: stack, skill''))
      else
        io_bind (spinner (SpinnerStart (lit ''Adding '' @ type @ lit ''...''))) (\<lambda>_.
        io_catch
          (if type = lit ''stack'' then addStack sourceDir targetAiDir name
           else addSkill cwd sourceDir targetAiDir name)
          (\<lambda>error.
             io_bind (spinner (SpinnerFail (lit ''Failed to add '' @ type))) (\<lambda>_.
             console_log (lit ''  Error: '' @ error_string error)))))))"

section \<open>The Directory Synchronizer\<close>

text \<open>
  Modelled from the spec: \<^verbatim>\<open>copyAiDirectory\<close> of \<^verbatim>\<open>utils/copy.ts\<close>, which \<^verbatim>\<open>init\<close>
  imports and which is not among the sources. Section 4.2 of the specification: given a
  source root and a target root, plus an optional stack filter and an overwrite flag, it
  copies the relevant subset of the source tree into the target and returns the lists of
  copied, skipped and errored relative paths; existing target files are left untouched
  unless the overwrite flag is set, and a copy failure for one file does not abort the
  remaining copy operations. Section 3: the content tree is an immutable hierarchy of
  files, here the list of the relative paths and contents of its files.
\<close>

record CopyResult =
  copied :: "path list"
  skipped :: "path list"
  errors :: "path list"

datatype outcome = Copied | Skipped | Failed

text \<open>With a stack filter, the parts of the other stacks are not relevant.\<close>

fun relevant :: "Stack option \<Rightarrow> path \<Rightarrow> bool" where
  "relevant None rel = True"
| "relevant (Some s) (a # b # rest) = (a = lit ''stacks'' \<longrightarrow> b = stack_name s)"
| "relevant (Some s) rel = True"

definition copy_item :: "path \<Rightarrow> bool \<Rightarrow> path \<times> jsstring \<Rightarrow> outcome io" where
  "copy_item targetRoot overwrite item =
     (let dest = targetRoot @ fst item
      in io_bind (existsSync dest) (\<lambda>ex.
         if ex \<and> \<not> overwrite then io_return Skipped
         else
           io_catch
             (io_bind (mkdirSync_recursive (butlast dest)) (\<lambda>_.
              io_bind (writeFileSync dest (snd item)) (\<lambda>_.
              io_return Copied)))
             (\<lambda>_. io_return Failed)))"

fun record_outcome :: "outcome \<Rightarrow> path \<Rightarrow> CopyResult \<Rightarrow> CopyResult" where
  "record_outcome Copied rel r = r\<lparr>copied := copied r @ [rel]\<rparr>"
| "record_outcome Skipped rel r = r\<lparr>skipped := skipped r @ [rel]\<rparr>"
| "record_outcome Failed rel r = r\<lparr>errors := errors r @ [rel]\<rparr>"

fun copy_items :: "path \<Rightarrow> bool \<Rightarrow> (path \<times> jsstring) list \<Rightarrow> CopyResult \<Rightarrow> CopyResult io" where
  "copy_items targetRoot overwrite [] r = io_return r"
| "copy_items targetRoot overwrite (item # items) r =
     io_bind (copy_item targetRoot overwrite item) (\<lambda>out.
     copy_items targetRoot overwrite items (record_outcome out (fst item) r))"

definition copyAiDirectory ::
  "(path \<times> jsstring) list \<Rightarrow> path \<Rightarrow> Stack option \<Rightarrow> bool \<Rightarrow> CopyResult io" where
  "copyAiDirectory source targetRoot stackFilter overwrite =
     copy_items targetRoot overwrite (filter (\<lambda>item. relevant stackFilter (fst item)) source)
       \<lparr>copied = [], skipped = [], errors = []\<rparr>"

section \<open>init.ts\<close>

text \<open>
  Modelled from the spec: \<^verbatim>\<open>createBridges\<close> of \<^verbatim>\<open>utils/copy.ts\<close>, which \<^verbatim>\<open>init\<close>
  imports and which is not among the sources. Section 4.3 of the specification: given a
  target root and a set (or "all") of requested external-tool identifiers, it creates
  each tool's expected subdirectory skeleton, with no content beyond the directories and
  a short reference readme. The directories are those of the constant \<^verbatim>\<open>AI_BRIDGES\<close>
  of \<^verbatim>\<open>paths.ts\<close>; the readme, whose text is the parameter \<open>bridge_readme\<close>, is written
  unless the bridge has one, in keeping with the invariant of section 3 that no existing
  file of the target is overwritten. The result lists the bridges created and skipped,
  as \<^verbatim>\<open>init\<close> reads them.
\<close>

definition AI_BRIDGES :: "(jsstring \<times> jsstring) list" where
  "AI_BRIDGES =
     [(lit ''claude'', lit ''.claude''), (lit ''cursor'', lit ''.cursor''),
      (lit ''opencode'', lit ''.opencode''), (lit ''agent'', lit ''.agent'')]"

fun bridge_items ::
  "(jsstring \<Rightarrow> jsstring) \<Rightarrow> path \<Rightarrow> jsstring list \<Rightarrow> CopyResult \<Rightarrow> CopyResult io" where
  "bridge_items bridge_readme targetRoot [] r = io_return r"
| "bridge_items bridge_readme targetRoot (tool # tools) r =
     (case map_of AI_BRIDGES tool of
        None \<Rightarrow> io_throw TypeError
      | Some bridge \<Rightarrow>
          io_bind (mkdirSync_recursive (targetRoot @ [bridge])) (\<lambda>_.
          io_bind (existsSync (targetRoot @ [bridge, lit ''README.md''])) (\<lambda>ex.
          if ex then
            bridge_items bridge_readme targetRoot tools (r\<lparr>skipped := skipped r @ [[bridge]]\<rparr>)
          else
            io_bind (writeFileSync (targetRoot @ [bridge, lit ''README.md'']) (bridge_readme tool)) (\<lambda>_.
            bridge_items bridge_readme targetRoot tools (r\<lparr>copied := copied r @ [[bridge]]\<rparr>)))))"

definition createBridges ::
  "(jsstring \<Rightarrow> jsstring) \<Rightarrow> path \<Rightarrow> jsstring list option \<Rightarrow> CopyResult io" where
  "createBridges bridge_readme targetRoot aiTools =
     bridge_items bridge_readme targetRoot
       (case aiTools of None \<Rightarrow> map fst AI_BRIDGES | Some tools \<Rightarrow> tools)
       \<lparr>copied = [], skipped = [], errors = []\<rparr>"

text \<open>Modelled from the spec: the field \<^verbatim>\<open>success\<close> of the result of
  \<^verbatim>\<open>copyAiDirectory\<close>, which \<^verbatim>\<open>init\<close> reads. Section 4.2 collects the failures per
  item; the run is a success when there is none.\<close>

definition copy_success :: "CopyResult \<Rightarrow> bool" where
  "copy_success r = (errors r = [])"

text \<open>The options of \<^verbatim>\<open>init\<close>: \<open>None\<close> is \<^verbatim>\<open>undefined\<close>.\<close>

record InitOptions =
  opt_stack :: "jsstring option"
  opt_ai :: "jsstring option"
  opt_dir :: "jsstring option"
  opt_bridge :: "bool option"

text \<open>\<^verbatim>\<open>t in AI_BRIDGES\<close> holds for the four keys of the object and for the property
  names that every object inherits from \<^verbatim>\<open>Object.prototype\<close>.\<close>

definition object_prototype_names :: "jsstring list" where
  "object_prototype_names =
     [lit ''constructor'', lit ''__defineGetter__'', lit ''__defineSetter__'',
      lit ''hasOwnProperty'', lit ''__lookupGetter__'', lit ''__lookupSetter__'',
      lit ''isPrototypeOf'', lit ''propertyIsEnumerable'', lit ''toString'', lit ''valueOf'',
      lit ''__proto__'', lit ''toLocaleString'']"

definition in_AI_BRIDGES :: "jsstring \<Rightarrow> bool" where
  "in_AI_BRIDGES t = (t \<in> set (map fst AI_BRIDGES) \<or> t \<in> set object_prototype_names)"

text \<open>Lines 188 to 197: the tools handed to \<^verbatim>\<open>createBridges\<close>, \<open>None\<close> for
  \<^verbatim>\<open>'all'\<close>.\<close>

definition requested_tools :: "InitOptions \<Rightarrow> jsstring list option" where
  "requested_tools options =
     (case opt_ai options of
        None \<Rightarrow> None
      | Some ai \<Rightarrow>
          if ai \<noteq> [] \<and> ai \<noteq> lit ''all'' then
            (let requestedTools = map trim (split_on 0x2C ai);
                 validTools = filter in_AI_BRIDGES requestedTools
             in if length validTools > 0 then Some validTools else None)
          else None)"

fun confidence_name :: "confidence \<Rightarrow> jsstring" where
  "confidence_name high = lit ''high''"
| "confidence_name medium = lit ''medium''"
| "confidence_name low = lit ''low''"

text \<open>Lines 133 to 157, the first step: the result \<open>None\<close> is the \<^verbatim>\<open>return\<close> after
  an invalid stack name, \<open>Some s\<close> the value of the variable \<^verbatim>\<open>stack\<close> with which
  \<^verbatim>\<open>init\<close> goes on. An empty string is falsy, as \<^verbatim>\<open>undefined\<close> is.\<close>

definition select_stack ::
  "(jsstring \<Rightarrow> json option) \<Rightarrow> path \<Rightarrow> InitOptions \<Rightarrow> Stack option option io" where
  "select_stack parse_json targetDir options =
     (let given = (case opt_stack options of Some s \<Rightarrow> s | None \<Rightarrow> [])
      in
      if given \<noteq> [] then
        (if isValidStack given then
           io_bind (spinner (SpinnerSucceed (lit ''Using specified stack: '' @ given))) (\<lambda>_.
           io_return (Some (find (\<lambda>s. stack_name s = given) AVAILABLE_STACKS)))
         else
           io_bind (spinner (SpinnerFail (lit ''Invalid stack: '' @ given))) (\<lambda>_.
           io_bind (console_log (lit ''  Available stacks: react-typescript, php-laravel, node-express'')) (\<lambda>_.
           io_return None)))
      else
        io_bind (detectStack parse_json targetDir) (\<lambda>detection.
        case stack detection of
          Some stk \<Rightarrow>
            io_bind (spinner (SpinnerSucceed (lit ''Detected stack: '' @ stack_name stk @ lit '' (''
                       @ confidence_name (confidence detection) @ lit '' confidence)''))) (\<lambda>_.
            io_bind (console_log (lit ''  Reason: '' @ reason detection)) (\<lambda>_.
            io_return (Some (Some stk))))
        | None \<Rightarrow>
            io_bind (spinner (SpinnerWarn (lit ''Could not detect stack, copying all stacks''))) (\<lambda>_.
            io_return (Some None))))"

text \<open>The content tree below \<^verbatim>\<open>getSourceAiDir()\<close> is the parameter \<open>source\<close>, its
  path the parameter \<open>sourceDir\<close>; an item of a result is printed as its relative
  path.\<close>

definition init ::
  "(jsstring \<Rightarrow> json option) \<Rightarrow> (jsstring \<Rightarrow> jsstring) \<Rightarrow> (path \<times> jsstring) list
   \<Rightarrow> path \<Rightarrow> path \<Rightarrow> InitOptions \<Rightarrow> unit io" where
  "init parse_json bridge_readme source cwd sourceDir options =
     (let targetDir = path_resolve cwd
            (case opt_dir options of Some d \<Rightarrow> if d = [] then lit ''.'' else d | None \<Rightarrow> lit ''.'')
      in
      io_bind (console_log (lit ''\<newline>'' @ [0xD83D, 0xDE80] @ lit '' Initializing ai-dev-system\<newline>'')) (\<lambda>_.
      io_bind (console_log (lit ''  Target: '' @ path_string targetDir)) (\<lambda>_.
      io_bind (console_log (lit ''  Source: '' @ path_string sourceDir @ lit ''\<newline>'')) (\<lambda>_.
      io_bind (spinner (SpinnerStart (lit ''Detecting technology stack...''))) (\<lambda>_.
      io_bind (select_stack parse_json targetDir options) (\<lambda>selected.
      case selected of
        None \<Rightarrow> io_return ()
      | Some stk \<Rightarrow>
          io_bind (spinner (SpinnerStart (lit ''Copying .ai directory...''))) (\<lambda>_.
          io_bind (copyAiDirectory source targetDir stk False) (\<lambda>copyResult.
          io_bind (if copy_success copyResult \<and> length (copied copyResult) > 0 then
                     io_bind (spinner (SpinnerSucceed (lit ''Copied .ai directory''))) (\<lambda>_.
                     for_each (copied copyResult) (\<lambda>item.
                       console_log (lit ''  '' @ [0x2713] @ lit '' '' @ join_with (lit ''/'') item)))
                   else if length (skipped copyResult) > 0 then
                     io_bind (spinner (SpinnerWarn (lit ''Some items skipped''))) (\<lambda>_.
                     for_each (skipped copyResult) (\<lambda>item.
                       console_log (lit ''  '' @ [0x2298] @ lit '' '' @ join_with (lit ''/'') item)))
                   else io_return ()) (\<lambda>_.
          io_bind (if length (errors copyResult) > 0 then
                     for_each (errors copyResult) (\<lambda>item.
                       console_log (lit ''  '' @ [0x2717] @ lit '' '' @ join_with (lit ''/'') item))
                   else io_return ()) (\<lambda>_.
          io_bind (if opt_bridge options \<noteq> Some False then
                     io_bind (spinner (SpinnerStart (lit ''Creating AI tool bridges...''))) (\<lambda>_.
                     io_bind (createBridges bridge_readme targetDir (requested_tools options)) (\<lambda>bridgeResult.
                     if length (copied bridgeResult) > 0 then
                       io_bind (spinner (SpinnerSucceed (lit ''Created AI tool bridges''))) (\<lambda>_.
                       for_each (copied bridgeResult) (\<lambda>item.
                         console_log (lit ''  '' @ [0x2713] @ lit '' '' @ join_with (lit ''/'') item)))
                     else if length (skipped bridgeResult) > 0 then
                       io_bind (spinner (SpinnerWarn (lit ''Some bridges skipped''))) (\<lambda>_.
                       for_each (skipped bridgeResult) (\<lambda>item.
                         console_log (lit ''  '' @ [0x2298] @ lit '' '' @ join_with (lit ''/'') item)))
                     else io_return ()))
                   else io_return ()) (\<lambda>_.
          io_bind (console_log (lit ''\<newline>'' @ [0x2728] @ lit '' Initialization complete!\<newline>'')) (\<lambda>_.
          io_bind (console_log (lit ''Next steps:'')) (\<lambda>_.
          io_bind (console_log (lit ''  1. Review .ai/context/index.md for context loading rules'')) (\<lambda>_.
          io_bind (console_log (lit ''  2. Configure your AI tool to use the bridge directory'')) (\<lambda>_.
          io_bind (case stk of
                     Some s \<Rightarrow> console_log (lit ''  3. Stack-specific standards: .ai/stacks/'' @ stack_name s @ lit ''/'')
                   | None \<Rightarrow> io_return ()) (\<lambda>_.
          console_log []))))))))))))))))"

section \<open>Vocabulary of the properties\<close>

text \<open>The metadata header of a converted skill: the block between the two \<^verbatim>\<open>---\<close>
  lines of the template literal, line by line.\<close>

definition skill_frontmatter :: "jsstring \<Rightarrow> jsstring \<Rightarrow> jsstring" where
  "skill_frontmatter name description =
     lit ''---\<newline>''
     @ lit ''name: '' @ name @ lit ''\<newline>''
     @ lit ''description: '' @ description @ lit ''\<newline>''
     @ lit ''license: MIT\<newline>''
     @ lit ''compatibility: opencode\<newline>''
     @ lit ''metadata:\<newline>''
     @ lit ''  source: ai-dev-system\<newline>''
     @ lit ''---\<newline>''"

definition agent_frontmatter :: "jsstring \<Rightarrow> jsstring" where
  "agent_frontmatter description =
     lit ''---\<newline>''
     @ lit ''description: '' @ description @ lit ''\<newline>''
     @ lit ''model: anthropic/claude-sonnet-4-5\<newline>''
     @ lit ''---\<newline>''"

text \<open>\<open>includes_text s x\<close>: the text \<open>x\<close> occurs in \<open>s\<close>.\<close>

fun includes_text :: "jsstring \<Rightarrow> jsstring \<Rightarrow> bool" where
  "includes_text [] x = (x = [])"
| "includes_text (c # cs) x = (take (length x) (c # cs) = x \<or> includes_text cs x)"

text \<open>The lines of a text: every line terminator ends a line.\<close>

fun split_lines :: "jsstring \<Rightarrow> jsstring list" where
  "split_lines [] = [[]]"
| "split_lines (c # cs) =
     (if line_terminator c then [] # split_lines cs
      else (case split_lines cs of
              l # ls \<Rightarrow> (c # l) # ls
            | [] \<Rightarrow> [[c]]))"

definition single_line :: "jsstring \<Rightarrow> bool" where
  "single_line s = list_all (\<lambda>c. \<not> line_terminator c) s"

text \<open>A level-1 heading line is \<^verbatim>\<open>#\<close>, white space and a text; a block-quote line is
  \<^verbatim>\<open>>\<close>, optional white space and a text. The text starts at the first code unit that
  is no white space.\<close>

fun heading_line_text :: "jsstring \<Rightarrow> jsstring option" where
  "heading_line_text (h # w # r) =
     (if h = 0x23 \<and> white_space w \<and> dropWhile white_space r \<noteq> []
      then Some (dropWhile white_space r) else None)"
| "heading_line_text _ = None"

fun quote_line_text :: "jsstring \<Rightarrow> jsstring option" where
  "quote_line_text (g # r) =
     (if g = 0x3E \<and> dropWhile white_space r \<noteq> []
      then Some (dropWhile white_space r) else None)"
| "quote_line_text [] = None"

text \<open>A line at whose start a pattern begins to match: one that starts with \<^verbatim>\<open>>\<close>,
  or with \<^verbatim>\<open>#\<close> followed by white space or by the end of the line (the line
  terminator is white space for \<^verbatim>\<open>\s\<close>).\<close>

definition starts_quote :: "jsstring \<Rightarrow> bool" where
  "starts_quote l = (case l of [] \<Rightarrow> False | c # r \<Rightarrow> c = 0x3E)"

definition starts_heading :: "jsstring \<Rightarrow> bool" where
  "starts_heading l =
     (case l of
        [] \<Rightarrow> False
      | c # r \<Rightarrow> c = 0x23 \<and> (case r of [] \<Rightarrow> True | w # r' \<Rightarrow> white_space w))"

text \<open>A text made of complete lines, each given with the line terminator that ends it.\<close>

definition lines_text :: "(jsstring \<times> cu) list \<Rightarrow> jsstring" where
  "lines_text ls = concat (map (\<lambda>(l, t). l @ [t]) ls)"

text \<open>The dependency table that the detector builds from a manifest: \<open>None\<close> when the
  file is missing or a directory, when the parser rejects it, or when reading the two
  sections throws. \<open>declares\<close> is the test \<^verbatim>\<open>if (deps[name])\<close> on that table.\<close>

definition manifest_deps ::
  "(jsstring \<Rightarrow> json option) \<Rightarrow> world \<Rightarrow> path \<Rightarrow> jsstring \<Rightarrow> jsstring \<Rightarrow> (jsstring \<rightharpoonup> json) option" where
  "manifest_deps parse_json w file a b =
     (case node_at w file of
        Some (File text) \<Rightarrow>
          (case parse_json text of
             Some m \<Rightarrow> (case merged_deps m a b of Inr deps \<Rightarrow> Some deps | Inl e \<Rightarrow> None)
           | None \<Rightarrow> None)
      | _ \<Rightarrow> None)"

definition declares ::
  "(jsstring \<Rightarrow> json option) \<Rightarrow> world \<Rightarrow> path \<Rightarrow> jsstring \<Rightarrow> jsstring \<Rightarrow> jsstring \<Rightarrow> bool" where
  "declares parse_json w file a b name =
     (case manifest_deps parse_json w file a b of
        Some deps \<Rightarrow> truthy (deps name)
      | None \<Rightarrow> False)"

definition composer_declares :: "(jsstring \<Rightarrow> json option) \<Rightarrow> world \<Rightarrow> path \<Rightarrow> jsstring \<Rightarrow> bool" where
  "composer_declares parse_json w dir name =
     declares parse_json w (dir @ [lit ''composer.json'']) (lit ''require'') (lit ''require-dev'') name"

definition package_declares :: "(jsstring \<Rightarrow> json option) \<Rightarrow> world \<Rightarrow> path \<Rightarrow> jsstring \<Rightarrow> bool" where
  "package_declares parse_json w dir name =
     declares parse_json w (dir @ [lit ''package.json'']) (lit ''dependencies'') (lit ''devDependencies'') name"

text \<open>The names that \<^verbatim>\<open>readdir\<close> gives for the project directory, none when it
  rejects.\<close>

definition top_level_files :: "world \<Rightarrow> path \<Rightarrow> jsstring list" where
  "top_level_files w dir = (if is_dir w dir then dir_entries w dir else [])"

text \<open>\<open>keeps W m\<close>: whatever \<open>m\<close> does and however it ends, every path outside \<open>W\<close> that
  exists before exists afterwards with the same node.\<close>

definition keeps :: "path set \<Rightarrow> 'a io \<Rightarrow> bool" where
  "keeps W m =
     (\<forall>w r w' p. m w = (r, w') \<longrightarrow> p \<notin> W \<longrightarrow> node_at w p \<noteq> None \<longrightarrow> node_at w' p = node_at w p)"


text \<open>\<open>tree w\<close>: every entry of the file system lies in a directory, as the entries
  of a file system do.\<close>

definition tree :: "world \<Rightarrow> bool" where
  "tree w = list_all (\<lambda>entry. fst entry \<noteq> [] \<and> is_dir w (butlast (fst entry))) (files w)"

text \<open>\<open>grows w w'\<close>: every path that exists in \<open>w\<close> holds the same node in \<open>w'\<close>.
  \<open>blocked w dest\<close>: a file lies on the way to \<open>dest\<close>, so that its directory cannot
  be created.\<close>

definition grows :: "world \<Rightarrow> world \<Rightarrow> bool" where
  "grows w w' = (\<forall>p. node_at w p \<noteq> None \<longrightarrow> node_at w' p = node_at w p)"

definition blocked :: "world \<Rightarrow> path \<Rightarrow> bool" where
  "blocked w dest = list_ex (is_file w) (prefixes (butlast dest))"

text \<open>A name that is one path segment.\<close>

definition segment :: "jsstring \<Rightarrow> bool" where
  "segment name = (name \<noteq> [] \<and> name \<noteq> lit ''.'' \<and> name \<noteq> lit ''..'' \<and> 0x2F \<notin> set name)"

text \<open>The lines with which \<^verbatim>\<open>addSkill\<close> lists the skills of the source tree.\<close>

definition core_skill_names :: "world \<Rightarrow> path \<Rightarrow> jsstring list" where
  "core_skill_names w sourceDir =
     (if is_dir w (sourceDir @ [lit ''skills'']) then dir_entries w (sourceDir @ [lit ''skills''])
      else [])"

definition stack_skill_names :: "world \<Rightarrow> path \<Rightarrow> jsstring \<Rightarrow> jsstring list" where
  "stack_skill_names w sourceDir stk =
     (if is_dir w (sourceDir @ [lit ''stacks'', stk, lit ''skills''])
      then dir_entries w (sourceDir @ [lit ''stacks'', stk, lit ''skills''])
      else [])"

definition skill_lines :: "jsstring \<Rightarrow> jsstring list \<Rightarrow> event list" where
  "skill_lines title names =
     (if names = [] then [] else Log title # map (\<lambda>s. Log (lit ''    - '' @ s)) names)"

definition available_skills_lines :: "world \<Rightarrow> path \<Rightarrow> event list" where
  "available_skills_lines w sourceDir =
     Log (lit ''\<newline>Available skills:'')
     # skill_lines (lit ''  Core skills:'') (core_skill_names w sourceDir)
     @ concat (map (\<lambda>stk. skill_lines (lit ''  '' @ stk @ lit '' skills:'')
                              (stack_skill_names w sourceDir stk))
                   (top_level_files w (sourceDir @ [lit ''stacks''])))"

section \<open>Lemmas on computations\<close>

lemma io_bind_known: "m w = (Inr x, w1) \<Longrightarrow> io_bind m f w = f x w1"
  by (simp add: io_bind_def)

lemma io_bind_Inr:
  "io_bind m f w = (Inr y, w') \<Longrightarrow> \<exists>x w1. m w = (Inr x, w1) \<and> f x w1 = (Inr y, w')"
  by (auto simp: io_bind_def split: prod.splits sum.splits)

lemma run_result: "fst p = Inr u \<Longrightarrow> p = (Inr u, snd p)"
  by (cases p) simp

lemma writeFileSync_Inr:
  "writeFileSync p d w = (Inr u, w') \<Longrightarrow> node_at w' p = Some (File d)"
  by (auto simp: writeFileSync_def node_at_def is_dir_def update_conv'
           split: if_splits option.splits node.splits)

section \<open>Lemmas on the patterns\<close>

lemma dot_plus_eol_Some:
  "dot_plus_eol s = Some t \<Longrightarrow> t \<noteq> [] \<and> single_line t"
  by (auto simp: dot_plus_eol_def single_line_def Let_def list_all_iff split: if_splits
           dest: set_takeWhileD)

lemma ws_star_capture_Some:
  "ws_star_capture s = Some t \<Longrightarrow> t \<noteq> [] \<and> single_line t"
  by (induction s) (auto split: if_splits option.splits dest: dot_plus_eol_Some)

lemma first_match_Some:
  assumes "first_match here bol s = Some t" and "\<And>u. here u = Some t \<Longrightarrow> P"
  shows P
  using assms by (induction s arbitrary: bol) (auto split: if_splits option.splits)

lemma match_heading_Some:
  assumes "match_heading content = Some t"
  shows "t \<noteq> [] \<and> single_line t"
proof (rule first_match_Some[OF assms[unfolded match_heading_def]])
  fix u assume "heading_here u = Some t"
  then show "t \<noteq> [] \<and> single_line t"
    by (cases u rule: heading_here.cases) (auto split: if_splits dest: ws_star_capture_Some)
qed


section \<open>What the patterns capture, line by line\<close>

lemma line_terminator_white_space: "line_terminator c \<Longrightarrow> white_space c"
  by (simp add: white_space_def)

lemma first_match_inside_line:
  "single_line l \<Longrightarrow> line_terminator t
   \<Longrightarrow> first_match here False (l @ t # s) = first_match here True s"
  by (induction l) (simp_all add: single_line_def)

lemma first_match_next_line:
  assumes "single_line l" and "line_terminator t" and "here (l @ t # s) = None"
  shows "first_match here True (l @ t # s) = first_match here True s"
proof (cases l)
  case Nil
  with assms show ?thesis by simp
next
  case (Cons c cs)
  with assms(1) have c: "\<not> line_terminator c" and cs: "single_line cs"
    by (simp_all add: single_line_def)
  from assms(3) Cons have "first_match here True (l @ t # s) = first_match here False (cs @ t # s)"
    using c by simp
  with first_match_inside_line[OF cs assms(2)] show ?thesis by simp
qed

lemma first_match_skips_lines:
  assumes "\<forall>(l, t) \<in> set ls. single_line l \<and> line_terminator t
             \<and> (\<forall>s. here (l @ t # s) = None)"
  shows "first_match here True (lines_text ls @ s) = first_match here True s"
  using assms
proof (induction ls)
  case Nil
  show ?case by (simp add: lines_text_def)
next
  case (Cons a ls)
  obtain l t where a: "a = (l, t)" by (cases a)
  with Cons.prems have "single_line l" "line_terminator t" "here (l @ t # lines_text ls @ s) = None"
    by auto
  from first_match_next_line[where here = here, OF this] Cons a show ?case
    by (simp add: lines_text_def)
qed

lemma first_match_here:
  "here s = Some r \<Longrightarrow> first_match here True s = Some r"
  by (cases s) simp_all

lemma dot_plus_eol_line:
  assumes "single_line l" and "l \<noteq> []" and "rest = [] \<or> line_terminator (hd rest)"
  shows "dot_plus_eol (l @ rest) = Some l"
proof -
  have "takeWhile (\<lambda>c. \<not> line_terminator c) (l @ rest) = l"
    using assms(1,3) by (cases rest) (auto simp: single_line_def list_all_iff takeWhile_append2)
  with assms(2) show ?thesis
    by (simp add: dot_plus_eol_def)
qed

lemma ws_star_capture_line:
  assumes "single_line r" and "dropWhile white_space r \<noteq> []"
    and "rest = [] \<or> line_terminator (hd rest)"
  shows "ws_star_capture (r @ rest) = Some (dropWhile white_space r)"
  using assms(1,2)
proof (induction r)
  case Nil
  then show ?case by simp
next
  case (Cons c cs)
  from Cons.prems(1) have cs: "single_line cs"
    by (simp add: single_line_def)
  show ?case
  proof (cases "white_space c")
    case True
    with Cons cs show ?thesis by simp
  next
    case False
    with dot_plus_eol_line[OF Cons.prems(1) _ assms(3)] show ?thesis by simp
  qed
qed

lemma quote_here_line:
  assumes "quote_line_text l = Some cap" and "single_line l"
    and "rest = [] \<or> line_terminator (hd rest)"
  shows "quote_here (l @ rest) = Some cap"
proof (cases l)
  case Nil
  with assms(1) show ?thesis by simp
next
  case (Cons g r)
  with assms(1) have g: "g = 0x3E" and t: "dropWhile white_space r \<noteq> []"
    and cap: "cap = dropWhile white_space r"
    by (auto split: if_splits)
  from assms(2) Cons have "single_line r"
    by (simp add: single_line_def)
  from ws_star_capture_line[OF this t assms(3)] Cons g cap show ?thesis by simp
qed

lemma heading_here_line:
  assumes "heading_line_text l = Some cap" and "single_line l"
    and "rest = [] \<or> line_terminator (hd rest)"
  shows "heading_here (l @ rest) = Some cap"
proof -
  from assms(1) obtain h w r where l: "l = h # w # r"
    by (cases l rule: heading_line_text.cases) simp_all
  with assms(1) have h: "h = 0x23" "white_space w" and t: "dropWhile white_space r \<noteq> []"
    and cap: "cap = dropWhile white_space r"
    by (auto split: if_splits)
  from assms(2) l have "single_line r"
    by (simp add: single_line_def)
  from ws_star_capture_line[OF this t assms(3)] l h cap show ?thesis by simp
qed

lemma quote_here_other_line:
  "\<not> starts_quote l \<Longrightarrow> line_terminator t \<Longrightarrow> quote_here (l @ t # s) = None"
  by (cases l) (auto simp: starts_quote_def line_terminator_def)

lemma heading_here_other_line:
  "\<not> starts_heading l \<Longrightarrow> line_terminator t \<Longrightarrow> heading_here (l @ t # s) = None"
proof (cases l)
  case Nil
  assume "line_terminator t"
  with Nil show ?thesis by (cases s) (auto simp: line_terminator_def)
next
  case (Cons c r)
  assume n: "\<not> starts_heading l" and t: "line_terminator t"
  show ?thesis
  proof (cases r)
    case Nil
    with Cons n t show ?thesis
      by (simp add: starts_heading_def line_terminator_white_space)
  next
    case (Cons w r')
    with \<open>l = c # r\<close> n show ?thesis
      by (auto simp: starts_heading_def)
  qed
qed

text \<open>The description of a skill is the text of the first line that starts with
  \<^verbatim>\<open>>\<close>, when that line has a text.\<close>

lemma match_quote_first_line:
  assumes "\<forall>(l, t) \<in> set before. single_line l \<and> line_terminator t \<and> \<not> starts_quote l"
    and "quote_line_text l = Some cap" and "single_line l"
    and "rest = [] \<or> line_terminator (hd rest)"
  shows "match_quote (lines_text before @ l @ rest) = Some cap"
proof -
  from assms(1) have "\<forall>(l, t) \<in> set before. single_line l \<and> line_terminator t
      \<and> (\<forall>s. quote_here (l @ t # s) = None)"
    by (auto simp: quote_here_other_line)
  from first_match_skips_lines[OF this]
    first_match_here[where here = quote_here, OF quote_here_line[OF assms(2-4)]]
  show ?thesis by (simp add: match_quote_def)
qed

text \<open>The title is the text of the first line that starts with \<^verbatim>\<open>#\<close> and white space
  or the end of the line, when that line has a text.\<close>

lemma match_heading_first_line:
  assumes "\<forall>(l, t) \<in> set before. single_line l \<and> line_terminator t \<and> \<not> starts_heading l"
    and "heading_line_text l = Some cap" and "single_line l"
    and "rest = [] \<or> line_terminator (hd rest)"
  shows "match_heading (lines_text before @ l @ rest) = Some cap"
proof -
  from assms(1) have "\<forall>(l, t) \<in> set before. single_line l \<and> line_terminator t
      \<and> (\<forall>s. heading_here (l @ t # s) = None)"
    by (auto simp: heading_here_other_line)
  from first_match_skips_lines[OF this]
    first_match_here[where here = heading_here, OF heading_here_line[OF assms(2-4)]]
  show ?thesis by (simp add: match_heading_def)
qed

text \<open>\<^verbatim>\<open>\s\<close> matches line terminators: a marker with nothing but white space after it
  takes its text from a later line.\<close>

lemma pattern_runs_over_line_end:
  "match_quote (lit ''>\<newline>> real quote'') = Some (lit ''> real quote'')"
  "match_heading (lit ''#\<newline>body\<newline># Real title'') = Some (lit ''body'')"
  by (simp_all add: match_quote_def match_heading_def lit_def white_space_def line_terminator_def
        dot_plus_eol_def)

section \<open>Lines\<close>

lemma split_lines_not_Nil: "split_lines s \<noteq> []"
  by (induction s) (auto split: list.splits)

lemma split_lines_line:
  "single_line a \<Longrightarrow> line_terminator t \<Longrightarrow> split_lines (a @ t # rest) = a # split_lines rest"
  by (induction a) (auto simp: single_line_def split: list.splits)

lemma split_lines_last:
  "single_line a \<Longrightarrow> split_lines a = [a]"
  by (induction a) (auto simp: single_line_def split: list.splits)




section \<open>The converted files\<close>

lemma skill_openCodeContent_split:
  "skill_openCodeContent name content =
     skill_frontmatter name (skill_description name content) @ lit ''\<newline>'' @ content @ lit ''\<newline>''"
  by (simp add: skill_openCodeContent_def skill_frontmatter_def lit_def)

lemma agent_openCodeContent_split:
  "agent_openCodeContent name content =
     agent_frontmatter (agent_description name content) @ lit ''\<newline>'' @ content @ lit ''\<newline>''"
  by (simp add: agent_openCodeContent_def agent_frontmatter_def lit_def)

lemma convertSkillToOpenCode_writes:
  assumes src: "node_at w (src @ [lit ''SKILL.md'']) = Some (File content)"
    and run: "convertSkillToOpenCode src tgt name w = (Inr u, w')"
  shows "node_at w' (tgt @ [name, lit ''SKILL.md'']) = Some (File (skill_openCodeContent name content))"
proof -
  have ex: "existsSync (src @ [lit ''SKILL.md'']) w = (Inr True, w)"
    using src by (simp add: existsSync_def)
  have rd: "readFileSync (src @ [lit ''SKILL.md'']) w = (Inr content, w)"
    using src by (simp add: readFileSync_def)
  from run have "io_bind (mkdirSync_recursive (tgt @ [name]))
       (\<lambda>_. writeFileSync (tgt @ [name, lit ''SKILL.md'']) (skill_openCodeContent name content)) w = (Inr u, w')"
    by (simp add: convertSkillToOpenCode_def Let_def
          io_bind_known[of "existsSync (src @ [lit ''SKILL.md''])" w, OF ex]
          io_bind_known[of "readFileSync (src @ [lit ''SKILL.md''])" w, OF rd])
  then obtain w1 where "writeFileSync (tgt @ [name, lit ''SKILL.md'']) (skill_openCodeContent name content) w1 = (Inr u, w')"
    by (blast dest: io_bind_Inr)
  then show ?thesis by (rule writeFileSync_Inr)
qed

lemma convertSkillToOpenCode_missing:
  assumes "node_at w (src @ [lit ''SKILL.md'']) = None"
  shows "convertSkillToOpenCode src tgt name w = (Inr (), w)"
  using assms by (simp add: convertSkillToOpenCode_def Let_def io_bind_def existsSync_def io_return_def)

lemma for_each_append:
  "for_each (xs @ ys) body = io_bind (for_each xs body) (\<lambda>_. for_each ys body)"
proof (induction xs)
  case Nil
  show ?case by (rule ext) (simp add: io_bind_def io_return_def)
next
  case (Cons x xs)
  show ?case by (rule ext) (simp add: Cons io_bind_def split: prod.splits sum.splits)
qed

lemma agent_frontmatter_lines:
  assumes "single_line description"
  shows "split_lines (agent_frontmatter description) =
     [lit ''---'', lit ''description: '' @ description,
      lit ''model: anthropic/claude-sonnet-4-5'', lit ''---'', []]"
proof -
  have nl: "line_terminator 0x0A" by (simp add: line_terminator_def)
  have s1: "single_line (lit ''---'')" "single_line (lit ''description: '' @ description)"
    "single_line (lit ''model: anthropic/claude-sonnet-4-5'')"
    using assms by (simp_all add: single_line_def lit_def line_terminator_def)
  have "agent_frontmatter description =
      lit ''---'' @ 0x0A # (lit ''description: '' @ description) @ 0x0A #
      lit ''model: anthropic/claude-sonnet-4-5'' @ 0x0A # lit ''---'' @ 0x0A # []"
    by (simp add: agent_frontmatter_def lit_def)
  then show ?thesis
    by (simp only: split_lines_line[OF _ nl] s1 split_lines.simps)
qed

lemma convertAgentToOpenCode_writes:
  assumes src: "node_at w src = Some (File content)"
    and run: "convertAgentToOpenCode src tgt name w = (Inr u, w')"
  shows "node_at w' (tgt @ [name @ lit ''.md'']) = Some (File (agent_openCodeContent name content))"
proof -
  have rd: "readFileSync src w = (Inr content, w)"
    using src by (simp add: readFileSync_def)
  from run have "io_bind (mkdirSync_recursive tgt)
       (\<lambda>_. writeFileSync (tgt @ [name @ lit ''.md'']) (agent_openCodeContent name content)) w = (Inr u, w')"
    by (simp add: convertAgentToOpenCode_def Let_def io_bind_known[of "readFileSync src" w, OF rd])
  then obtain w1 where "writeFileSync (tgt @ [name @ lit ''.md'']) (agent_openCodeContent name content) w1 = (Inr u, w')"
    by (blast dest: io_bind_Inr)
  then show ?thesis by (rule writeFileSync_Inr)
qed

text \<open>
  Claim C10, as amended. In the agent conversion the heading pattern takes precedence
  over the block-quote pattern: for every agent markdown in which both patterns match, a
  conversion that returns writes a file whose header has, as its description line,
  exactly the text captured by the first match of the heading pattern, whatever the quote
  pattern captures, followed by the markdown; the skill conversion of the same text puts
  the capture of the quote pattern there.
\<close>

theorem agent_description_prefers_heading:
  assumes "node_at w sourceAgentPath = Some (File content)"
    and "match_heading content = Some h" and "match_quote content = Some q"
    and "convertAgentToOpenCode sourceAgentPath targetDir agentName w = (Inr u, w')"
    and "node_at v (sourceSkillPath @ [lit ''SKILL.md'']) = Some (File content)"
    and "convertSkillToOpenCode sourceSkillPath targetSkillsDir skillName v = (Inr u, v')"
  shows "node_at w' (targetDir @ [agentName @ lit ''.md''])
           = Some (File (agent_frontmatter h @ lit ''\<newline>'' @ content @ lit ''\<newline>''))
       \<and> split_lines (agent_frontmatter h)
           = [lit ''---'', lit ''description: '' @ h,
              lit ''model: anthropic/claude-sonnet-4-5'', lit ''---'', []]
       \<and> node_at v' (targetSkillsDir @ [skillName, lit ''SKILL.md''])
           = Some (File (skill_frontmatter skillName q @ lit ''\<newline>'' @ content @ lit ''\<newline>''))"
proof -
  have a: "node_at w' (targetDir @ [agentName @ lit ''.md''])
      = Some (File (agent_frontmatter h @ lit ''\<newline>'' @ content @ lit ''\<newline>''))"
    using convertAgentToOpenCode_writes[OF assms(1) assms(4)] assms(2)
    by (simp add: agent_openCodeContent_split agent_description_def agent_descMatch_def)
  have "single_line h"
    using match_heading_Some[OF assms(2)] by simp
  then have l: "split_lines (agent_frontmatter h)
      = [lit ''---'', lit ''description: '' @ h,
         lit ''model: anthropic/claude-sonnet-4-5'', lit ''---'', []]"
    by (rule agent_frontmatter_lines)
  have s: "node_at v' (targetSkillsDir @ [skillName, lit ''SKILL.md''])
      = Some (File (skill_frontmatter skillName q @ lit ''\<newline>'' @ content @ lit ''\<newline>''))"
    using convertSkillToOpenCode_writes[OF assms(5) assms(6)] assms(3)
    by (simp add: skill_openCodeContent_split skill_description_def)
  show ?thesis
    by (intro conjI a l s)
qed

theorem agent_description_prefers_heading_witness:
  "node_at (\<lparr>files = [([lit ''agents''], Dir),
        ([lit ''agents'', lit ''oracle.md''], File (lit ''> Deep reasoning first\<newline>\<newline># Oracle\<newline>\<newline>You are the oracle.\<newline>''))], console = []\<rparr>) [lit ''agents'', lit ''oracle.md''] = Some (File (lit ''> Deep reasoning first\<newline>\<newline># Oracle\<newline>\<newline>You are the oracle.\<newline>''))
   \<and> match_heading (lit ''> Deep reasoning first\<newline>\<newline># Oracle\<newline>\<newline>You are the oracle.\<newline>'') = Some (lit ''Oracle'')
   \<and> match_quote (lit ''> Deep reasoning first\<newline>\<newline># Oracle\<newline>\<newline>You are the oracle.\<newline>'') = Some (lit ''Deep reasoning first'')
   \<and> fst (convertAgentToOpenCode [lit ''agents'', lit ''oracle.md''] [lit ''out'', lit ''agent''] (lit ''oracle'') (\<lparr>files = [([lit ''agents''], Dir),
        ([lit ''agents'', lit ''oracle.md''], File (lit ''> Deep reasoning first\<newline>\<newline># Oracle\<newline>\<newline>You are the oracle.\<newline>''))], console = []\<rparr>)) = Inr ()
   \<and> node_at (\<lparr>files = [([lit ''skills''], Dir),
        ([lit ''skills'', lit ''oracle''], Dir),
        ([lit ''skills'', lit ''oracle'', lit ''SKILL.md''], File (lit ''> Deep reasoning first\<newline>\<newline># Oracle\<newline>\<newline>You are the oracle.\<newline>''))], console = []\<rparr>) ([lit ''skills'', lit ''oracle''] @ [lit ''SKILL.md'']) = Some (File (lit ''> Deep reasoning first\<newline>\<newline># Oracle\<newline>\<newline>You are the oracle.\<newline>''))
   \<and> fst (convertSkillToOpenCode [lit ''skills'', lit ''oracle''] [lit ''out'', lit ''skill''] (lit ''oracle'') (\<lparr>files = [([lit ''skills''], Dir),
        ([lit ''skills'', lit ''oracle''], Dir),
        ([lit ''skills'', lit ''oracle'', lit ''SKILL.md''], File (lit ''> Deep reasoning first\<newline>\<newline># Oracle\<newline>\<newline>You are the oracle.\<newline>''))], console = []\<rparr>)) = Inr ()
   \<and> node_at (snd (convertAgentToOpenCode [lit ''agents'', lit ''oracle.md''] [lit ''out'', lit ''agent''] (lit ''oracle'') (\<lparr>files = [([lit ''agents''], Dir),
        ([lit ''agents'', lit ''oracle.md''], File (lit ''> Deep reasoning first\<newline>\<newline># Oracle\<newline>\<newline>You are the oracle.\<newline>''))], console = []\<rparr>))) ([lit ''out'', lit ''agent''] @ [lit ''oracle'' @ lit ''.md''])
       = Some (File (agent_frontmatter (lit ''Oracle'') @ lit ''\<newline>'' @ (lit ''> Deep reasoning first\<newline>\<newline># Oracle\<newline>\<newline>You are the oracle.\<newline>'') @ lit ''\<newline>''))
   \<and> split_lines (agent_frontmatter (lit ''Oracle''))
       = [lit ''---'', lit ''description: Oracle'', lit ''model: anthropic/claude-sonnet-4-5'', lit ''---'', []]
   \<and> node_at (snd (convertSkillToOpenCode [lit ''skills'', lit ''oracle''] [lit ''out'', lit ''skill''] (lit ''oracle'') (\<lparr>files = [([lit ''skills''], Dir),
        ([lit ''skills'', lit ''oracle''], Dir),
        ([lit ''skills'', lit ''oracle'', lit ''SKILL.md''], File (lit ''> Deep reasoning first\<newline>\<newline># Oracle\<newline>\<newline>You are the oracle.\<newline>''))], console = []\<rparr>))) ([lit ''out'', lit ''skill''] @ [lit ''oracle'', lit ''SKILL.md''])
       = Some (File (skill_frontmatter (lit ''oracle'') (lit ''Deep reasoning first'') @ lit ''\<newline>'' @ (lit ''> Deep reasoning first\<newline>\<newline># Oracle\<newline>\<newline>You are the oracle.\<newline>'') @ lit ''\<newline>''))"
proof -
  have fa: "node_at (\<lparr>files = [([lit ''agents''], Dir),
        ([lit ''agents'', lit ''oracle.md''], File (lit ''> Deep reasoning first\<newline>\<newline># Oracle\<newline>\<newline>You are the oracle.\<newline>''))], console = []\<rparr>) [lit ''agents'', lit ''oracle.md''] = Some (File (lit ''> Deep reasoning first\<newline>\<newline># Oracle\<newline>\<newline>You are the oracle.\<newline>''))"
    by (simp add: node_at_def lit_def)
  have h: "match_heading (lit ''> Deep reasoning first\<newline>\<newline># Oracle\<newline>\<newline>You are the oracle.\<newline>'') = Some (lit ''Oracle'')"
    by (simp add: match_heading_def lit_def white_space_def line_terminator_def dot_plus_eol_def)
  have q: "match_quote (lit ''> Deep reasoning first\<newline>\<newline># Oracle\<newline>\<newline>You are the oracle.\<newline>'') = Some (lit ''Deep reasoning first'')"
    by (simp add: match_quote_def lit_def white_space_def line_terminator_def dot_plus_eol_def)
  have ra: "fst (convertAgentToOpenCode [lit ''agents'', lit ''oracle.md''] [lit ''out'', lit ''agent''] (lit ''oracle'') (\<lparr>files = [([lit ''agents''], Dir),
        ([lit ''agents'', lit ''oracle.md''], File (lit ''> Deep reasoning first\<newline>\<newline># Oracle\<newline>\<newline>You are the oracle.\<newline>''))], console = []\<rparr>)) = Inr ()"
    by (simp add: convertAgentToOpenCode_def Let_def io_bind_def readFileSync_def
          node_at_def mkdirSync_recursive_def writeFileSync_def is_file_def is_dir_def io_return_def lit_def)
  have fs: "node_at (\<lparr>files = [([lit ''skills''], Dir),
        ([lit ''skills'', lit ''oracle''], Dir),
        ([lit ''skills'', lit ''oracle'', lit ''SKILL.md''], File (lit ''> Deep reasoning first\<newline>\<newline># Oracle\<newline>\<newline>You are the oracle.\<newline>''))], console = []\<rparr>) ([lit ''skills'', lit ''oracle''] @ [lit ''SKILL.md'']) = Some (File (lit ''> Deep reasoning first\<newline>\<newline># Oracle\<newline>\<newline>You are the oracle.\<newline>''))"
    by (simp add: node_at_def lit_def)
  have rs: "fst (convertSkillToOpenCode [lit ''skills'', lit ''oracle''] [lit ''out'', lit ''skill''] (lit ''oracle'') (\<lparr>files = [([lit ''skills''], Dir),
        ([lit ''skills'', lit ''oracle''], Dir),
        ([lit ''skills'', lit ''oracle'', lit ''SKILL.md''], File (lit ''> Deep reasoning first\<newline>\<newline># Oracle\<newline>\<newline>You are the oracle.\<newline>''))], console = []\<rparr>)) = Inr ()"
    by (simp add: convertSkillToOpenCode_def Let_def io_bind_def existsSync_def readFileSync_def
          node_at_def mkdirSync_recursive_def writeFileSync_def is_file_def is_dir_def io_return_def lit_def)
  note prefers = agent_description_prefers_heading[OF fa h q run_result[OF ra] fs run_result[OF rs]]
  have a: "node_at (snd (convertAgentToOpenCode [lit ''agents'', lit ''oracle.md''] [lit ''out'', lit ''agent''] (lit ''oracle'') (\<lparr>files = [([lit ''agents''], Dir),
        ([lit ''agents'', lit ''oracle.md''], File (lit ''> Deep reasoning first\<newline>\<newline># Oracle\<newline>\<newline>You are the oracle.\<newline>''))], console = []\<rparr>))) ([lit ''out'', lit ''agent''] @ [lit ''oracle'' @ lit ''.md''])
       = Some (File (agent_frontmatter (lit ''Oracle'') @ lit ''\<newline>'' @ (lit ''> Deep reasoning first\<newline>\<newline># Oracle\<newline>\<newline>You are the oracle.\<newline>'') @ lit ''\<newline>''))"
    by (rule prefers[THEN conjunct1])
  have l: "split_lines (agent_frontmatter (lit ''Oracle''))
       = [lit ''---'', lit ''description: Oracle'', lit ''model: anthropic/claude-sonnet-4-5'', lit ''---'', []]"
    using prefers[THEN conjunct2, THEN conjunct1] by (simp add: lit_def)
  have s: "node_at (snd (convertSkillToOpenCode [lit ''skills'', lit ''oracle''] [lit ''out'', lit ''skill''] (lit ''oracle'') (\<lparr>files = [([lit ''skills''], Dir),
        ([lit ''skills'', lit ''oracle''], Dir),
        ([lit ''skills'', lit ''oracle'', lit ''SKILL.md''], File (lit ''> Deep reasoning first\<newline>\<newline># Oracle\<newline>\<newline>You are the oracle.\<newline>''))], console = []\<rparr>))) ([lit ''out'', lit ''skill''] @ [lit ''oracle'', lit ''SKILL.md''])
       = Some (File (skill_frontmatter (lit ''oracle'') (lit ''Deep reasoning first'') @ lit ''\<newline>'' @ (lit ''> Deep reasoning first\<newline>\<newline># Oracle\<newline>\<newline>You are the oracle.\<newline>'') @ lit ''\<newline>''))"
    by (rule prefers[THEN conjunct2, THEN conjunct2])
  show ?thesis
    by (intro conjI fa h q ra fs rs a l s)
qed

text \<open>The claim as stated fails: this agent markdown has the level-1 heading
  \<^verbatim>\<open># Title\<close> and the block quote \<^verbatim>\<open>> Quote\<close>, and the description that is written is
  \<^verbatim>\<open>> Quote\<close>, not the heading text \<^verbatim>\<open>Title\<close>: the \<^verbatim>\<open>\s+\<close> of the heading pattern
  runs over the end of the first line.\<close>

theorem agent_description_not_the_heading_text:
  "split_lines (lit ''#\<newline>> Quote\<newline># Title\<newline>'') = [lit ''#'', lit ''> Quote'', lit ''# Title'', []]
   \<and> heading_line_text (lit ''#'') = None
   \<and> heading_line_text (lit ''> Quote'') = None
   \<and> heading_line_text (lit ''# Title'') = Some (lit ''Title'')
   \<and> quote_line_text (lit ''> Quote'') = Some (lit ''Quote'')
   \<and> node_at (snd (convertAgentToOpenCode [lit ''agents'', lit ''oracle.md''] [lit ''out'', lit ''agent''] (lit ''oracle'') (\<lparr>files = [([lit ''agents''], Dir),
        ([lit ''agents'', lit ''oracle.md''], File (lit ''#\<newline>> Quote\<newline># Title\<newline>''))], console = []\<rparr>))) ([lit ''out'', lit ''agent''] @ [lit ''oracle'' @ lit ''.md''])
       = Some (File (agent_frontmatter (lit ''> Quote'') @ lit ''\<newline>'' @ (lit ''#\<newline>> Quote\<newline># Title\<newline>'') @ lit ''\<newline>''))
   \<and> split_lines (agent_frontmatter (lit ''> Quote''))
       = [lit ''---'', lit ''description: > Quote'', lit ''model: anthropic/claude-sonnet-4-5'', lit ''---'', []]
   \<and> lit ''description: > Quote'' \<noteq> lit ''description: Title''"
proof -
  have f: "node_at (\<lparr>files = [([lit ''agents''], Dir),
        ([lit ''agents'', lit ''oracle.md''], File (lit ''#\<newline>> Quote\<newline># Title\<newline>''))], console = []\<rparr>) [lit ''agents'', lit ''oracle.md''] = Some (File (lit ''#\<newline>> Quote\<newline># Title\<newline>''))"
    by (simp add: node_at_def lit_def)
  have r: "fst (convertAgentToOpenCode [lit ''agents'', lit ''oracle.md''] [lit ''out'', lit ''agent''] (lit ''oracle'') (\<lparr>files = [([lit ''agents''], Dir),
        ([lit ''agents'', lit ''oracle.md''], File (lit ''#\<newline>> Quote\<newline># Title\<newline>''))], console = []\<rparr>)) = Inr ()"
    by (simp add: convertAgentToOpenCode_def Let_def io_bind_def readFileSync_def
          node_at_def mkdirSync_recursive_def writeFileSync_def is_file_def is_dir_def io_return_def lit_def)
  have m: "match_heading (lit ''#\<newline>> Quote\<newline># Title\<newline>'') = Some (lit ''> Quote'')"
    by (simp add: match_heading_def lit_def white_space_def line_terminator_def dot_plus_eol_def)
  have sl: "split_lines (lit ''#\<newline>> Quote\<newline># Title\<newline>'') = [lit ''#'', lit ''> Quote'', lit ''# Title'', []]"
    by (simp add: lit_def line_terminator_def)
  have h0: "heading_line_text (lit ''#'') = None"
    by (simp add: lit_def)
  have h1: "heading_line_text (lit ''> Quote'') = None"
    by (simp add: lit_def)
  have h2: "heading_line_text (lit ''# Title'') = Some (lit ''Title'')"
    by (simp add: lit_def white_space_def line_terminator_def)
  have q1: "quote_line_text (lit ''> Quote'') = Some (lit ''Quote'')"
    by (simp add: lit_def white_space_def line_terminator_def)
  have n: "node_at (snd (convertAgentToOpenCode [lit ''agents'', lit ''oracle.md''] [lit ''out'', lit ''agent''] (lit ''oracle'') (\<lparr>files = [([lit ''agents''], Dir),
        ([lit ''agents'', lit ''oracle.md''], File (lit ''#\<newline>> Quote\<newline># Title\<newline>''))], console = []\<rparr>))) ([lit ''out'', lit ''agent''] @ [lit ''oracle'' @ lit ''.md''])
       = Some (File (agent_frontmatter (lit ''> Quote'') @ lit ''\<newline>'' @ (lit ''#\<newline>> Quote\<newline># Title\<newline>'') @ lit ''\<newline>''))"
    using convertAgentToOpenCode_writes[OF f run_result[OF r]] m
    by (simp add: agent_openCodeContent_split agent_description_def agent_descMatch_def)
  have l: "split_lines (agent_frontmatter (lit ''> Quote''))
       = [lit ''---'', lit ''description: > Quote'', lit ''model: anthropic/claude-sonnet-4-5'', lit ''---'', []]"
    using agent_frontmatter_lines[of "lit ''> Quote''"] by (simp add: single_line_def lit_def line_terminator_def)
  have d: "lit ''description: > Quote'' \<noteq> lit ''description: Title''"
    by (simp add: lit_def)
  show ?thesis
    by (intro conjI sl h0 h1 h2 q1 n l d)
qed

text \<open>
  Claim C8. When the \<^verbatim>\<open>SKILL.md\<close> of a skill folder does not exist, its conversion
  returns without an exception and leaves the world as it is, and the loop over the
  batch goes on with the remaining folders from that same world.
\<close>

theorem missing_skill_file_is_skipped:
  assumes "convert_skills skillsDir targetSkillsDir before w = (Inr u, w1)"
    and "node_at w1 (skillsDir @ [skill, lit ''SKILL.md'']) = None"
  shows "convertSkillToOpenCode (skillsDir @ [skill]) targetSkillsDir skill w1 = (Inr (), w1)
       \<and> convert_skills skillsDir targetSkillsDir (before @ skill # rest) w
           = convert_skills skillsDir targetSkillsDir rest w1"
proof -
  have skip: "convertSkillToOpenCode (skillsDir @ [skill]) targetSkillsDir skill w1 = (Inr (), w1)"
    using assms(2) by (simp add: convertSkillToOpenCode_missing)
  have "convert_skills skillsDir targetSkillsDir (before @ skill # rest) w
      = for_each (skill # rest) (\<lambda>skill. convertSkillToOpenCode (skillsDir @ [skill]) targetSkillsDir skill) w1"
    using assms(1) unfolding convert_skills_def for_each_append
    by (simp add: io_bind_def)
  also have "\<dots> = convert_skills skillsDir targetSkillsDir rest w1"
    by (simp add: convert_skills_def io_bind_def skip)
  finally show ?thesis using skip by simp
qed


theorem missing_skill_file_is_skipped_witness:
  "convert_skills [lit ''proj'', lit ''.ai'', lit ''skills''] [lit ''proj'', lit ''.opencode'', lit ''skill''] [] (\<lparr>files = [([lit ''proj''], Dir), ([lit ''proj'', lit ''.ai''], Dir),
          ([lit ''proj'', lit ''.ai'', lit ''skills''], Dir),
          ([lit ''proj'', lit ''.ai'', lit ''skills'', lit ''draft''], Dir),
          ([lit ''proj'', lit ''.ai'', lit ''skills'', lit ''debug''], Dir),
          ([lit ''proj'', lit ''.ai'', lit ''skills'', lit ''debug'', lit ''SKILL.md''], File (lit ''# Debug\<newline>''))],
        console = []\<rparr>) = (Inr (), \<lparr>files = [([lit ''proj''], Dir), ([lit ''proj'', lit ''.ai''], Dir),
          ([lit ''proj'', lit ''.ai'', lit ''skills''], Dir),
          ([lit ''proj'', lit ''.ai'', lit ''skills'', lit ''draft''], Dir),
          ([lit ''proj'', lit ''.ai'', lit ''skills'', lit ''debug''], Dir),
          ([lit ''proj'', lit ''.ai'', lit ''skills'', lit ''debug'', lit ''SKILL.md''], File (lit ''# Debug\<newline>''))],
        console = []\<rparr>)
   \<and> node_at (\<lparr>files = [([lit ''proj''], Dir), ([lit ''proj'', lit ''.ai''], Dir),
          ([lit ''proj'', lit ''.ai'', lit ''skills''], Dir),
          ([lit ''proj'', lit ''.ai'', lit ''skills'', lit ''draft''], Dir),
          ([lit ''proj'', lit ''.ai'', lit ''skills'', lit ''debug''], Dir),
          ([lit ''proj'', lit ''.ai'', lit ''skills'', lit ''debug'', lit ''SKILL.md''], File (lit ''# Debug\<newline>''))],
        console = []\<rparr>) ([lit ''proj'', lit ''.ai'', lit ''skills''] @ [lit ''draft'', lit ''SKILL.md'']) = None
   \<and> convertSkillToOpenCode ([lit ''proj'', lit ''.ai'', lit ''skills''] @ [lit ''draft'']) [lit ''proj'', lit ''.opencode'', lit ''skill''] (lit ''draft'') (\<lparr>files = [([lit ''proj''], Dir), ([lit ''proj'', lit ''.ai''], Dir),
          ([lit ''proj'', lit ''.ai'', lit ''skills''], Dir),
          ([lit ''proj'', lit ''.ai'', lit ''skills'', lit ''draft''], Dir),
          ([lit ''proj'', lit ''.ai'', lit ''skills'', lit ''debug''], Dir),
          ([lit ''proj'', lit ''.ai'', lit ''skills'', lit ''debug'', lit ''SKILL.md''], File (lit ''# Debug\<newline>''))],
        console = []\<rparr>) = (Inr (), \<lparr>files = [([lit ''proj''], Dir), ([lit ''proj'', lit ''.ai''], Dir),
          ([lit ''proj'', lit ''.ai'', lit ''skills''], Dir),
          ([lit ''proj'', lit ''.ai'', lit ''skills'', lit ''draft''], Dir),
          ([lit ''proj'', lit ''.ai'', lit ''skills'', lit ''debug''], Dir),
          ([lit ''proj'', lit ''.ai'', lit ''skills'', lit ''debug'', lit ''SKILL.md''], File (lit ''# Debug\<newline>''))],
        console = []\<rparr>)
   \<and> convert_skills [lit ''proj'', lit ''.ai'', lit ''skills''] [lit ''proj'', lit ''.opencode'', lit ''skill''] ([] @ lit ''draft'' # [lit ''debug'']) (\<lparr>files = [([lit ''proj''], Dir), ([lit ''proj'', lit ''.ai''], Dir),
          ([lit ''proj'', lit ''.ai'', lit ''skills''], Dir),
          ([lit ''proj'', lit ''.ai'', lit ''skills'', lit ''draft''], Dir),
          ([lit ''proj'', lit ''.ai'', lit ''skills'', lit ''debug''], Dir),
          ([lit ''proj'', lit ''.ai'', lit ''skills'', lit ''debug'', lit ''SKILL.md''], File (lit ''# Debug\<newline>''))],
        console = []\<rparr>)
       = convert_skills [lit ''proj'', lit ''.ai'', lit ''skills''] [lit ''proj'', lit ''.opencode'', lit ''skill''] [lit ''debug''] (\<lparr>files = [([lit ''proj''], Dir), ([lit ''proj'', lit ''.ai''], Dir),
          ([lit ''proj'', lit ''.ai'', lit ''skills''], Dir),
          ([lit ''proj'', lit ''.ai'', lit ''skills'', lit ''draft''], Dir),
          ([lit ''proj'', lit ''.ai'', lit ''skills'', lit ''debug''], Dir),
          ([lit ''proj'', lit ''.ai'', lit ''skills'', lit ''debug'', lit ''SKILL.md''], File (lit ''# Debug\<newline>''))],
        console = []\<rparr>)
   \<and> node_at (snd (convert_skills [lit ''proj'', lit ''.ai'', lit ''skills''] [lit ''proj'', lit ''.opencode'', lit ''skill''] [lit ''draft'', lit ''debug''] (\<lparr>files = [([lit ''proj''], Dir), ([lit ''proj'', lit ''.ai''], Dir),
          ([lit ''proj'', lit ''.ai'', lit ''skills''], Dir),
          ([lit ''proj'', lit ''.ai'', lit ''skills'', lit ''draft''], Dir),
          ([lit ''proj'', lit ''.ai'', lit ''skills'', lit ''debug''], Dir),
          ([lit ''proj'', lit ''.ai'', lit ''skills'', lit ''debug'', lit ''SKILL.md''], File (lit ''# Debug\<newline>''))],
        console = []\<rparr>)))
        ([lit ''proj'', lit ''.opencode'', lit ''skill''] @ [lit ''debug'', lit ''SKILL.md''])
       = Some (File (skill_openCodeContent (lit ''debug'') (lit ''# Debug\<newline>'')))"
proof -
  have b: "convert_skills [lit ''proj'', lit ''.ai'', lit ''skills''] [lit ''proj'', lit ''.opencode'', lit ''skill''] [] (\<lparr>files = [([lit ''proj''], Dir), ([lit ''proj'', lit ''.ai''], Dir),
          ([lit ''proj'', lit ''.ai'', lit ''skills''], Dir),
          ([lit ''proj'', lit ''.ai'', lit ''skills'', lit ''draft''], Dir),
          ([lit ''proj'', lit ''.ai'', lit ''skills'', lit ''debug''], Dir),
          ([lit ''proj'', lit ''.ai'', lit ''skills'', lit ''debug'', lit ''SKILL.md''], File (lit ''# Debug\<newline>''))],
        console = []\<rparr>) = (Inr (), \<lparr>files = [([lit ''proj''], Dir), ([lit ''proj'', lit ''.ai''], Dir),
          ([lit ''proj'', lit ''.ai'', lit ''skills''], Dir),
          ([lit ''proj'', lit ''.ai'', lit ''skills'', lit ''draft''], Dir),
          ([lit ''proj'', lit ''.ai'', lit ''skills'', lit ''debug''], Dir),
          ([lit ''proj'', lit ''.ai'', lit ''skills'', lit ''debug'', lit ''SKILL.md''], File (lit ''# Debug\<newline>''))],
        console = []\<rparr>)"
    by (simp add: convert_skills_def io_return_def)
  have m: "node_at (\<lparr>files = [([lit ''proj''], Dir), ([lit ''proj'', lit ''.ai''], Dir),
          ([lit ''proj'', lit ''.ai'', lit ''skills''], Dir),
          ([lit ''proj'', lit ''.ai'', lit ''skills'', lit ''draft''], Dir),
          ([lit ''proj'', lit ''.ai'', lit ''skills'', lit ''debug''], Dir),
          ([lit ''proj'', lit ''.ai'', lit ''skills'', lit ''debug'', lit ''SKILL.md''], File (lit ''# Debug\<newline>''))],
        console = []\<rparr>) ([lit ''proj'', lit ''.ai'', lit ''skills''] @ [lit ''draft'', lit ''SKILL.md'']) = None"
    by (simp add: node_at_def lit_def)
  note skip = missing_skill_file_is_skipped[OF b m, of "[lit ''debug'']"]
  have f: "node_at (\<lparr>files = [([lit ''proj''], Dir), ([lit ''proj'', lit ''.ai''], Dir),
          ([lit ''proj'', lit ''.ai'', lit ''skills''], Dir),
          ([lit ''proj'', lit ''.ai'', lit ''skills'', lit ''draft''], Dir),
          ([lit ''proj'', lit ''.ai'', lit ''skills'', lit ''debug''], Dir),
          ([lit ''proj'', lit ''.ai'', lit ''skills'', lit ''debug'', lit ''SKILL.md''], File (lit ''# Debug\<newline>''))],
        console = []\<rparr>) (([lit ''proj'', lit ''.ai'', lit ''skills''] @ [lit ''debug'']) @ [lit ''SKILL.md'']) = Some (File (lit ''# Debug\<newline>''))"
    by (simp add: node_at_def lit_def)
  have r: "fst (convertSkillToOpenCode ([lit ''proj'', lit ''.ai'', lit ''skills''] @ [lit ''debug'']) [lit ''proj'', lit ''.opencode'', lit ''skill''] (lit ''debug'') (\<lparr>files = [([lit ''proj''], Dir), ([lit ''proj'', lit ''.ai''], Dir),
          ([lit ''proj'', lit ''.ai'', lit ''skills''], Dir),
          ([lit ''proj'', lit ''.ai'', lit ''skills'', lit ''draft''], Dir),
          ([lit ''proj'', lit ''.ai'', lit ''skills'', lit ''debug''], Dir),
          ([lit ''proj'', lit ''.ai'', lit ''skills'', lit ''debug'', lit ''SKILL.md''], File (lit ''# Debug\<newline>''))],
        console = []\<rparr>)) = Inr ()"
    by (simp add: convertSkillToOpenCode_def Let_def io_bind_def existsSync_def readFileSync_def
          node_at_def mkdirSync_recursive_def writeFileSync_def is_file_def is_dir_def io_return_def lit_def)
  have one: "convert_skills [lit ''proj'', lit ''.ai'', lit ''skills''] [lit ''proj'', lit ''.opencode'', lit ''skill''] [lit ''debug''] (\<lparr>files = [([lit ''proj''], Dir), ([lit ''proj'', lit ''.ai''], Dir),
          ([lit ''proj'', lit ''.ai'', lit ''skills''], Dir),
          ([lit ''proj'', lit ''.ai'', lit ''skills'', lit ''draft''], Dir),
          ([lit ''proj'', lit ''.ai'', lit ''skills'', lit ''debug''], Dir),
          ([lit ''proj'', lit ''.ai'', lit ''skills'', lit ''debug'', lit ''SKILL.md''], File (lit ''# Debug\<newline>''))],
        console = []\<rparr>)
      = convertSkillToOpenCode ([lit ''proj'', lit ''.ai'', lit ''skills''] @ [lit ''debug'']) [lit ''proj'', lit ''.opencode'', lit ''skill''] (lit ''debug'') (\<lparr>files = [([lit ''proj''], Dir), ([lit ''proj'', lit ''.ai''], Dir),
          ([lit ''proj'', lit ''.ai'', lit ''skills''], Dir),
          ([lit ''proj'', lit ''.ai'', lit ''skills'', lit ''draft''], Dir),
          ([lit ''proj'', lit ''.ai'', lit ''skills'', lit ''debug''], Dir),
          ([lit ''proj'', lit ''.ai'', lit ''skills'', lit ''debug'', lit ''SKILL.md''], File (lit ''# Debug\<newline>''))],
        console = []\<rparr>)"
    by (simp add: convert_skills_def io_bind_def io_return_def split: prod.splits sum.splits)
  have w: "node_at (snd (convert_skills [lit ''proj'', lit ''.ai'', lit ''skills''] [lit ''proj'', lit ''.opencode'', lit ''skill''] [lit ''debug''] (\<lparr>files = [([lit ''proj''], Dir), ([lit ''proj'', lit ''.ai''], Dir),
          ([lit ''proj'', lit ''.ai'', lit ''skills''], Dir),
          ([lit ''proj'', lit ''.ai'', lit ''skills'', lit ''draft''], Dir),
          ([lit ''proj'', lit ''.ai'', lit ''skills'', lit ''debug''], Dir),
          ([lit ''proj'', lit ''.ai'', lit ''skills'', lit ''debug'', lit ''SKILL.md''], File (lit ''# Debug\<newline>''))],
        console = []\<rparr>))) ([lit ''proj'', lit ''.opencode'', lit ''skill''] @ [lit ''debug'', lit ''SKILL.md''])
       = Some (File (skill_openCodeContent (lit ''debug'') (lit ''# Debug\<newline>'')))"
    unfolding one by (rule convertSkillToOpenCode_writes[OF f run_result[OF r]])
  show ?thesis using skip b m w by simp
qed

text \<open>
  Claim C1, as amended. For every skill markdown in which the heading pattern and the
  block-quote pattern match, a conversion that returns writes a file whose metadata
  header has the skill folder name as \<^verbatim>\<open>name\<close> and exactly the text captured by the
  first match of the block-quote pattern as \<^verbatim>\<open>description\<close>, followed by the markdown.
  The heading text is not placed in the header.
\<close>

theorem skill_header_carries_name_and_quote:
  assumes "node_at w (sourceSkillPath @ [lit ''SKILL.md'']) = Some (File content)"
    and "match_heading content = Some h" and "match_quote content = Some q"
    and "convertSkillToOpenCode sourceSkillPath targetDir skillName w = (Inr u, w')"
  shows "node_at w' (targetDir @ [skillName, lit ''SKILL.md''])
           = Some (File (skill_frontmatter skillName q @ lit ''\<newline>'' @ content @ lit ''\<newline>''))"
  using convertSkillToOpenCode_writes[OF assms(1) assms(4)] assms(3)
  by (simp add: skill_openCodeContent_split skill_description_def)

theorem skill_header_carries_name_and_quote_witness:
  "node_at (\<lparr>files = [([lit ''skills''], Dir), ([lit ''skills'', lit ''debug''], Dir), ([lit ''skills'', lit ''debug'', lit ''SKILL.md''], File (lit ''# Debug Skill\<newline>\<newline>> Systematic debugging\<newline>''))], console = []\<rparr>) ([lit ''skills'', lit ''debug''] @ [lit ''SKILL.md'']) = Some (File (lit ''# Debug Skill\<newline>\<newline>> Systematic debugging\<newline>''))
   \<and> match_heading (lit ''# Debug Skill\<newline>\<newline>> Systematic debugging\<newline>'') = Some (lit ''Debug Skill'')
   \<and> match_quote (lit ''# Debug Skill\<newline>\<newline>> Systematic debugging\<newline>'') = Some (lit ''Systematic debugging'')
   \<and> fst (convertSkillToOpenCode [lit ''skills'', lit ''debug''] [lit ''out''] (lit ''debug'') (\<lparr>files = [([lit ''skills''], Dir), ([lit ''skills'', lit ''debug''], Dir), ([lit ''skills'', lit ''debug'', lit ''SKILL.md''], File (lit ''# Debug Skill\<newline>\<newline>> Systematic debugging\<newline>''))], console = []\<rparr>)) = Inr ()
   \<and> node_at (snd (convertSkillToOpenCode [lit ''skills'', lit ''debug''] [lit ''out''] (lit ''debug'') (\<lparr>files = [([lit ''skills''], Dir), ([lit ''skills'', lit ''debug''], Dir), ([lit ''skills'', lit ''debug'', lit ''SKILL.md''], File (lit ''# Debug Skill\<newline>\<newline>> Systematic debugging\<newline>''))], console = []\<rparr>))) ([lit ''out''] @ [lit ''debug'', lit ''SKILL.md''])
       = Some (File (skill_frontmatter (lit ''debug'') (lit ''Systematic debugging'')
                     @ lit ''\<newline>'' @ lit ''# Debug Skill\<newline>\<newline>> Systematic debugging\<newline>'' @ lit ''\<newline>''))"
proof -
  have f: "node_at (\<lparr>files = [([lit ''skills''], Dir), ([lit ''skills'', lit ''debug''], Dir), ([lit ''skills'', lit ''debug'', lit ''SKILL.md''], File (lit ''# Debug Skill\<newline>\<newline>> Systematic debugging\<newline>''))], console = []\<rparr>) ([lit ''skills'', lit ''debug''] @ [lit ''SKILL.md'']) = Some (File (lit ''# Debug Skill\<newline>\<newline>> Systematic debugging\<newline>''))"
    by (simp add: node_at_def lit_def)
  have h: "match_heading (lit ''# Debug Skill\<newline>\<newline>> Systematic debugging\<newline>'') = Some (lit ''Debug Skill'')"
    by (simp add: match_heading_def lit_def white_space_def line_terminator_def dot_plus_eol_def)
  have q: "match_quote (lit ''# Debug Skill\<newline>\<newline>> Systematic debugging\<newline>'') = Some (lit ''Systematic debugging'')"
    by (simp add: match_quote_def lit_def white_space_def line_terminator_def dot_plus_eol_def)
  have r: "fst (convertSkillToOpenCode [lit ''skills'', lit ''debug''] [lit ''out''] (lit ''debug'') (\<lparr>files = [([lit ''skills''], Dir), ([lit ''skills'', lit ''debug''], Dir), ([lit ''skills'', lit ''debug'', lit ''SKILL.md''], File (lit ''# Debug Skill\<newline>\<newline>> Systematic debugging\<newline>''))], console = []\<rparr>)) = Inr ()"
    by (simp add: convertSkillToOpenCode_def Let_def io_bind_def existsSync_def readFileSync_def
          node_at_def mkdirSync_recursive_def writeFileSync_def is_file_def is_dir_def io_return_def lit_def)
  show ?thesis
    using skill_header_carries_name_and_quote[OF f h q run_result[OF r]] f h q r by simp
qed

text \<open>The claim as stated fails: the header of this conversion does not contain the
  heading text \<^verbatim>\<open>Debug Skill\<close>.\<close>

theorem heading_text_not_in_header:
  "match_heading (lit ''# Debug Skill\<newline>\<newline>> Systematic debugging\<newline>'') = Some (lit ''Debug Skill'')
   \<and> match_quote (lit ''# Debug Skill\<newline>\<newline>> Systematic debugging\<newline>'') = Some (lit ''Systematic debugging'')
   \<and> node_at (snd (convertSkillToOpenCode [lit ''skills'', lit ''debug''] [lit ''out''] (lit ''debug'') (\<lparr>files = [([lit ''skills''], Dir), ([lit ''skills'', lit ''debug''], Dir), ([lit ''skills'', lit ''debug'', lit ''SKILL.md''], File (lit ''# Debug Skill\<newline>\<newline>> Systematic debugging\<newline>''))], console = []\<rparr>))) [lit ''out'', lit ''debug'', lit ''SKILL.md'']
       = Some (File (skill_frontmatter (lit ''debug'') (lit ''Systematic debugging'')
                     @ lit ''\<newline>'' @ lit ''# Debug Skill\<newline>\<newline>> Systematic debugging\<newline>'' @ lit ''\<newline>''))
   \<and> \<not> includes_text (skill_frontmatter (lit ''debug'') (lit ''Systematic debugging'')) (lit ''Debug Skill'')"
proof -
  have f: "node_at (\<lparr>files = [([lit ''skills''], Dir), ([lit ''skills'', lit ''debug''], Dir), ([lit ''skills'', lit ''debug'', lit ''SKILL.md''], File (lit ''# Debug Skill\<newline>\<newline>> Systematic debugging\<newline>''))], console = []\<rparr>) ([lit ''skills'', lit ''debug''] @ [lit ''SKILL.md'']) = Some (File (lit ''# Debug Skill\<newline>\<newline>> Systematic debugging\<newline>''))"
    by (simp add: node_at_def lit_def)
  have h: "match_heading (lit ''# Debug Skill\<newline>\<newline>> Systematic debugging\<newline>'') = Some (lit ''Debug Skill'')"
    by (simp add: match_heading_def lit_def white_space_def line_terminator_def dot_plus_eol_def)
  have q: "match_quote (lit ''# Debug Skill\<newline>\<newline>> Systematic debugging\<newline>'') = Some (lit ''Systematic debugging'')"
    by (simp add: match_quote_def lit_def white_space_def line_terminator_def dot_plus_eol_def)
  have r: "fst (convertSkillToOpenCode [lit ''skills'', lit ''debug''] [lit ''out''] (lit ''debug'') (\<lparr>files = [([lit ''skills''], Dir), ([lit ''skills'', lit ''debug''], Dir), ([lit ''skills'', lit ''debug'', lit ''SKILL.md''], File (lit ''# Debug Skill\<newline>\<newline>> Systematic debugging\<newline>''))], console = []\<rparr>)) = Inr ()"
    by (simp add: convertSkillToOpenCode_def Let_def io_bind_def existsSync_def readFileSync_def
          node_at_def mkdirSync_recursive_def writeFileSync_def is_file_def is_dir_def io_return_def lit_def)
  have n: "\<not> includes_text (skill_frontmatter (lit ''debug'') (lit ''Systematic debugging'')) (lit ''Debug Skill'')"
    by (simp add: skill_frontmatter_def lit_def)
  show ?thesis
    using convertSkillToOpenCode_writes[OF f run_result[OF r]] h q n
    by (simp add: skill_openCodeContent_split skill_description_def)
qed



section \<open>The decision table of the detector\<close>

lemma check_composer_eq:
  "check_composer parse_json dir w =
     (Inr (if composer_declares parse_json w dir (lit ''laravel/framework'')
           then Some \<lparr>stack = Some php_laravel, confidence = high,
                       reason = lit ''Found laravel/framework in composer.json''\<rparr>
           else None), w)"
  by (simp add: check_composer_def composer_declares_def declares_def manifest_deps_def
        Let_def io_bind_def io_catch_def io_return_def io_throw_def io_lift_def fileExists_def
        is_file_def readJson_def readFileSync_def
      split: option.splits node.splits sum.splits)

lemma check_package_eq:
  "check_package parse_json dir w =
     (Inr (if package_declares parse_json w dir (lit ''react'')
              \<or> package_declares parse_json w dir (lit ''react-dom'')
           then Some \<lparr>stack = Some react_typescript, confidence = high,
                       reason = lit ''Found react in package.json''\<rparr>
           else if package_declares parse_json w dir (lit ''express'')
           then Some \<lparr>stack = Some node_express, confidence = high,
                       reason = lit ''Found express in package.json''\<rparr>
           else if package_declares parse_json w dir (lit ''typescript'')
           then Some \<lparr>stack = Some react_typescript, confidence = low,
                       reason = lit ''Found typescript but no specific framework''\<rparr>
           else None), w)"
  by (simp add: check_package_def package_declares_def declares_def manifest_deps_def
        Let_def io_bind_def io_catch_def io_return_def io_throw_def io_lift_def fileExists_def
        is_file_def readJson_def readFileSync_def
      split: option.splits node.splits sum.splits)

lemma scan_extensions_eq:
  "scan_extensions dir w =
     (Inr (if list_ex (\<lambda>f. endsWith f (lit ''.tsx'')) (top_level_files w dir)
           then \<lparr>stack = Some react_typescript, confidence = medium,
                  reason = lit ''Found .tsx files in project root''\<rparr>
           else if list_ex (\<lambda>f. endsWith f (lit ''.php'')) (top_level_files w dir)
           then \<lparr>stack = Some php_laravel, confidence = low,
                  reason = lit ''Found .php files (assuming Laravel)''\<rparr>
           else \<lparr>stack = None, confidence = low, reason = lit ''Could not detect stack''\<rparr>), w)"
  by (simp add: scan_extensions_def top_level_files_def Let_def io_bind_def io_catch_def
        io_return_def readdir_def readdirSync_def is_dir_def
      split: option.splits node.splits)

lemma detectStack_eq:
  "detectStack parse_json dir w =
     (case fst (check_composer parse_json dir w) of
        Inr (Some r) \<Rightarrow> (Inr r, w)
      | _ \<Rightarrow> (case fst (check_package parse_json dir w) of
                Inr (Some r) \<Rightarrow> (Inr r, w)
              | _ \<Rightarrow> scan_extensions dir w))"
  by (simp add: detectStack_def Let_def io_bind_def io_return_def check_composer_eq check_package_eq)

lemma unparsed_manifest_declares_nothing:
  "node_at w file = Some (File text) \<Longrightarrow> parse_json text = None
   \<Longrightarrow> \<not> declares parse_json w file a b name"
  by (simp add: declares_def manifest_deps_def)

text \<open>
  Claim C2, as amended. A directory whose \<^verbatim>\<open>composer.json\<close> declares
  \<^verbatim>\<open>laravel/framework\<close> gives \<^verbatim>\<open>php-laravel\<close>; otherwise a \<^verbatim>\<open>package.json\<close> that
  declares \<^verbatim>\<open>react\<close> or \<^verbatim>\<open>react-dom\<close> gives \<^verbatim>\<open>react-typescript\<close>, and otherwise one
  that declares \<^verbatim>\<open>express\<close> gives \<^verbatim>\<open>node-express\<close>, each with high confidence. A
  \<^verbatim>\<open>package.json\<close> that declares \<^verbatim>\<open>typescript\<close> and none of the former gives
  \<^verbatim>\<open>react-typescript\<close> with low confidence.
\<close>

theorem detectStack_known_dependency:
  "(composer_declares parse_json w dir (lit ''laravel/framework'') \<longrightarrow>
      detectStack parse_json dir w = (Inr \<lparr>stack = Some php_laravel, confidence = high, reason = lit ''Found laravel/framework in composer.json''\<rparr>, w))
   \<and> (\<not> composer_declares parse_json w dir (lit ''laravel/framework'')
       \<and> (package_declares parse_json w dir (lit ''react'')
            \<or> package_declares parse_json w dir (lit ''react-dom'')) \<longrightarrow>
      detectStack parse_json dir w = (Inr \<lparr>stack = Some react_typescript, confidence = high, reason = lit ''Found react in package.json''\<rparr>, w))
   \<and> (\<not> composer_declares parse_json w dir (lit ''laravel/framework'')
       \<and> \<not> package_declares parse_json w dir (lit ''react'')
       \<and> \<not> package_declares parse_json w dir (lit ''react-dom'')
       \<and> package_declares parse_json w dir (lit ''express'') \<longrightarrow>
      detectStack parse_json dir w = (Inr \<lparr>stack = Some node_express, confidence = high, reason = lit ''Found express in package.json''\<rparr>, w))
   \<and> (\<not> composer_declares parse_json w dir (lit ''laravel/framework'')
       \<and> \<not> package_declares parse_json w dir (lit ''react'')
       \<and> \<not> package_declares parse_json w dir (lit ''react-dom'')
       \<and> \<not> package_declares parse_json w dir (lit ''express'')
       \<and> package_declares parse_json w dir (lit ''typescript'') \<longrightarrow>
      detectStack parse_json dir w = (Inr \<lparr>stack = Some react_typescript, confidence = low, reason = lit ''Found typescript but no specific framework''\<rparr>, w))"
  by (simp add: detectStack_eq check_composer_eq check_package_eq)

theorem detectStack_known_dependency_witness:
  "composer_declares (\<lambda>t. if t = lit ''{'' @ dq @ lit ''require'' @ dq @ lit '': {'' @ dq @ lit ''php'' @ dq @ lit '': '' @ dq @ lit ''^8.2'' @ dq @ lit '', '' @ dq @ lit ''laravel/framework'' @ dq @ lit '': '' @ dq @ lit ''^11.0'' @ dq @ lit ''}}'' then Some (JObj [(lit ''require'', JObj [(lit ''php'', JStr (lit ''^8.2'')), (lit ''laravel/framework'', JStr (lit ''^11.0''))])]) else if t = lit ''{'' @ dq @ lit ''dependencies'' @ dq @ lit '': {'' @ dq @ lit ''react'' @ dq @ lit '': '' @ dq @ lit ''^18.0.0'' @ dq @ lit ''}}'' then Some (JObj [(lit ''dependencies'', JObj [(lit ''react'', JStr (lit ''^18.0.0''))])]) else None) (\<lparr>files = [([lit ''proj''], Dir),
        ([lit ''proj'', lit ''composer.json''], File (lit ''{'' @ dq @ lit ''require'' @ dq @ lit '': {'' @ dq @ lit ''php'' @ dq @ lit '': '' @ dq @ lit ''^8.2'' @ dq @ lit '', '' @ dq @ lit ''laravel/framework'' @ dq @ lit '': '' @ dq @ lit ''^11.0'' @ dq @ lit ''}}'')),
        ([lit ''proj'', lit ''package.json''], File (lit ''{'' @ dq @ lit ''dependencies'' @ dq @ lit '': {'' @ dq @ lit ''react'' @ dq @ lit '': '' @ dq @ lit ''^18.0.0'' @ dq @ lit ''}}''))], console = []\<rparr>) [lit ''proj''] (lit ''laravel/framework'')
   \<and> detectStack (\<lambda>t. if t = lit ''{'' @ dq @ lit ''require'' @ dq @ lit '': {'' @ dq @ lit ''php'' @ dq @ lit '': '' @ dq @ lit ''^8.2'' @ dq @ lit '', '' @ dq @ lit ''laravel/framework'' @ dq @ lit '': '' @ dq @ lit ''^11.0'' @ dq @ lit ''}}'' then Some (JObj [(lit ''require'', JObj [(lit ''php'', JStr (lit ''^8.2'')), (lit ''laravel/framework'', JStr (lit ''^11.0''))])]) else if t = lit ''{'' @ dq @ lit ''dependencies'' @ dq @ lit '': {'' @ dq @ lit ''react'' @ dq @ lit '': '' @ dq @ lit ''^18.0.0'' @ dq @ lit ''}}'' then Some (JObj [(lit ''dependencies'', JObj [(lit ''react'', JStr (lit ''^18.0.0''))])]) else None) [lit ''proj''] (\<lparr>files = [([lit ''proj''], Dir),
        ([lit ''proj'', lit ''composer.json''], File (lit ''{'' @ dq @ lit ''require'' @ dq @ lit '': {'' @ dq @ lit ''php'' @ dq @ lit '': '' @ dq @ lit ''^8.2'' @ dq @ lit '', '' @ dq @ lit ''laravel/framework'' @ dq @ lit '': '' @ dq @ lit ''^11.0'' @ dq @ lit ''}}'')),
        ([lit ''proj'', lit ''package.json''], File (lit ''{'' @ dq @ lit ''dependencies'' @ dq @ lit '': {'' @ dq @ lit ''react'' @ dq @ lit '': '' @ dq @ lit ''^18.0.0'' @ dq @ lit ''}}''))], console = []\<rparr>) = (Inr \<lparr>stack = Some php_laravel, confidence = high, reason = lit ''Found laravel/framework in composer.json''\<rparr>, \<lparr>files = [([lit ''proj''], Dir),
        ([lit ''proj'', lit ''composer.json''], File (lit ''{'' @ dq @ lit ''require'' @ dq @ lit '': {'' @ dq @ lit ''php'' @ dq @ lit '': '' @ dq @ lit ''^8.2'' @ dq @ lit '', '' @ dq @ lit ''laravel/framework'' @ dq @ lit '': '' @ dq @ lit ''^11.0'' @ dq @ lit ''}}'')),
        ([lit ''proj'', lit ''package.json''], File (lit ''{'' @ dq @ lit ''dependencies'' @ dq @ lit '': {'' @ dq @ lit ''react'' @ dq @ lit '': '' @ dq @ lit ''^18.0.0'' @ dq @ lit ''}}''))], console = []\<rparr>)
   \<and> \<not> composer_declares (\<lambda>t. if t = lit ''{'' @ dq @ lit ''dependencies'' @ dq @ lit '': {'' @ dq @ lit ''react'' @ dq @ lit '': '' @ dq @ lit ''^18.0.0'' @ dq @ lit ''}}'' then Some (JObj [(lit ''dependencies'', JObj [(lit ''react'', JStr (lit ''^18.0.0''))])]) else None) (\<lparr>files = [([lit ''proj''], Dir),
        ([lit ''proj'', lit ''package.json''], File (lit ''{'' @ dq @ lit ''dependencies'' @ dq @ lit '': {'' @ dq @ lit ''react'' @ dq @ lit '': '' @ dq @ lit ''^18.0.0'' @ dq @ lit ''}}''))], console = []\<rparr>) [lit ''proj''] (lit ''laravel/framework'') \<and> package_declares (\<lambda>t. if t = lit ''{'' @ dq @ lit ''dependencies'' @ dq @ lit '': {'' @ dq @ lit ''react'' @ dq @ lit '': '' @ dq @ lit ''^18.0.0'' @ dq @ lit ''}}'' then Some (JObj [(lit ''dependencies'', JObj [(lit ''react'', JStr (lit ''^18.0.0''))])]) else None) (\<lparr>files = [([lit ''proj''], Dir),
        ([lit ''proj'', lit ''package.json''], File (lit ''{'' @ dq @ lit ''dependencies'' @ dq @ lit '': {'' @ dq @ lit ''react'' @ dq @ lit '': '' @ dq @ lit ''^18.0.0'' @ dq @ lit ''}}''))], console = []\<rparr>) [lit ''proj''] (lit ''react'')
   \<and> detectStack (\<lambda>t. if t = lit ''{'' @ dq @ lit ''dependencies'' @ dq @ lit '': {'' @ dq @ lit ''react'' @ dq @ lit '': '' @ dq @ lit ''^18.0.0'' @ dq @ lit ''}}'' then Some (JObj [(lit ''dependencies'', JObj [(lit ''react'', JStr (lit ''^18.0.0''))])]) else None) [lit ''proj''] (\<lparr>files = [([lit ''proj''], Dir),
        ([lit ''proj'', lit ''package.json''], File (lit ''{'' @ dq @ lit ''dependencies'' @ dq @ lit '': {'' @ dq @ lit ''react'' @ dq @ lit '': '' @ dq @ lit ''^18.0.0'' @ dq @ lit ''}}''))], console = []\<rparr>) = (Inr \<lparr>stack = Some react_typescript, confidence = high, reason = lit ''Found react in package.json''\<rparr>, \<lparr>files = [([lit ''proj''], Dir),
        ([lit ''proj'', lit ''package.json''], File (lit ''{'' @ dq @ lit ''dependencies'' @ dq @ lit '': {'' @ dq @ lit ''react'' @ dq @ lit '': '' @ dq @ lit ''^18.0.0'' @ dq @ lit ''}}''))], console = []\<rparr>)
   \<and> \<not> composer_declares (\<lambda>t. if t = lit ''{'' @ dq @ lit ''dependencies'' @ dq @ lit '': {'' @ dq @ lit ''express'' @ dq @ lit '': '' @ dq @ lit ''^4.19.0'' @ dq @ lit ''}, '' @ dq @ lit ''devDependencies'' @ dq @ lit '': {'' @ dq @ lit ''typescript'' @ dq @ lit '': '' @ dq @ lit ''^5.4.0'' @ dq @ lit ''}}'' then Some (JObj [(lit ''dependencies'', JObj [(lit ''express'', JStr (lit ''^4.19.0''))]), (lit ''devDependencies'', JObj [(lit ''typescript'', JStr (lit ''^5.4.0''))])]) else None) (\<lparr>files = [([lit ''proj''], Dir),
        ([lit ''proj'', lit ''package.json''], File (lit ''{'' @ dq @ lit ''dependencies'' @ dq @ lit '': {'' @ dq @ lit ''express'' @ dq @ lit '': '' @ dq @ lit ''^4.19.0'' @ dq @ lit ''}, '' @ dq @ lit ''devDependencies'' @ dq @ lit '': {'' @ dq @ lit ''typescript'' @ dq @ lit '': '' @ dq @ lit ''^5.4.0'' @ dq @ lit ''}}''))], console = []\<rparr>) [lit ''proj''] (lit ''laravel/framework'') \<and> \<not> package_declares (\<lambda>t. if t = lit ''{'' @ dq @ lit ''dependencies'' @ dq @ lit '': {'' @ dq @ lit ''express'' @ dq @ lit '': '' @ dq @ lit ''^4.19.0'' @ dq @ lit ''}, '' @ dq @ lit ''devDependencies'' @ dq @ lit '': {'' @ dq @ lit ''typescript'' @ dq @ lit '': '' @ dq @ lit ''^5.4.0'' @ dq @ lit ''}}'' then Some (JObj [(lit ''dependencies'', JObj [(lit ''express'', JStr (lit ''^4.19.0''))]), (lit ''devDependencies'', JObj [(lit ''typescript'', JStr (lit ''^5.4.0''))])]) else None) (\<lparr>files = [([lit ''proj''], Dir),
        ([lit ''proj'', lit ''package.json''], File (lit ''{'' @ dq @ lit ''dependencies'' @ dq @ lit '': {'' @ dq @ lit ''express'' @ dq @ lit '': '' @ dq @ lit ''^4.19.0'' @ dq @ lit ''}, '' @ dq @ lit ''devDependencies'' @ dq @ lit '': {'' @ dq @ lit ''typescript'' @ dq @ lit '': '' @ dq @ lit ''^5.4.0'' @ dq @ lit ''}}''))], console = []\<rparr>) [lit ''proj''] (lit ''react'') \<and> \<not> package_declares (\<lambda>t. if t = lit ''{'' @ dq @ lit ''dependencies'' @ dq @ lit '': {'' @ dq @ lit ''express'' @ dq @ lit '': '' @ dq @ lit ''^4.19.0'' @ dq @ lit ''}, '' @ dq @ lit ''devDependencies'' @ dq @ lit '': {'' @ dq @ lit ''typescript'' @ dq @ lit '': '' @ dq @ lit ''^5.4.0'' @ dq @ lit ''}}'' then Some (JObj [(lit ''dependencies'', JObj [(lit ''express'', JStr (lit ''^4.19.0''))]), (lit ''devDependencies'', JObj [(lit ''typescript'', JStr (lit ''^5.4.0''))])]) else None) (\<lparr>files = [([lit ''proj''], Dir),
        ([lit ''proj'', lit ''package.json''], File (lit ''{'' @ dq @ lit ''dependencies'' @ dq @ lit '': {'' @ dq @ lit ''express'' @ dq @ lit '': '' @ dq @ lit ''^4.19.0'' @ dq @ lit ''}, '' @ dq @ lit ''devDependencies'' @ dq @ lit '': {'' @ dq @ lit ''typescript'' @ dq @ lit '': '' @ dq @ lit ''^5.4.0'' @ dq @ lit ''}}''))], console = []\<rparr>) [lit ''proj''] (lit ''react-dom'') \<and> package_declares (\<lambda>t. if t = lit ''{'' @ dq @ lit ''dependencies'' @ dq @ lit '': {'' @ dq @ lit ''express'' @ dq @ lit '': '' @ dq @ lit ''^4.19.0'' @ dq @ lit ''}, '' @ dq @ lit ''devDependencies'' @ dq @ lit '': {'' @ dq @ lit ''typescript'' @ dq @ lit '': '' @ dq @ lit ''^5.4.0'' @ dq @ lit ''}}'' then Some (JObj [(lit ''dependencies'', JObj [(lit ''express'', JStr (lit ''^4.19.0''))]), (lit ''devDependencies'', JObj [(lit ''typescript'', JStr (lit ''^5.4.0''))])]) else None) (\<lparr>files = [([lit ''proj''], Dir),
        ([lit ''proj'', lit ''package.json''], File (lit ''{'' @ dq @ lit ''dependencies'' @ dq @ lit '': {'' @ dq @ lit ''express'' @ dq @ lit '': '' @ dq @ lit ''^4.19.0'' @ dq @ lit ''}, '' @ dq @ lit ''devDependencies'' @ dq @ lit '': {'' @ dq @ lit ''typescript'' @ dq @ lit '': '' @ dq @ lit ''^5.4.0'' @ dq @ lit ''}}''))], console = []\<rparr>) [lit ''proj''] (lit ''express'')
   \<and> detectStack (\<lambda>t. if t = lit ''{'' @ dq @ lit ''dependencies'' @ dq @ lit '': {'' @ dq @ lit ''express'' @ dq @ lit '': '' @ dq @ lit ''^4.19.0'' @ dq @ lit ''}, '' @ dq @ lit ''devDependencies'' @ dq @ lit '': {'' @ dq @ lit ''typescript'' @ dq @ lit '': '' @ dq @ lit ''^5.4.0'' @ dq @ lit ''}}'' then Some (JObj [(lit ''dependencies'', JObj [(lit ''express'', JStr (lit ''^4.19.0''))]), (lit ''devDependencies'', JObj [(lit ''typescript'', JStr (lit ''^5.4.0''))])]) else None) [lit ''proj''] (\<lparr>files = [([lit ''proj''], Dir),
        ([lit ''proj'', lit ''package.json''], File (lit ''{'' @ dq @ lit ''dependencies'' @ dq @ lit '': {'' @ dq @ lit ''express'' @ dq @ lit '': '' @ dq @ lit ''^4.19.0'' @ dq @ lit ''}, '' @ dq @ lit ''devDependencies'' @ dq @ lit '': {'' @ dq @ lit ''typescript'' @ dq @ lit '': '' @ dq @ lit ''^5.4.0'' @ dq @ lit ''}}''))], console = []\<rparr>) = (Inr \<lparr>stack = Some node_express, confidence = high, reason = lit ''Found express in package.json''\<rparr>, \<lparr>files = [([lit ''proj''], Dir),
        ([lit ''proj'', lit ''package.json''], File (lit ''{'' @ dq @ lit ''dependencies'' @ dq @ lit '': {'' @ dq @ lit ''express'' @ dq @ lit '': '' @ dq @ lit ''^4.19.0'' @ dq @ lit ''}, '' @ dq @ lit ''devDependencies'' @ dq @ lit '': {'' @ dq @ lit ''typescript'' @ dq @ lit '': '' @ dq @ lit ''^5.4.0'' @ dq @ lit ''}}''))], console = []\<rparr>)
   \<and> \<not> composer_declares (\<lambda>t. if t = lit ''{'' @ dq @ lit ''devDependencies'' @ dq @ lit '': {'' @ dq @ lit ''typescript'' @ dq @ lit '': '' @ dq @ lit ''^5.4.0'' @ dq @ lit ''}}'' then Some (JObj [(lit ''devDependencies'', JObj [(lit ''typescript'', JStr (lit ''^5.4.0''))])]) else None) (\<lparr>files = [([lit ''proj''], Dir),
        ([lit ''proj'', lit ''package.json''], File (lit ''{'' @ dq @ lit ''devDependencies'' @ dq @ lit '': {'' @ dq @ lit ''typescript'' @ dq @ lit '': '' @ dq @ lit ''^5.4.0'' @ dq @ lit ''}}''))], console = []\<rparr>) [lit ''proj''] (lit ''laravel/framework'') \<and> \<not> package_declares (\<lambda>t. if t = lit ''{'' @ dq @ lit ''devDependencies'' @ dq @ lit '': {'' @ dq @ lit ''typescript'' @ dq @ lit '': '' @ dq @ lit ''^5.4.0'' @ dq @ lit ''}}'' then Some (JObj [(lit ''devDependencies'', JObj [(lit ''typescript'', JStr (lit ''^5.4.0''))])]) else None) (\<lparr>files = [([lit ''proj''], Dir),
        ([lit ''proj'', lit ''package.json''], File (lit ''{'' @ dq @ lit ''devDependencies'' @ dq @ lit '': {'' @ dq @ lit ''typescript'' @ dq @ lit '': '' @ dq @ lit ''^5.4.0'' @ dq @ lit ''}}''))], console = []\<rparr>) [lit ''proj''] (lit ''react'') \<and> \<not> package_declares (\<lambda>t. if t = lit ''{'' @ dq @ lit ''devDependencies'' @ dq @ lit '': {'' @ dq @ lit ''typescript'' @ dq @ lit '': '' @ dq @ lit ''^5.4.0'' @ dq @ lit ''}}'' then Some (JObj [(lit ''devDependencies'', JObj [(lit ''typescript'', JStr (lit ''^5.4.0''))])]) else None) (\<lparr>files = [([lit ''proj''], Dir),
        ([lit ''proj'', lit ''package.json''], File (lit ''{'' @ dq @ lit ''devDependencies'' @ dq @ lit '': {'' @ dq @ lit ''typescript'' @ dq @ lit '': '' @ dq @ lit ''^5.4.0'' @ dq @ lit ''}}''))], console = []\<rparr>) [lit ''proj''] (lit ''react-dom'') \<and> \<not> package_declares (\<lambda>t. if t = lit ''{'' @ dq @ lit ''devDependencies'' @ dq @ lit '': {'' @ dq @ lit ''typescript'' @ dq @ lit '': '' @ dq @ lit ''^5.4.0'' @ dq @ lit ''}}'' then Some (JObj [(lit ''devDependencies'', JObj [(lit ''typescript'', JStr (lit ''^5.4.0''))])]) else None) (\<lparr>files = [([lit ''proj''], Dir),
        ([lit ''proj'', lit ''package.json''], File (lit ''{'' @ dq @ lit ''devDependencies'' @ dq @ lit '': {'' @ dq @ lit ''typescript'' @ dq @ lit '': '' @ dq @ lit ''^5.4.0'' @ dq @ lit ''}}''))], console = []\<rparr>) [lit ''proj''] (lit ''express'') \<and> package_declares (\<lambda>t. if t = lit ''{'' @ dq @ lit ''devDependencies'' @ dq @ lit '': {'' @ dq @ lit ''typescript'' @ dq @ lit '': '' @ dq @ lit ''^5.4.0'' @ dq @ lit ''}}'' then Some (JObj [(lit ''devDependencies'', JObj [(lit ''typescript'', JStr (lit ''^5.4.0''))])]) else None) (\<lparr>files = [([lit ''proj''], Dir),
        ([lit ''proj'', lit ''package.json''], File (lit ''{'' @ dq @ lit ''devDependencies'' @ dq @ lit '': {'' @ dq @ lit ''typescript'' @ dq @ lit '': '' @ dq @ lit ''^5.4.0'' @ dq @ lit ''}}''))], console = []\<rparr>) [lit ''proj''] (lit ''typescript'')
   \<and> detectStack (\<lambda>t. if t = lit ''{'' @ dq @ lit ''devDependencies'' @ dq @ lit '': {'' @ dq @ lit ''typescript'' @ dq @ lit '': '' @ dq @ lit ''^5.4.0'' @ dq @ lit ''}}'' then Some (JObj [(lit ''devDependencies'', JObj [(lit ''typescript'', JStr (lit ''^5.4.0''))])]) else None) [lit ''proj''] (\<lparr>files = [([lit ''proj''], Dir),
        ([lit ''proj'', lit ''package.json''], File (lit ''{'' @ dq @ lit ''devDependencies'' @ dq @ lit '': {'' @ dq @ lit ''typescript'' @ dq @ lit '': '' @ dq @ lit ''^5.4.0'' @ dq @ lit ''}}''))], console = []\<rparr>) = (Inr \<lparr>stack = Some react_typescript, confidence = low, reason = lit ''Found typescript but no specific framework''\<rparr>, \<lparr>files = [([lit ''proj''], Dir),
        ([lit ''proj'', lit ''package.json''], File (lit ''{'' @ dq @ lit ''devDependencies'' @ dq @ lit '': {'' @ dq @ lit ''typescript'' @ dq @ lit '': '' @ dq @ lit ''^5.4.0'' @ dq @ lit ''}}''))], console = []\<rparr>)"
proof -
  have l: "composer_declares (\<lambda>t. if t = lit ''{'' @ dq @ lit ''require'' @ dq @ lit '': {'' @ dq @ lit ''php'' @ dq @ lit '': '' @ dq @ lit ''^8.2'' @ dq @ lit '', '' @ dq @ lit ''laravel/framework'' @ dq @ lit '': '' @ dq @ lit ''^11.0'' @ dq @ lit ''}}'' then Some (JObj [(lit ''require'', JObj [(lit ''php'', JStr (lit ''^8.2'')), (lit ''laravel/framework'', JStr (lit ''^11.0''))])]) else if t = lit ''{'' @ dq @ lit ''dependencies'' @ dq @ lit '': {'' @ dq @ lit ''react'' @ dq @ lit '': '' @ dq @ lit ''^18.0.0'' @ dq @ lit ''}}'' then Some (JObj [(lit ''dependencies'', JObj [(lit ''react'', JStr (lit ''^18.0.0''))])]) else None) (\<lparr>files = [([lit ''proj''], Dir),
        ([lit ''proj'', lit ''composer.json''], File (lit ''{'' @ dq @ lit ''require'' @ dq @ lit '': {'' @ dq @ lit ''php'' @ dq @ lit '': '' @ dq @ lit ''^8.2'' @ dq @ lit '', '' @ dq @ lit ''laravel/framework'' @ dq @ lit '': '' @ dq @ lit ''^11.0'' @ dq @ lit ''}}'')),
        ([lit ''proj'', lit ''package.json''], File (lit ''{'' @ dq @ lit ''dependencies'' @ dq @ lit '': {'' @ dq @ lit ''react'' @ dq @ lit '': '' @ dq @ lit ''^18.0.0'' @ dq @ lit ''}}''))], console = []\<rparr>) [lit ''proj''] (lit ''laravel/framework'')" by (simp add: composer_declares_def package_declares_def declares_def manifest_deps_def node_at_def merged_deps_def lit_def dq_def)
  have r: "\<not> composer_declares (\<lambda>t. if t = lit ''{'' @ dq @ lit ''dependencies'' @ dq @ lit '': {'' @ dq @ lit ''react'' @ dq @ lit '': '' @ dq @ lit ''^18.0.0'' @ dq @ lit ''}}'' then Some (JObj [(lit ''dependencies'', JObj [(lit ''react'', JStr (lit ''^18.0.0''))])]) else None) (\<lparr>files = [([lit ''proj''], Dir),
        ([lit ''proj'', lit ''package.json''], File (lit ''{'' @ dq @ lit ''dependencies'' @ dq @ lit '': {'' @ dq @ lit ''react'' @ dq @ lit '': '' @ dq @ lit ''^18.0.0'' @ dq @ lit ''}}''))], console = []\<rparr>) [lit ''proj''] (lit ''laravel/framework'')" "package_declares (\<lambda>t. if t = lit ''{'' @ dq @ lit ''dependencies'' @ dq @ lit '': {'' @ dq @ lit ''react'' @ dq @ lit '': '' @ dq @ lit ''^18.0.0'' @ dq @ lit ''}}'' then Some (JObj [(lit ''dependencies'', JObj [(lit ''react'', JStr (lit ''^18.0.0''))])]) else None) (\<lparr>files = [([lit ''proj''], Dir),
        ([lit ''proj'', lit ''package.json''], File (lit ''{'' @ dq @ lit ''dependencies'' @ dq @ lit '': {'' @ dq @ lit ''react'' @ dq @ lit '': '' @ dq @ lit ''^18.0.0'' @ dq @ lit ''}}''))], console = []\<rparr>) [lit ''proj''] (lit ''react'')" by (simp add: composer_declares_def package_declares_def declares_def manifest_deps_def node_at_def merged_deps_def lit_def dq_def)+
  have e: "\<not> composer_declares (\<lambda>t. if t = lit ''{'' @ dq @ lit ''dependencies'' @ dq @ lit '': {'' @ dq @ lit ''express'' @ dq @ lit '': '' @ dq @ lit ''^4.19.0'' @ dq @ lit ''}, '' @ dq @ lit ''devDependencies'' @ dq @ lit '': {'' @ dq @ lit ''typescript'' @ dq @ lit '': '' @ dq @ lit ''^5.4.0'' @ dq @ lit ''}}'' then Some (JObj [(lit ''dependencies'', JObj [(lit ''express'', JStr (lit ''^4.19.0''))]), (lit ''devDependencies'', JObj [(lit ''typescript'', JStr (lit ''^5.4.0''))])]) else None) (\<lparr>files = [([lit ''proj''], Dir),
        ([lit ''proj'', lit ''package.json''], File (lit ''{'' @ dq @ lit ''dependencies'' @ dq @ lit '': {'' @ dq @ lit ''express'' @ dq @ lit '': '' @ dq @ lit ''^4.19.0'' @ dq @ lit ''}, '' @ dq @ lit ''devDependencies'' @ dq @ lit '': {'' @ dq @ lit ''typescript'' @ dq @ lit '': '' @ dq @ lit ''^5.4.0'' @ dq @ lit ''}}''))], console = []\<rparr>) [lit ''proj''] (lit ''laravel/framework'')" "\<not> package_declares (\<lambda>t. if t = lit ''{'' @ dq @ lit ''dependencies'' @ dq @ lit '': {'' @ dq @ lit ''express'' @ dq @ lit '': '' @ dq @ lit ''^4.19.0'' @ dq @ lit ''}, '' @ dq @ lit ''devDependencies'' @ dq @ lit '': {'' @ dq @ lit ''typescript'' @ dq @ lit '': '' @ dq @ lit ''^5.4.0'' @ dq @ lit ''}}'' then Some (JObj [(lit ''dependencies'', JObj [(lit ''express'', JStr (lit ''^4.19.0''))]), (lit ''devDependencies'', JObj [(lit ''typescript'', JStr (lit ''^5.4.0''))])]) else None) (\<lparr>files = [([lit ''proj''], Dir),
        ([lit ''proj'', lit ''package.json''], File (lit ''{'' @ dq @ lit ''dependencies'' @ dq @ lit '': {'' @ dq @ lit ''express'' @ dq @ lit '': '' @ dq @ lit ''^4.19.0'' @ dq @ lit ''}, '' @ dq @ lit ''devDependencies'' @ dq @ lit '': {'' @ dq @ lit ''typescript'' @ dq @ lit '': '' @ dq @ lit ''^5.4.0'' @ dq @ lit ''}}''))], console = []\<rparr>) [lit ''proj''] (lit ''react'')" "\<not> package_declares (\<lambda>t. if t = lit ''{'' @ dq @ lit ''dependencies'' @ dq @ lit '': {'' @ dq @ lit ''express'' @ dq @ lit '': '' @ dq @ lit ''^4.19.0'' @ dq @ lit ''}, '' @ dq @ lit ''devDependencies'' @ dq @ lit '': {'' @ dq @ lit ''typescript'' @ dq @ lit '': '' @ dq @ lit ''^5.4.0'' @ dq @ lit ''}}'' then Some (JObj [(lit ''dependencies'', JObj [(lit ''express'', JStr (lit ''^4.19.0''))]), (lit ''devDependencies'', JObj [(lit ''typescript'', JStr (lit ''^5.4.0''))])]) else None) (\<lparr>files = [([lit ''proj''], Dir),
        ([lit ''proj'', lit ''package.json''], File (lit ''{'' @ dq @ lit ''dependencies'' @ dq @ lit '': {'' @ dq @ lit ''express'' @ dq @ lit '': '' @ dq @ lit ''^4.19.0'' @ dq @ lit ''}, '' @ dq @ lit ''devDependencies'' @ dq @ lit '': {'' @ dq @ lit ''typescript'' @ dq @ lit '': '' @ dq @ lit ''^5.4.0'' @ dq @ lit ''}}''))], console = []\<rparr>) [lit ''proj''] (lit ''react-dom'')" "package_declares (\<lambda>t. if t = lit ''{'' @ dq @ lit ''dependencies'' @ dq @ lit '': {'' @ dq @ lit ''express'' @ dq @ lit '': '' @ dq @ lit ''^4.19.0'' @ dq @ lit ''}, '' @ dq @ lit ''devDependencies'' @ dq @ lit '': {'' @ dq @ lit ''typescript'' @ dq @ lit '': '' @ dq @ lit ''^5.4.0'' @ dq @ lit ''}}'' then Some (JObj [(lit ''dependencies'', JObj [(lit ''express'', JStr (lit ''^4.19.0''))]), (lit ''devDependencies'', JObj [(lit ''typescript'', JStr (lit ''^5.4.0''))])]) else None) (\<lparr>files = [([lit ''proj''], Dir),
        ([lit ''proj'', lit ''package.json''], File (lit ''{'' @ dq @ lit ''dependencies'' @ dq @ lit '': {'' @ dq @ lit ''express'' @ dq @ lit '': '' @ dq @ lit ''^4.19.0'' @ dq @ lit ''}, '' @ dq @ lit ''devDependencies'' @ dq @ lit '': {'' @ dq @ lit ''typescript'' @ dq @ lit '': '' @ dq @ lit ''^5.4.0'' @ dq @ lit ''}}''))], console = []\<rparr>) [lit ''proj''] (lit ''express'')" by (simp add: composer_declares_def package_declares_def declares_def manifest_deps_def node_at_def merged_deps_def lit_def dq_def)+
  have t: "\<not> composer_declares (\<lambda>t. if t = lit ''{'' @ dq @ lit ''devDependencies'' @ dq @ lit '': {'' @ dq @ lit ''typescript'' @ dq @ lit '': '' @ dq @ lit ''^5.4.0'' @ dq @ lit ''}}'' then Some (JObj [(lit ''devDependencies'', JObj [(lit ''typescript'', JStr (lit ''^5.4.0''))])]) else None) (\<lparr>files = [([lit ''proj''], Dir),
        ([lit ''proj'', lit ''package.json''], File (lit ''{'' @ dq @ lit ''devDependencies'' @ dq @ lit '': {'' @ dq @ lit ''typescript'' @ dq @ lit '': '' @ dq @ lit ''^5.4.0'' @ dq @ lit ''}}''))], console = []\<rparr>) [lit ''proj''] (lit ''laravel/framework'')" "\<not> package_declares (\<lambda>t. if t = lit ''{'' @ dq @ lit ''devDependencies'' @ dq @ lit '': {'' @ dq @ lit ''typescript'' @ dq @ lit '': '' @ dq @ lit ''^5.4.0'' @ dq @ lit ''}}'' then Some (JObj [(lit ''devDependencies'', JObj [(lit ''typescript'', JStr (lit ''^5.4.0''))])]) else None) (\<lparr>files = [([lit ''proj''], Dir),
        ([lit ''proj'', lit ''package.json''], File (lit ''{'' @ dq @ lit ''devDependencies'' @ dq @ lit '': {'' @ dq @ lit ''typescript'' @ dq @ lit '': '' @ dq @ lit ''^5.4.0'' @ dq @ lit ''}}''))], console = []\<rparr>) [lit ''proj''] (lit ''react'')" "\<not> package_declares (\<lambda>t. if t = lit ''{'' @ dq @ lit ''devDependencies'' @ dq @ lit '': {'' @ dq @ lit ''typescript'' @ dq @ lit '': '' @ dq @ lit ''^5.4.0'' @ dq @ lit ''}}'' then Some (JObj [(lit ''devDependencies'', JObj [(lit ''typescript'', JStr (lit ''^5.4.0''))])]) else None) (\<lparr>files = [([lit ''proj''], Dir),
        ([lit ''proj'', lit ''package.json''], File (lit ''{'' @ dq @ lit ''devDependencies'' @ dq @ lit '': {'' @ dq @ lit ''typescript'' @ dq @ lit '': '' @ dq @ lit ''^5.4.0'' @ dq @ lit ''}}''))], console = []\<rparr>) [lit ''proj''] (lit ''react-dom'')" "\<not> package_declares (\<lambda>t. if t = lit ''{'' @ dq @ lit ''devDependencies'' @ dq @ lit '': {'' @ dq @ lit ''typescript'' @ dq @ lit '': '' @ dq @ lit ''^5.4.0'' @ dq @ lit ''}}'' then Some (JObj [(lit ''devDependencies'', JObj [(lit ''typescript'', JStr (lit ''^5.4.0''))])]) else None) (\<lparr>files = [([lit ''proj''], Dir),
        ([lit ''proj'', lit ''package.json''], File (lit ''{'' @ dq @ lit ''devDependencies'' @ dq @ lit '': {'' @ dq @ lit ''typescript'' @ dq @ lit '': '' @ dq @ lit ''^5.4.0'' @ dq @ lit ''}}''))], console = []\<rparr>) [lit ''proj''] (lit ''express'')" "package_declares (\<lambda>t. if t = lit ''{'' @ dq @ lit ''devDependencies'' @ dq @ lit '': {'' @ dq @ lit ''typescript'' @ dq @ lit '': '' @ dq @ lit ''^5.4.0'' @ dq @ lit ''}}'' then Some (JObj [(lit ''devDependencies'', JObj [(lit ''typescript'', JStr (lit ''^5.4.0''))])]) else None) (\<lparr>files = [([lit ''proj''], Dir),
        ([lit ''proj'', lit ''package.json''], File (lit ''{'' @ dq @ lit ''devDependencies'' @ dq @ lit '': {'' @ dq @ lit ''typescript'' @ dq @ lit '': '' @ dq @ lit ''^5.4.0'' @ dq @ lit ''}}''))], console = []\<rparr>) [lit ''proj''] (lit ''typescript'')" by (simp add: composer_declares_def package_declares_def declares_def manifest_deps_def node_at_def merged_deps_def lit_def dq_def)+
  have d1: "detectStack (\<lambda>t. if t = lit ''{'' @ dq @ lit ''require'' @ dq @ lit '': {'' @ dq @ lit ''php'' @ dq @ lit '': '' @ dq @ lit ''^8.2'' @ dq @ lit '', '' @ dq @ lit ''laravel/framework'' @ dq @ lit '': '' @ dq @ lit ''^11.0'' @ dq @ lit ''}}'' then Some (JObj [(lit ''require'', JObj [(lit ''php'', JStr (lit ''^8.2'')), (lit ''laravel/framework'', JStr (lit ''^11.0''))])]) else if t = lit ''{'' @ dq @ lit ''dependencies'' @ dq @ lit '': {'' @ dq @ lit ''react'' @ dq @ lit '': '' @ dq @ lit ''^18.0.0'' @ dq @ lit ''}}'' then Some (JObj [(lit ''dependencies'', JObj [(lit ''react'', JStr (lit ''^18.0.0''))])]) else None) [lit ''proj''] (\<lparr>files = [([lit ''proj''], Dir),
        ([lit ''proj'', lit ''composer.json''], File (lit ''{'' @ dq @ lit ''require'' @ dq @ lit '': {'' @ dq @ lit ''php'' @ dq @ lit '': '' @ dq @ lit ''^8.2'' @ dq @ lit '', '' @ dq @ lit ''laravel/framework'' @ dq @ lit '': '' @ dq @ lit ''^11.0'' @ dq @ lit ''}}'')),
        ([lit ''proj'', lit ''package.json''], File (lit ''{'' @ dq @ lit ''dependencies'' @ dq @ lit '': {'' @ dq @ lit ''react'' @ dq @ lit '': '' @ dq @ lit ''^18.0.0'' @ dq @ lit ''}}''))], console = []\<rparr>) = (Inr \<lparr>stack = Some php_laravel, confidence = high, reason = lit ''Found laravel/framework in composer.json''\<rparr>, \<lparr>files = [([lit ''proj''], Dir),
        ([lit ''proj'', lit ''composer.json''], File (lit ''{'' @ dq @ lit ''require'' @ dq @ lit '': {'' @ dq @ lit ''php'' @ dq @ lit '': '' @ dq @ lit ''^8.2'' @ dq @ lit '', '' @ dq @ lit ''laravel/framework'' @ dq @ lit '': '' @ dq @ lit ''^11.0'' @ dq @ lit ''}}'')),
        ([lit ''proj'', lit ''package.json''], File (lit ''{'' @ dq @ lit ''dependencies'' @ dq @ lit '': {'' @ dq @ lit ''react'' @ dq @ lit '': '' @ dq @ lit ''^18.0.0'' @ dq @ lit ''}}''))], console = []\<rparr>)"
    by (rule detectStack_known_dependency[of "(\<lambda>t. if t = lit ''{'' @ dq @ lit ''require'' @ dq @ lit '': {'' @ dq @ lit ''php'' @ dq @ lit '': '' @ dq @ lit ''^8.2'' @ dq @ lit '', '' @ dq @ lit ''laravel/framework'' @ dq @ lit '': '' @ dq @ lit ''^11.0'' @ dq @ lit ''}}'' then Some (JObj [(lit ''require'', JObj [(lit ''php'', JStr (lit ''^8.2'')), (lit ''laravel/framework'', JStr (lit ''^11.0''))])]) else if t = lit ''{'' @ dq @ lit ''dependencies'' @ dq @ lit '': {'' @ dq @ lit ''react'' @ dq @ lit '': '' @ dq @ lit ''^18.0.0'' @ dq @ lit ''}}'' then Some (JObj [(lit ''dependencies'', JObj [(lit ''react'', JStr (lit ''^18.0.0''))])]) else None)" "\<lparr>files = [([lit ''proj''], Dir),
        ([lit ''proj'', lit ''composer.json''], File (lit ''{'' @ dq @ lit ''require'' @ dq @ lit '': {'' @ dq @ lit ''php'' @ dq @ lit '': '' @ dq @ lit ''^8.2'' @ dq @ lit '', '' @ dq @ lit ''laravel/framework'' @ dq @ lit '': '' @ dq @ lit ''^11.0'' @ dq @ lit ''}}'')),
        ([lit ''proj'', lit ''package.json''], File (lit ''{'' @ dq @ lit ''dependencies'' @ dq @ lit '': {'' @ dq @ lit ''react'' @ dq @ lit '': '' @ dq @ lit ''^18.0.0'' @ dq @ lit ''}}''))], console = []\<rparr>" "[lit ''proj'']", THEN conjunct1, THEN mp, OF l])
  have d2: "detectStack (\<lambda>t. if t = lit ''{'' @ dq @ lit ''dependencies'' @ dq @ lit '': {'' @ dq @ lit ''react'' @ dq @ lit '': '' @ dq @ lit ''^18.0.0'' @ dq @ lit ''}}'' then Some (JObj [(lit ''dependencies'', JObj [(lit ''react'', JStr (lit ''^18.0.0''))])]) else None) [lit ''proj''] (\<lparr>files = [([lit ''proj''], Dir),
        ([lit ''proj'', lit ''package.json''], File (lit ''{'' @ dq @ lit ''dependencies'' @ dq @ lit '': {'' @ dq @ lit ''react'' @ dq @ lit '': '' @ dq @ lit ''^18.0.0'' @ dq @ lit ''}}''))], console = []\<rparr>) = (Inr \<lparr>stack = Some react_typescript, confidence = high, reason = lit ''Found react in package.json''\<rparr>, \<lparr>files = [([lit ''proj''], Dir),
        ([lit ''proj'', lit ''package.json''], File (lit ''{'' @ dq @ lit ''dependencies'' @ dq @ lit '': {'' @ dq @ lit ''react'' @ dq @ lit '': '' @ dq @ lit ''^18.0.0'' @ dq @ lit ''}}''))], console = []\<rparr>)"
    by (rule detectStack_known_dependency[of "(\<lambda>t. if t = lit ''{'' @ dq @ lit ''dependencies'' @ dq @ lit '': {'' @ dq @ lit ''react'' @ dq @ lit '': '' @ dq @ lit ''^18.0.0'' @ dq @ lit ''}}'' then Some (JObj [(lit ''dependencies'', JObj [(lit ''react'', JStr (lit ''^18.0.0''))])]) else None)" "\<lparr>files = [([lit ''proj''], Dir),
        ([lit ''proj'', lit ''package.json''], File (lit ''{'' @ dq @ lit ''dependencies'' @ dq @ lit '': {'' @ dq @ lit ''react'' @ dq @ lit '': '' @ dq @ lit ''^18.0.0'' @ dq @ lit ''}}''))], console = []\<rparr>" "[lit ''proj'']", THEN conjunct2, THEN conjunct1, THEN mp, OF conjI[OF r(1) disjI1[OF r(2)]]])
  have d3: "detectStack (\<lambda>t. if t = lit ''{'' @ dq @ lit ''dependencies'' @ dq @ lit '': {'' @ dq @ lit ''express'' @ dq @ lit '': '' @ dq @ lit ''^4.19.0'' @ dq @ lit ''}, '' @ dq @ lit ''devDependencies'' @ dq @ lit '': {'' @ dq @ lit ''typescript'' @ dq @ lit '': '' @ dq @ lit ''^5.4.0'' @ dq @ lit ''}}'' then Some (JObj [(lit ''dependencies'', JObj [(lit ''express'', JStr (lit ''^4.19.0''))]), (lit ''devDependencies'', JObj [(lit ''typescript'', JStr (lit ''^5.4.0''))])]) else None) [lit ''proj''] (\<lparr>files = [([lit ''proj''], Dir),
        ([lit ''proj'', lit ''package.json''], File (lit ''{'' @ dq @ lit ''dependencies'' @ dq @ lit '': {'' @ dq @ lit ''express'' @ dq @ lit '': '' @ dq @ lit ''^4.19.0'' @ dq @ lit ''}, '' @ dq @ lit ''devDependencies'' @ dq @ lit '': {'' @ dq @ lit ''typescript'' @ dq @ lit '': '' @ dq @ lit ''^5.4.0'' @ dq @ lit ''}}''))], console = []\<rparr>) = (Inr \<lparr>stack = Some node_express, confidence = high, reason = lit ''Found express in package.json''\<rparr>, \<lparr>files = [([lit ''proj''], Dir),
        ([lit ''proj'', lit ''package.json''], File (lit ''{'' @ dq @ lit ''dependencies'' @ dq @ lit '': {'' @ dq @ lit ''express'' @ dq @ lit '': '' @ dq @ lit ''^4.19.0'' @ dq @ lit ''}, '' @ dq @ lit ''devDependencies'' @ dq @ lit '': {'' @ dq @ lit ''typescript'' @ dq @ lit '': '' @ dq @ lit ''^5.4.0'' @ dq @ lit ''}}''))], console = []\<rparr>)"
    by (rule detectStack_known_dependency[of "(\<lambda>t. if t = lit ''{'' @ dq @ lit ''dependencies'' @ dq @ lit '': {'' @ dq @ lit ''express'' @ dq @ lit '': '' @ dq @ lit ''^4.19.0'' @ dq @ lit ''}, '' @ dq @ lit ''devDependencies'' @ dq @ lit '': {'' @ dq @ lit ''typescript'' @ dq @ lit '': '' @ dq @ lit ''^5.4.0'' @ dq @ lit ''}}'' then Some (JObj [(lit ''dependencies'', JObj [(lit ''express'', JStr (lit ''^4.19.0''))]), (lit ''devDependencies'', JObj [(lit ''typescript'', JStr (lit ''^5.4.0''))])]) else None)" "\<lparr>files = [([lit ''proj''], Dir),
        ([lit ''proj'', lit ''package.json''], File (lit ''{'' @ dq @ lit ''dependencies'' @ dq @ lit '': {'' @ dq @ lit ''express'' @ dq @ lit '': '' @ dq @ lit ''^4.19.0'' @ dq @ lit ''}, '' @ dq @ lit ''devDependencies'' @ dq @ lit '': {'' @ dq @ lit ''typescript'' @ dq @ lit '': '' @ dq @ lit ''^5.4.0'' @ dq @ lit ''}}''))], console = []\<rparr>" "[lit ''proj'']", THEN conjunct2, THEN conjunct2, THEN conjunct1, THEN mp,
          OF conjI[OF e(1) conjI[OF e(2) conjI[OF e(3) e(4)]]]])
  have d4: "detectStack (\<lambda>t. if t = lit ''{'' @ dq @ lit ''devDependencies'' @ dq @ lit '': {'' @ dq @ lit ''typescript'' @ dq @ lit '': '' @ dq @ lit ''^5.4.0'' @ dq @ lit ''}}'' then Some (JObj [(lit ''devDependencies'', JObj [(lit ''typescript'', JStr (lit ''^5.4.0''))])]) else None) [lit ''proj''] (\<lparr>files = [([lit ''proj''], Dir),
        ([lit ''proj'', lit ''package.json''], File (lit ''{'' @ dq @ lit ''devDependencies'' @ dq @ lit '': {'' @ dq @ lit ''typescript'' @ dq @ lit '': '' @ dq @ lit ''^5.4.0'' @ dq @ lit ''}}''))], console = []\<rparr>) = (Inr \<lparr>stack = Some react_typescript, confidence = low, reason = lit ''Found typescript but no specific framework''\<rparr>, \<lparr>files = [([lit ''proj''], Dir),
        ([lit ''proj'', lit ''package.json''], File (lit ''{'' @ dq @ lit ''devDependencies'' @ dq @ lit '': {'' @ dq @ lit ''typescript'' @ dq @ lit '': '' @ dq @ lit ''^5.4.0'' @ dq @ lit ''}}''))], console = []\<rparr>)"
    by (rule detectStack_known_dependency[of "(\<lambda>t. if t = lit ''{'' @ dq @ lit ''devDependencies'' @ dq @ lit '': {'' @ dq @ lit ''typescript'' @ dq @ lit '': '' @ dq @ lit ''^5.4.0'' @ dq @ lit ''}}'' then Some (JObj [(lit ''devDependencies'', JObj [(lit ''typescript'', JStr (lit ''^5.4.0''))])]) else None)" "\<lparr>files = [([lit ''proj''], Dir),
        ([lit ''proj'', lit ''package.json''], File (lit ''{'' @ dq @ lit ''devDependencies'' @ dq @ lit '': {'' @ dq @ lit ''typescript'' @ dq @ lit '': '' @ dq @ lit ''^5.4.0'' @ dq @ lit ''}}''))], console = []\<rparr>" "[lit ''proj'']", THEN conjunct2, THEN conjunct2, THEN conjunct2, THEN mp,
          OF conjI[OF t(1) conjI[OF t(2) conjI[OF t(3) conjI[OF t(4) t(5)]]]]])
  show ?thesis
    by (intro conjI l r e t d1 d2 d3 d4)
qed

text \<open>The claim as stated fails: a directory whose only manifest declares
  \<^verbatim>\<open>typescript\<close> is detected with low confidence, not high.\<close>

theorem typescript_gives_low_confidence:
  "package_declares (\<lambda>t. if t = lit ''{'' @ dq @ lit ''devDependencies'' @ dq @ lit '': {'' @ dq @ lit ''typescript'' @ dq @ lit '': '' @ dq @ lit ''^5.4.0'' @ dq @ lit ''}}'' then Some (JObj [(lit ''devDependencies'', JObj [(lit ''typescript'', JStr (lit ''^5.4.0''))])]) else None) (\<lparr>files = [([lit ''proj''], Dir),
        ([lit ''proj'', lit ''package.json''], File (lit ''{'' @ dq @ lit ''devDependencies'' @ dq @ lit '': {'' @ dq @ lit ''typescript'' @ dq @ lit '': '' @ dq @ lit ''^5.4.0'' @ dq @ lit ''}}''))], console = []\<rparr>) [lit ''proj''] (lit ''typescript'')
   \<and> detectStack (\<lambda>t. if t = lit ''{'' @ dq @ lit ''devDependencies'' @ dq @ lit '': {'' @ dq @ lit ''typescript'' @ dq @ lit '': '' @ dq @ lit ''^5.4.0'' @ dq @ lit ''}}'' then Some (JObj [(lit ''devDependencies'', JObj [(lit ''typescript'', JStr (lit ''^5.4.0''))])]) else None) [lit ''proj''] (\<lparr>files = [([lit ''proj''], Dir),
        ([lit ''proj'', lit ''package.json''], File (lit ''{'' @ dq @ lit ''devDependencies'' @ dq @ lit '': {'' @ dq @ lit ''typescript'' @ dq @ lit '': '' @ dq @ lit ''^5.4.0'' @ dq @ lit ''}}''))], console = []\<rparr>) = (Inr \<lparr>stack = Some react_typescript, confidence = low, reason = lit ''Found typescript but no specific framework''\<rparr>, \<lparr>files = [([lit ''proj''], Dir),
        ([lit ''proj'', lit ''package.json''], File (lit ''{'' @ dq @ lit ''devDependencies'' @ dq @ lit '': {'' @ dq @ lit ''typescript'' @ dq @ lit '': '' @ dq @ lit ''^5.4.0'' @ dq @ lit ''}}''))], console = []\<rparr>)"
proof -
  have t: "\<not> composer_declares (\<lambda>t. if t = lit ''{'' @ dq @ lit ''devDependencies'' @ dq @ lit '': {'' @ dq @ lit ''typescript'' @ dq @ lit '': '' @ dq @ lit ''^5.4.0'' @ dq @ lit ''}}'' then Some (JObj [(lit ''devDependencies'', JObj [(lit ''typescript'', JStr (lit ''^5.4.0''))])]) else None) (\<lparr>files = [([lit ''proj''], Dir),
        ([lit ''proj'', lit ''package.json''], File (lit ''{'' @ dq @ lit ''devDependencies'' @ dq @ lit '': {'' @ dq @ lit ''typescript'' @ dq @ lit '': '' @ dq @ lit ''^5.4.0'' @ dq @ lit ''}}''))], console = []\<rparr>) [lit ''proj''] (lit ''laravel/framework'')" "\<not> package_declares (\<lambda>t. if t = lit ''{'' @ dq @ lit ''devDependencies'' @ dq @ lit '': {'' @ dq @ lit ''typescript'' @ dq @ lit '': '' @ dq @ lit ''^5.4.0'' @ dq @ lit ''}}'' then Some (JObj [(lit ''devDependencies'', JObj [(lit ''typescript'', JStr (lit ''^5.4.0''))])]) else None) (\<lparr>files = [([lit ''proj''], Dir),
        ([lit ''proj'', lit ''package.json''], File (lit ''{'' @ dq @ lit ''devDependencies'' @ dq @ lit '': {'' @ dq @ lit ''typescript'' @ dq @ lit '': '' @ dq @ lit ''^5.4.0'' @ dq @ lit ''}}''))], console = []\<rparr>) [lit ''proj''] (lit ''react'')" "\<not> package_declares (\<lambda>t. if t = lit ''{'' @ dq @ lit ''devDependencies'' @ dq @ lit '': {'' @ dq @ lit ''typescript'' @ dq @ lit '': '' @ dq @ lit ''^5.4.0'' @ dq @ lit ''}}'' then Some (JObj [(lit ''devDependencies'', JObj [(lit ''typescript'', JStr (lit ''^5.4.0''))])]) else None) (\<lparr>files = [([lit ''proj''], Dir),
        ([lit ''proj'', lit ''package.json''], File (lit ''{'' @ dq @ lit ''devDependencies'' @ dq @ lit '': {'' @ dq @ lit ''typescript'' @ dq @ lit '': '' @ dq @ lit ''^5.4.0'' @ dq @ lit ''}}''))], console = []\<rparr>) [lit ''proj''] (lit ''react-dom'')" "\<not> package_declares (\<lambda>t. if t = lit ''{'' @ dq @ lit ''devDependencies'' @ dq @ lit '': {'' @ dq @ lit ''typescript'' @ dq @ lit '': '' @ dq @ lit ''^5.4.0'' @ dq @ lit ''}}'' then Some (JObj [(lit ''devDependencies'', JObj [(lit ''typescript'', JStr (lit ''^5.4.0''))])]) else None) (\<lparr>files = [([lit ''proj''], Dir),
        ([lit ''proj'', lit ''package.json''], File (lit ''{'' @ dq @ lit ''devDependencies'' @ dq @ lit '': {'' @ dq @ lit ''typescript'' @ dq @ lit '': '' @ dq @ lit ''^5.4.0'' @ dq @ lit ''}}''))], console = []\<rparr>) [lit ''proj''] (lit ''express'')" "package_declares (\<lambda>t. if t = lit ''{'' @ dq @ lit ''devDependencies'' @ dq @ lit '': {'' @ dq @ lit ''typescript'' @ dq @ lit '': '' @ dq @ lit ''^5.4.0'' @ dq @ lit ''}}'' then Some (JObj [(lit ''devDependencies'', JObj [(lit ''typescript'', JStr (lit ''^5.4.0''))])]) else None) (\<lparr>files = [([lit ''proj''], Dir),
        ([lit ''proj'', lit ''package.json''], File (lit ''{'' @ dq @ lit ''devDependencies'' @ dq @ lit '': {'' @ dq @ lit ''typescript'' @ dq @ lit '': '' @ dq @ lit ''^5.4.0'' @ dq @ lit ''}}''))], console = []\<rparr>) [lit ''proj''] (lit ''typescript'')" by (simp add: composer_declares_def package_declares_def declares_def manifest_deps_def node_at_def merged_deps_def lit_def dq_def)+
  then show ?thesis
    by (simp add: detectStack_eq check_composer_eq check_package_eq)
qed

text \<open>
  Claim C5. When no manifest declares a known dependency name (the manifest is missing,
  the parser rejects it, reading its sections throws, or the names are not in it), the
  detector does not throw and falls back to the file names in the top level of the
  directory: \<^verbatim>\<open>react-typescript\<close> with medium confidence when one of them ends in
  \<^verbatim>\<open>.tsx\<close>, otherwise \<^verbatim>\<open>php-laravel\<close> with low confidence when one ends in
  \<^verbatim>\<open>.php\<close>, and otherwise the stack \<^verbatim>\<open>null\<close> with low confidence. The world is left
  as it was.
\<close>

theorem detectStack_falls_back:
  assumes "\<not> composer_declares parse_json w dir (lit ''laravel/framework'')"
    and "\<not> package_declares parse_json w dir (lit ''react'')"
    and "\<not> package_declares parse_json w dir (lit ''react-dom'')"
    and "\<not> package_declares parse_json w dir (lit ''express'')"
    and "\<not> package_declares parse_json w dir (lit ''typescript'')"
  shows "detectStack parse_json dir w =
           (Inr (if list_ex (\<lambda>f. endsWith f (lit ''.tsx'')) (top_level_files w dir)
                 then \<lparr>stack = Some react_typescript, confidence = medium,
                        reason = lit ''Found .tsx files in project root''\<rparr>
                 else if list_ex (\<lambda>f. endsWith f (lit ''.php'')) (top_level_files w dir)
                 then \<lparr>stack = Some php_laravel, confidence = low,
                        reason = lit ''Found .php files (assuming Laravel)''\<rparr>
                 else \<lparr>stack = None, confidence = low,
                        reason = lit ''Could not detect stack''\<rparr>), w)"
  using assms
  by (simp add: detectStack_eq check_composer_eq check_package_eq scan_extensions_eq)

theorem detectStack_falls_back_witness:
  "\<not> composer_declares (\<lambda>t. if t = lit ''{'' @ dq @ lit ''require'' @ dq @ lit '': {'' @ dq @ lit ''php'' @ dq @ lit '': '' @ dq @ lit ''^8.2'' @ dq @ lit ''}}'' then Some (JObj [(lit ''require'', JObj [(lit ''php'', JStr (lit ''^8.2''))])]) else None) (\<lparr>files = [([lit ''proj''], Dir),
        ([lit ''proj'', lit ''package.json''], File (lit ''{ dependencies: '')),
        ([lit ''proj'', lit ''README.md''], File (lit ''# proj'')),
        ([lit ''proj'', lit ''App.tsx''], File (lit ''export {}'')),
        ([lit ''proj'', lit ''index.php''], File (lit ''<?php''))], console = []\<rparr>) [lit ''proj''] (lit ''laravel/framework'')
   \<and> \<not> package_declares (\<lambda>t. if t = lit ''{'' @ dq @ lit ''require'' @ dq @ lit '': {'' @ dq @ lit ''php'' @ dq @ lit '': '' @ dq @ lit ''^8.2'' @ dq @ lit ''}}'' then Some (JObj [(lit ''require'', JObj [(lit ''php'', JStr (lit ''^8.2''))])]) else None) (\<lparr>files = [([lit ''proj''], Dir),
        ([lit ''proj'', lit ''package.json''], File (lit ''{ dependencies: '')),
        ([lit ''proj'', lit ''README.md''], File (lit ''# proj'')),
        ([lit ''proj'', lit ''App.tsx''], File (lit ''export {}'')),
        ([lit ''proj'', lit ''index.php''], File (lit ''<?php''))], console = []\<rparr>) [lit ''proj''] (lit ''react'')
   \<and> \<not> package_declares (\<lambda>t. if t = lit ''{'' @ dq @ lit ''require'' @ dq @ lit '': {'' @ dq @ lit ''php'' @ dq @ lit '': '' @ dq @ lit ''^8.2'' @ dq @ lit ''}}'' then Some (JObj [(lit ''require'', JObj [(lit ''php'', JStr (lit ''^8.2''))])]) else None) (\<lparr>files = [([lit ''proj''], Dir),
        ([lit ''proj'', lit ''package.json''], File (lit ''{ dependencies: '')),
        ([lit ''proj'', lit ''README.md''], File (lit ''# proj'')),
        ([lit ''proj'', lit ''App.tsx''], File (lit ''export {}'')),
        ([lit ''proj'', lit ''index.php''], File (lit ''<?php''))], console = []\<rparr>) [lit ''proj''] (lit ''react-dom'')
   \<and> \<not> package_declares (\<lambda>t. if t = lit ''{'' @ dq @ lit ''require'' @ dq @ lit '': {'' @ dq @ lit ''php'' @ dq @ lit '': '' @ dq @ lit ''^8.2'' @ dq @ lit ''}}'' then Some (JObj [(lit ''require'', JObj [(lit ''php'', JStr (lit ''^8.2''))])]) else None) (\<lparr>files = [([lit ''proj''], Dir),
        ([lit ''proj'', lit ''package.json''], File (lit ''{ dependencies: '')),
        ([lit ''proj'', lit ''README.md''], File (lit ''# proj'')),
        ([lit ''proj'', lit ''App.tsx''], File (lit ''export {}'')),
        ([lit ''proj'', lit ''index.php''], File (lit ''<?php''))], console = []\<rparr>) [lit ''proj''] (lit ''express'')
   \<and> \<not> package_declares (\<lambda>t. if t = lit ''{'' @ dq @ lit ''require'' @ dq @ lit '': {'' @ dq @ lit ''php'' @ dq @ lit '': '' @ dq @ lit ''^8.2'' @ dq @ lit ''}}'' then Some (JObj [(lit ''require'', JObj [(lit ''php'', JStr (lit ''^8.2''))])]) else None) (\<lparr>files = [([lit ''proj''], Dir),
        ([lit ''proj'', lit ''package.json''], File (lit ''{ dependencies: '')),
        ([lit ''proj'', lit ''README.md''], File (lit ''# proj'')),
        ([lit ''proj'', lit ''App.tsx''], File (lit ''export {}'')),
        ([lit ''proj'', lit ''index.php''], File (lit ''<?php''))], console = []\<rparr>) [lit ''proj''] (lit ''typescript'')
   \<and> top_level_files (\<lparr>files = [([lit ''proj''], Dir),
        ([lit ''proj'', lit ''package.json''], File (lit ''{ dependencies: '')),
        ([lit ''proj'', lit ''README.md''], File (lit ''# proj'')),
        ([lit ''proj'', lit ''App.tsx''], File (lit ''export {}'')),
        ([lit ''proj'', lit ''index.php''], File (lit ''<?php''))], console = []\<rparr>) [lit ''proj''] = [lit ''package.json'', lit ''README.md'', lit ''App.tsx'', lit ''index.php'']
   \<and> detectStack (\<lambda>t. if t = lit ''{'' @ dq @ lit ''require'' @ dq @ lit '': {'' @ dq @ lit ''php'' @ dq @ lit '': '' @ dq @ lit ''^8.2'' @ dq @ lit ''}}'' then Some (JObj [(lit ''require'', JObj [(lit ''php'', JStr (lit ''^8.2''))])]) else None) [lit ''proj''] (\<lparr>files = [([lit ''proj''], Dir),
        ([lit ''proj'', lit ''package.json''], File (lit ''{ dependencies: '')),
        ([lit ''proj'', lit ''README.md''], File (lit ''# proj'')),
        ([lit ''proj'', lit ''App.tsx''], File (lit ''export {}'')),
        ([lit ''proj'', lit ''index.php''], File (lit ''<?php''))], console = []\<rparr>) = (Inr \<lparr>stack = Some react_typescript, confidence = medium, reason = lit ''Found .tsx files in project root''\<rparr>, \<lparr>files = [([lit ''proj''], Dir),
        ([lit ''proj'', lit ''package.json''], File (lit ''{ dependencies: '')),
        ([lit ''proj'', lit ''README.md''], File (lit ''# proj'')),
        ([lit ''proj'', lit ''App.tsx''], File (lit ''export {}'')),
        ([lit ''proj'', lit ''index.php''], File (lit ''<?php''))], console = []\<rparr>)
   \<and> \<not> composer_declares (\<lambda>t. if t = lit ''{'' @ dq @ lit ''require'' @ dq @ lit '': {'' @ dq @ lit ''php'' @ dq @ lit '': '' @ dq @ lit ''^8.2'' @ dq @ lit ''}}'' then Some (JObj [(lit ''require'', JObj [(lit ''php'', JStr (lit ''^8.2''))])]) else None) (\<lparr>files = [([lit ''proj''], Dir),
        ([lit ''proj'', lit ''composer.json''], File (lit ''{'' @ dq @ lit ''require'' @ dq @ lit '': {'' @ dq @ lit ''php'' @ dq @ lit '': '' @ dq @ lit ''^8.2'' @ dq @ lit ''}}'')),
        ([lit ''proj'', lit ''README.md''], File (lit ''# proj'')),
        ([lit ''proj'', lit ''index.php''], File (lit ''<?php''))], console = []\<rparr>) [lit ''proj''] (lit ''laravel/framework'')
   \<and> \<not> package_declares (\<lambda>t. if t = lit ''{'' @ dq @ lit ''require'' @ dq @ lit '': {'' @ dq @ lit ''php'' @ dq @ lit '': '' @ dq @ lit ''^8.2'' @ dq @ lit ''}}'' then Some (JObj [(lit ''require'', JObj [(lit ''php'', JStr (lit ''^8.2''))])]) else None) (\<lparr>files = [([lit ''proj''], Dir),
        ([lit ''proj'', lit ''composer.json''], File (lit ''{'' @ dq @ lit ''require'' @ dq @ lit '': {'' @ dq @ lit ''php'' @ dq @ lit '': '' @ dq @ lit ''^8.2'' @ dq @ lit ''}}'')),
        ([lit ''proj'', lit ''README.md''], File (lit ''# proj'')),
        ([lit ''proj'', lit ''index.php''], File (lit ''<?php''))], console = []\<rparr>) [lit ''proj''] (lit ''react'')
   \<and> \<not> package_declares (\<lambda>t. if t = lit ''{'' @ dq @ lit ''require'' @ dq @ lit '': {'' @ dq @ lit ''php'' @ dq @ lit '': '' @ dq @ lit ''^8.2'' @ dq @ lit ''}}'' then Some (JObj [(lit ''require'', JObj [(lit ''php'', JStr (lit ''^8.2''))])]) else None) (\<lparr>files = [([lit ''proj''], Dir),
        ([lit ''proj'', lit ''composer.json''], File (lit ''{'' @ dq @ lit ''require'' @ dq @ lit '': {'' @ dq @ lit ''php'' @ dq @ lit '': '' @ dq @ lit ''^8.2'' @ dq @ lit ''}}'')),
        ([lit ''proj'', lit ''README.md''], File (lit ''# proj'')),
        ([lit ''proj'', lit ''index.php''], File (lit ''<?php''))], console = []\<rparr>) [lit ''proj''] (lit ''react-dom'')
   \<and> \<not> package_declares (\<lambda>t. if t = lit ''{'' @ dq @ lit ''require'' @ dq @ lit '': {'' @ dq @ lit ''php'' @ dq @ lit '': '' @ dq @ lit ''^8.2'' @ dq @ lit ''}}'' then Some (JObj [(lit ''require'', JObj [(lit ''php'', JStr (lit ''^8.2''))])]) else None) (\<lparr>files = [([lit ''proj''], Dir),
        ([lit ''proj'', lit ''composer.json''], File (lit ''{'' @ dq @ lit ''require'' @ dq @ lit '': {'' @ dq @ lit ''php'' @ dq @ lit '': '' @ dq @ lit ''^8.2'' @ dq @ lit ''}}'')),
        ([lit ''proj'', lit ''README.md''], File (lit ''# proj'')),
        ([lit ''proj'', lit ''index.php''], File (lit ''<?php''))], console = []\<rparr>) [lit ''proj''] (lit ''express'')
   \<and> \<not> package_declares (\<lambda>t. if t = lit ''{'' @ dq @ lit ''require'' @ dq @ lit '': {'' @ dq @ lit ''php'' @ dq @ lit '': '' @ dq @ lit ''^8.2'' @ dq @ lit ''}}'' then Some (JObj [(lit ''require'', JObj [(lit ''php'', JStr (lit ''^8.2''))])]) else None) (\<lparr>files = [([lit ''proj''], Dir),
        ([lit ''proj'', lit ''composer.json''], File (lit ''{'' @ dq @ lit ''require'' @ dq @ lit '': {'' @ dq @ lit ''php'' @ dq @ lit '': '' @ dq @ lit ''^8.2'' @ dq @ lit ''}}'')),
        ([lit ''proj'', lit ''README.md''], File (lit ''# proj'')),
        ([lit ''proj'', lit ''index.php''], File (lit ''<?php''))], console = []\<rparr>) [lit ''proj''] (lit ''typescript'')
   \<and> top_level_files (\<lparr>files = [([lit ''proj''], Dir),
        ([lit ''proj'', lit ''composer.json''], File (lit ''{'' @ dq @ lit ''require'' @ dq @ lit '': {'' @ dq @ lit ''php'' @ dq @ lit '': '' @ dq @ lit ''^8.2'' @ dq @ lit ''}}'')),
        ([lit ''proj'', lit ''README.md''], File (lit ''# proj'')),
        ([lit ''proj'', lit ''index.php''], File (lit ''<?php''))], console = []\<rparr>) [lit ''proj''] = [lit ''composer.json'', lit ''README.md'', lit ''index.php'']
   \<and> detectStack (\<lambda>t. if t = lit ''{'' @ dq @ lit ''require'' @ dq @ lit '': {'' @ dq @ lit ''php'' @ dq @ lit '': '' @ dq @ lit ''^8.2'' @ dq @ lit ''}}'' then Some (JObj [(lit ''require'', JObj [(lit ''php'', JStr (lit ''^8.2''))])]) else None) [lit ''proj''] (\<lparr>files = [([lit ''proj''], Dir),
        ([lit ''proj'', lit ''composer.json''], File (lit ''{'' @ dq @ lit ''require'' @ dq @ lit '': {'' @ dq @ lit ''php'' @ dq @ lit '': '' @ dq @ lit ''^8.2'' @ dq @ lit ''}}'')),
        ([lit ''proj'', lit ''README.md''], File (lit ''# proj'')),
        ([lit ''proj'', lit ''index.php''], File (lit ''<?php''))], console = []\<rparr>) = (Inr \<lparr>stack = Some php_laravel, confidence = low, reason = lit ''Found .php files (assuming Laravel)''\<rparr>, \<lparr>files = [([lit ''proj''], Dir),
        ([lit ''proj'', lit ''composer.json''], File (lit ''{'' @ dq @ lit ''require'' @ dq @ lit '': {'' @ dq @ lit ''php'' @ dq @ lit '': '' @ dq @ lit ''^8.2'' @ dq @ lit ''}}'')),
        ([lit ''proj'', lit ''README.md''], File (lit ''# proj'')),
        ([lit ''proj'', lit ''index.php''], File (lit ''<?php''))], console = []\<rparr>)
   \<and> \<not> composer_declares (\<lambda>t. if t = lit ''{'' @ dq @ lit ''require'' @ dq @ lit '': {'' @ dq @ lit ''php'' @ dq @ lit '': '' @ dq @ lit ''^8.2'' @ dq @ lit ''}}'' then Some (JObj [(lit ''require'', JObj [(lit ''php'', JStr (lit ''^8.2''))])]) else None) (\<lparr>files = [([lit ''proj''], Dir),
        ([lit ''proj'', lit ''composer.json''], File (lit ''{'' @ dq @ lit ''require'' @ dq @ lit '': {'' @ dq @ lit ''php'' @ dq @ lit '': '' @ dq @ lit ''^8.2'' @ dq @ lit ''}}'')),
        ([lit ''proj'', lit ''package.json''], File (lit ''{ dependencies: '')),
        ([lit ''proj'', lit ''README.md''], File (lit ''# proj''))], console = []\<rparr>) [lit ''proj''] (lit ''laravel/framework'')
   \<and> \<not> package_declares (\<lambda>t. if t = lit ''{'' @ dq @ lit ''require'' @ dq @ lit '': {'' @ dq @ lit ''php'' @ dq @ lit '': '' @ dq @ lit ''^8.2'' @ dq @ lit ''}}'' then Some (JObj [(lit ''require'', JObj [(lit ''php'', JStr (lit ''^8.2''))])]) else None) (\<lparr>files = [([lit ''proj''], Dir),
        ([lit ''proj'', lit ''composer.json''], File (lit ''{'' @ dq @ lit ''require'' @ dq @ lit '': {'' @ dq @ lit ''php'' @ dq @ lit '': '' @ dq @ lit ''^8.2'' @ dq @ lit ''}}'')),
        ([lit ''proj'', lit ''package.json''], File (lit ''{ dependencies: '')),
        ([lit ''proj'', lit ''README.md''], File (lit ''# proj''))], console = []\<rparr>) [lit ''proj''] (lit ''react'')
   \<and> \<not> package_declares (\<lambda>t. if t = lit ''{'' @ dq @ lit ''require'' @ dq @ lit '': {'' @ dq @ lit ''php'' @ dq @ lit '': '' @ dq @ lit ''^8.2'' @ dq @ lit ''}}'' then Some (JObj [(lit ''require'', JObj [(lit ''php'', JStr (lit ''^8.2''))])]) else None) (\<lparr>files = [([lit ''proj''], Dir),
        ([lit ''proj'', lit ''composer.json''], File (lit ''{'' @ dq @ lit ''require'' @ dq @ lit '': {'' @ dq @ lit ''php'' @ dq @ lit '': '' @ dq @ lit ''^8.2'' @ dq @ lit ''}}'')),
        ([lit ''proj'', lit ''package.json''], File (lit ''{ dependencies: '')),
        ([lit ''proj'', lit ''README.md''], File (lit ''# proj''))], console = []\<rparr>) [lit ''proj''] (lit ''react-dom'')
   \<and> \<not> package_declares (\<lambda>t. if t = lit ''{'' @ dq @ lit ''require'' @ dq @ lit '': {'' @ dq @ lit ''php'' @ dq @ lit '': '' @ dq @ lit ''^8.2'' @ dq @ lit ''}}'' then Some (JObj [(lit ''require'', JObj [(lit ''php'', JStr (lit ''^8.2''))])]) else None) (\<lparr>files = [([lit ''proj''], Dir),
        ([lit ''proj'', lit ''composer.json''], File (lit ''{'' @ dq @ lit ''require'' @ dq @ lit '': {'' @ dq @ lit ''php'' @ dq @ lit '': '' @ dq @ lit ''^8.2'' @ dq @ lit ''}}'')),
        ([lit ''proj'', lit ''package.json''], File (lit ''{ dependencies: '')),
        ([lit ''proj'', lit ''README.md''], File (lit ''# proj''))], console = []\<rparr>) [lit ''proj''] (lit ''express'')
   \<and> \<not> package_declares (\<lambda>t. if t = lit ''{'' @ dq @ lit ''require'' @ dq @ lit '': {'' @ dq @ lit ''php'' @ dq @ lit '': '' @ dq @ lit ''^8.2'' @ dq @ lit ''}}'' then Some (JObj [(lit ''require'', JObj [(lit ''php'', JStr (lit ''^8.2''))])]) else None) (\<lparr>files = [([lit ''proj''], Dir),
        ([lit ''proj'', lit ''composer.json''], File (lit ''{'' @ dq @ lit ''require'' @ dq @ lit '': {'' @ dq @ lit ''php'' @ dq @ lit '': '' @ dq @ lit ''^8.2'' @ dq @ lit ''}}'')),
        ([lit ''proj'', lit ''package.json''], File (lit ''{ dependencies: '')),
        ([lit ''proj'', lit ''README.md''], File (lit ''# proj''))], console = []\<rparr>) [lit ''proj''] (lit ''typescript'')
   \<and> top_level_files (\<lparr>files = [([lit ''proj''], Dir),
        ([lit ''proj'', lit ''composer.json''], File (lit ''{'' @ dq @ lit ''require'' @ dq @ lit '': {'' @ dq @ lit ''php'' @ dq @ lit '': '' @ dq @ lit ''^8.2'' @ dq @ lit ''}}'')),
        ([lit ''proj'', lit ''package.json''], File (lit ''{ dependencies: '')),
        ([lit ''proj'', lit ''README.md''], File (lit ''# proj''))], console = []\<rparr>) [lit ''proj''] = [lit ''composer.json'', lit ''package.json'', lit ''README.md'']
   \<and> detectStack (\<lambda>t. if t = lit ''{'' @ dq @ lit ''require'' @ dq @ lit '': {'' @ dq @ lit ''php'' @ dq @ lit '': '' @ dq @ lit ''^8.2'' @ dq @ lit ''}}'' then Some (JObj [(lit ''require'', JObj [(lit ''php'', JStr (lit ''^8.2''))])]) else None) [lit ''proj''] (\<lparr>files = [([lit ''proj''], Dir),
        ([lit ''proj'', lit ''composer.json''], File (lit ''{'' @ dq @ lit ''require'' @ dq @ lit '': {'' @ dq @ lit ''php'' @ dq @ lit '': '' @ dq @ lit ''^8.2'' @ dq @ lit ''}}'')),
        ([lit ''proj'', lit ''package.json''], File (lit ''{ dependencies: '')),
        ([lit ''proj'', lit ''README.md''], File (lit ''# proj''))], console = []\<rparr>) = (Inr \<lparr>stack = None, confidence = low, reason = lit ''Could not detect stack''\<rparr>, \<lparr>files = [([lit ''proj''], Dir),
        ([lit ''proj'', lit ''composer.json''], File (lit ''{'' @ dq @ lit ''require'' @ dq @ lit '': {'' @ dq @ lit ''php'' @ dq @ lit '': '' @ dq @ lit ''^8.2'' @ dq @ lit ''}}'')),
        ([lit ''proj'', lit ''package.json''], File (lit ''{ dependencies: '')),
        ([lit ''proj'', lit ''README.md''], File (lit ''# proj''))], console = []\<rparr>)"
proof -
  have c1: "\<not> composer_declares (\<lambda>t. if t = lit ''{'' @ dq @ lit ''require'' @ dq @ lit '': {'' @ dq @ lit ''php'' @ dq @ lit '': '' @ dq @ lit ''^8.2'' @ dq @ lit ''}}'' then Some (JObj [(lit ''require'', JObj [(lit ''php'', JStr (lit ''^8.2''))])]) else None) (\<lparr>files = [([lit ''proj''], Dir),
        ([lit ''proj'', lit ''package.json''], File (lit ''{ dependencies: '')),
        ([lit ''proj'', lit ''README.md''], File (lit ''# proj'')),
        ([lit ''proj'', lit ''App.tsx''], File (lit ''export {}'')),
        ([lit ''proj'', lit ''index.php''], File (lit ''<?php''))], console = []\<rparr>) [lit ''proj''] (lit ''laravel/framework'')"
    by (simp add: composer_declares_def declares_def manifest_deps_def node_at_def merged_deps_def lit_def dq_def)
  have p1: "\<not> package_declares (\<lambda>t. if t = lit ''{'' @ dq @ lit ''require'' @ dq @ lit '': {'' @ dq @ lit ''php'' @ dq @ lit '': '' @ dq @ lit ''^8.2'' @ dq @ lit ''}}'' then Some (JObj [(lit ''require'', JObj [(lit ''php'', JStr (lit ''^8.2''))])]) else None) (\<lparr>files = [([lit ''proj''], Dir),
        ([lit ''proj'', lit ''package.json''], File (lit ''{ dependencies: '')),
        ([lit ''proj'', lit ''README.md''], File (lit ''# proj'')),
        ([lit ''proj'', lit ''App.tsx''], File (lit ''export {}'')),
        ([lit ''proj'', lit ''index.php''], File (lit ''<?php''))], console = []\<rparr>) [lit ''proj''] (lit ''react'')"
    "\<not> package_declares (\<lambda>t. if t = lit ''{'' @ dq @ lit ''require'' @ dq @ lit '': {'' @ dq @ lit ''php'' @ dq @ lit '': '' @ dq @ lit ''^8.2'' @ dq @ lit ''}}'' then Some (JObj [(lit ''require'', JObj [(lit ''php'', JStr (lit ''^8.2''))])]) else None) (\<lparr>files = [([lit ''proj''], Dir),
        ([lit ''proj'', lit ''package.json''], File (lit ''{ dependencies: '')),
        ([lit ''proj'', lit ''README.md''], File (lit ''# proj'')),
        ([lit ''proj'', lit ''App.tsx''], File (lit ''export {}'')),
        ([lit ''proj'', lit ''index.php''], File (lit ''<?php''))], console = []\<rparr>) [lit ''proj''] (lit ''react-dom'')"
    "\<not> package_declares (\<lambda>t. if t = lit ''{'' @ dq @ lit ''require'' @ dq @ lit '': {'' @ dq @ lit ''php'' @ dq @ lit '': '' @ dq @ lit ''^8.2'' @ dq @ lit ''}}'' then Some (JObj [(lit ''require'', JObj [(lit ''php'', JStr (lit ''^8.2''))])]) else None) (\<lparr>files = [([lit ''proj''], Dir),
        ([lit ''proj'', lit ''package.json''], File (lit ''{ dependencies: '')),
        ([lit ''proj'', lit ''README.md''], File (lit ''# proj'')),
        ([lit ''proj'', lit ''App.tsx''], File (lit ''export {}'')),
        ([lit ''proj'', lit ''index.php''], File (lit ''<?php''))], console = []\<rparr>) [lit ''proj''] (lit ''express'')"
    "\<not> package_declares (\<lambda>t. if t = lit ''{'' @ dq @ lit ''require'' @ dq @ lit '': {'' @ dq @ lit ''php'' @ dq @ lit '': '' @ dq @ lit ''^8.2'' @ dq @ lit ''}}'' then Some (JObj [(lit ''require'', JObj [(lit ''php'', JStr (lit ''^8.2''))])]) else None) (\<lparr>files = [([lit ''proj''], Dir),
        ([lit ''proj'', lit ''package.json''], File (lit ''{ dependencies: '')),
        ([lit ''proj'', lit ''README.md''], File (lit ''# proj'')),
        ([lit ''proj'', lit ''App.tsx''], File (lit ''export {}'')),
        ([lit ''proj'', lit ''index.php''], File (lit ''<?php''))], console = []\<rparr>) [lit ''proj''] (lit ''typescript'')"
    by (simp_all add: package_declares_def declares_def manifest_deps_def node_at_def merged_deps_def lit_def dq_def)
  have t1: "top_level_files (\<lparr>files = [([lit ''proj''], Dir),
        ([lit ''proj'', lit ''package.json''], File (lit ''{ dependencies: '')),
        ([lit ''proj'', lit ''README.md''], File (lit ''# proj'')),
        ([lit ''proj'', lit ''App.tsx''], File (lit ''export {}'')),
        ([lit ''proj'', lit ''index.php''], File (lit ''<?php''))], console = []\<rparr>) [lit ''proj''] = [lit ''package.json'', lit ''README.md'', lit ''App.tsx'', lit ''index.php'']"
    by (simp add: top_level_files_def is_dir_def node_at_def dir_entries_def lit_def)
  have e1: "list_ex (\<lambda>f. endsWith f (lit ''.tsx'')) (top_level_files (\<lparr>files = [([lit ''proj''], Dir),
        ([lit ''proj'', lit ''package.json''], File (lit ''{ dependencies: '')),
        ([lit ''proj'', lit ''README.md''], File (lit ''# proj'')),
        ([lit ''proj'', lit ''App.tsx''], File (lit ''export {}'')),
        ([lit ''proj'', lit ''index.php''], File (lit ''<?php''))], console = []\<rparr>) [lit ''proj''])"
    unfolding t1 by (simp_all add: endsWith_def lit_def)
  have d1: "detectStack (\<lambda>t. if t = lit ''{'' @ dq @ lit ''require'' @ dq @ lit '': {'' @ dq @ lit ''php'' @ dq @ lit '': '' @ dq @ lit ''^8.2'' @ dq @ lit ''}}'' then Some (JObj [(lit ''require'', JObj [(lit ''php'', JStr (lit ''^8.2''))])]) else None) [lit ''proj''] (\<lparr>files = [([lit ''proj''], Dir),
        ([lit ''proj'', lit ''package.json''], File (lit ''{ dependencies: '')),
        ([lit ''proj'', lit ''README.md''], File (lit ''# proj'')),
        ([lit ''proj'', lit ''App.tsx''], File (lit ''export {}'')),
        ([lit ''proj'', lit ''index.php''], File (lit ''<?php''))], console = []\<rparr>) = (Inr \<lparr>stack = Some react_typescript, confidence = medium, reason = lit ''Found .tsx files in project root''\<rparr>, \<lparr>files = [([lit ''proj''], Dir),
        ([lit ''proj'', lit ''package.json''], File (lit ''{ dependencies: '')),
        ([lit ''proj'', lit ''README.md''], File (lit ''# proj'')),
        ([lit ''proj'', lit ''App.tsx''], File (lit ''export {}'')),
        ([lit ''proj'', lit ''index.php''], File (lit ''<?php''))], console = []\<rparr>)"
    using detectStack_falls_back[OF c1 p1]
    by (simp only: e1 if_True if_False)
  have c2: "\<not> composer_declares (\<lambda>t. if t = lit ''{'' @ dq @ lit ''require'' @ dq @ lit '': {'' @ dq @ lit ''php'' @ dq @ lit '': '' @ dq @ lit ''^8.2'' @ dq @ lit ''}}'' then Some (JObj [(lit ''require'', JObj [(lit ''php'', JStr (lit ''^8.2''))])]) else None) (\<lparr>files = [([lit ''proj''], Dir),
        ([lit ''proj'', lit ''composer.json''], File (lit ''{'' @ dq @ lit ''require'' @ dq @ lit '': {'' @ dq @ lit ''php'' @ dq @ lit '': '' @ dq @ lit ''^8.2'' @ dq @ lit ''}}'')),
        ([lit ''proj'', lit ''README.md''], File (lit ''# proj'')),
        ([lit ''proj'', lit ''index.php''], File (lit ''<?php''))], console = []\<rparr>) [lit ''proj''] (lit ''laravel/framework'')"
    by (simp add: composer_declares_def declares_def manifest_deps_def node_at_def merged_deps_def lit_def dq_def)
  have p2: "\<not> package_declares (\<lambda>t. if t = lit ''{'' @ dq @ lit ''require'' @ dq @ lit '': {'' @ dq @ lit ''php'' @ dq @ lit '': '' @ dq @ lit ''^8.2'' @ dq @ lit ''}}'' then Some (JObj [(lit ''require'', JObj [(lit ''php'', JStr (lit ''^8.2''))])]) else None) (\<lparr>files = [([lit ''proj''], Dir),
        ([lit ''proj'', lit ''composer.json''], File (lit ''{'' @ dq @ lit ''require'' @ dq @ lit '': {'' @ dq @ lit ''php'' @ dq @ lit '': '' @ dq @ lit ''^8.2'' @ dq @ lit ''}}'')),
        ([lit ''proj'', lit ''README.md''], File (lit ''# proj'')),
        ([lit ''proj'', lit ''index.php''], File (lit ''<?php''))], console = []\<rparr>) [lit ''proj''] (lit ''react'')"
    "\<not> package_declares (\<lambda>t. if t = lit ''{'' @ dq @ lit ''require'' @ dq @ lit '': {'' @ dq @ lit ''php'' @ dq @ lit '': '' @ dq @ lit ''^8.2'' @ dq @ lit ''}}'' then Some (JObj [(lit ''require'', JObj [(lit ''php'', JStr (lit ''^8.2''))])]) else None) (\<lparr>files = [([lit ''proj''], Dir),
        ([lit ''proj'', lit ''composer.json''], File (lit ''{'' @ dq @ lit ''require'' @ dq @ lit '': {'' @ dq @ lit ''php'' @ dq @ lit '': '' @ dq @ lit ''^8.2'' @ dq @ lit ''}}'')),
        ([lit ''proj'', lit ''README.md''], File (lit ''# proj'')),
        ([lit ''proj'', lit ''index.php''], File (lit ''<?php''))], console = []\<rparr>) [lit ''proj''] (lit ''react-dom'')"
    "\<not> package_declares (\<lambda>t. if t = lit ''{'' @ dq @ lit ''require'' @ dq @ lit '': {'' @ dq @ lit ''php'' @ dq @ lit '': '' @ dq @ lit ''^8.2'' @ dq @ lit ''}}'' then Some (JObj [(lit ''require'', JObj [(lit ''php'', JStr (lit ''^8.2''))])]) else None) (\<lparr>files = [([lit ''proj''], Dir),
        ([lit ''proj'', lit ''composer.json''], File (lit ''{'' @ dq @ lit ''require'' @ dq @ lit '': {'' @ dq @ lit ''php'' @ dq @ lit '': '' @ dq @ lit ''^8.2'' @ dq @ lit ''}}'')),
        ([lit ''proj'', lit ''README.md''], File (lit ''# proj'')),
        ([lit ''proj'', lit ''index.php''], File (lit ''<?php''))], console = []\<rparr>) [lit ''proj''] (lit ''express'')"
    "\<not> package_declares (\<lambda>t. if t = lit ''{'' @ dq @ lit ''require'' @ dq @ lit '': {'' @ dq @ lit ''php'' @ dq @ lit '': '' @ dq @ lit ''^8.2'' @ dq @ lit ''}}'' then Some (JObj [(lit ''require'', JObj [(lit ''php'', JStr (lit ''^8.2''))])]) else None) (\<lparr>files = [([lit ''proj''], Dir),
        ([lit ''proj'', lit ''composer.json''], File (lit ''{'' @ dq @ lit ''require'' @ dq @ lit '': {'' @ dq @ lit ''php'' @ dq @ lit '': '' @ dq @ lit ''^8.2'' @ dq @ lit ''}}'')),
        ([lit ''proj'', lit ''README.md''], File (lit ''# proj'')),
        ([lit ''proj'', lit ''index.php''], File (lit ''<?php''))], console = []\<rparr>) [lit ''proj''] (lit ''typescript'')"
    by (simp_all add: package_declares_def declares_def manifest_deps_def node_at_def merged_deps_def lit_def dq_def)
  have t2: "top_level_files (\<lparr>files = [([lit ''proj''], Dir),
        ([lit ''proj'', lit ''composer.json''], File (lit ''{'' @ dq @ lit ''require'' @ dq @ lit '': {'' @ dq @ lit ''php'' @ dq @ lit '': '' @ dq @ lit ''^8.2'' @ dq @ lit ''}}'')),
        ([lit ''proj'', lit ''README.md''], File (lit ''# proj'')),
        ([lit ''proj'', lit ''index.php''], File (lit ''<?php''))], console = []\<rparr>) [lit ''proj''] = [lit ''composer.json'', lit ''README.md'', lit ''index.php'']"
    by (simp add: top_level_files_def is_dir_def node_at_def dir_entries_def lit_def)
  have e2: "\<not> list_ex (\<lambda>f. endsWith f (lit ''.tsx'')) (top_level_files (\<lparr>files = [([lit ''proj''], Dir),
        ([lit ''proj'', lit ''composer.json''], File (lit ''{'' @ dq @ lit ''require'' @ dq @ lit '': {'' @ dq @ lit ''php'' @ dq @ lit '': '' @ dq @ lit ''^8.2'' @ dq @ lit ''}}'')),
        ([lit ''proj'', lit ''README.md''], File (lit ''# proj'')),
        ([lit ''proj'', lit ''index.php''], File (lit ''<?php''))], console = []\<rparr>) [lit ''proj''])"
    "list_ex (\<lambda>f. endsWith f (lit ''.php'')) (top_level_files (\<lparr>files = [([lit ''proj''], Dir),
        ([lit ''proj'', lit ''composer.json''], File (lit ''{'' @ dq @ lit ''require'' @ dq @ lit '': {'' @ dq @ lit ''php'' @ dq @ lit '': '' @ dq @ lit ''^8.2'' @ dq @ lit ''}}'')),
        ([lit ''proj'', lit ''README.md''], File (lit ''# proj'')),
        ([lit ''proj'', lit ''index.php''], File (lit ''<?php''))], console = []\<rparr>) [lit ''proj''])"
    unfolding t2 by (simp_all add: endsWith_def lit_def)
  have d2: "detectStack (\<lambda>t. if t = lit ''{'' @ dq @ lit ''require'' @ dq @ lit '': {'' @ dq @ lit ''php'' @ dq @ lit '': '' @ dq @ lit ''^8.2'' @ dq @ lit ''}}'' then Some (JObj [(lit ''require'', JObj [(lit ''php'', JStr (lit ''^8.2''))])]) else None) [lit ''proj''] (\<lparr>files = [([lit ''proj''], Dir),
        ([lit ''proj'', lit ''composer.json''], File (lit ''{'' @ dq @ lit ''require'' @ dq @ lit '': {'' @ dq @ lit ''php'' @ dq @ lit '': '' @ dq @ lit ''^8.2'' @ dq @ lit ''}}'')),
        ([lit ''proj'', lit ''README.md''], File (lit ''# proj'')),
        ([lit ''proj'', lit ''index.php''], File (lit ''<?php''))], console = []\<rparr>) = (Inr \<lparr>stack = Some php_laravel, confidence = low, reason = lit ''Found .php files (assuming Laravel)''\<rparr>, \<lparr>files = [([lit ''proj''], Dir),
        ([lit ''proj'', lit ''composer.json''], File (lit ''{'' @ dq @ lit ''require'' @ dq @ lit '': {'' @ dq @ lit ''php'' @ dq @ lit '': '' @ dq @ lit ''^8.2'' @ dq @ lit ''}}'')),
        ([lit ''proj'', lit ''README.md''], File (lit ''# proj'')),
        ([lit ''proj'', lit ''index.php''], File (lit ''<?php''))], console = []\<rparr>)"
    using detectStack_falls_back[OF c2 p2]
    by (simp only: e2 if_True if_False)
  have c3: "\<not> composer_declares (\<lambda>t. if t = lit ''{'' @ dq @ lit ''require'' @ dq @ lit '': {'' @ dq @ lit ''php'' @ dq @ lit '': '' @ dq @ lit ''^8.2'' @ dq @ lit ''}}'' then Some (JObj [(lit ''require'', JObj [(lit ''php'', JStr (lit ''^8.2''))])]) else None) (\<lparr>files = [([lit ''proj''], Dir),
        ([lit ''proj'', lit ''composer.json''], File (lit ''{'' @ dq @ lit ''require'' @ dq @ lit '': {'' @ dq @ lit ''php'' @ dq @ lit '': '' @ dq @ lit ''^8.2'' @ dq @ lit ''}}'')),
        ([lit ''proj'', lit ''package.json''], File (lit ''{ dependencies: '')),
        ([lit ''proj'', lit ''README.md''], File (lit ''# proj''))], console = []\<rparr>) [lit ''proj''] (lit ''laravel/framework'')"
    by (simp add: composer_declares_def declares_def manifest_deps_def node_at_def merged_deps_def lit_def dq_def)
  have p3: "\<not> package_declares (\<lambda>t. if t = lit ''{'' @ dq @ lit ''require'' @ dq @ lit '': {'' @ dq @ lit ''php'' @ dq @ lit '': '' @ dq @ lit ''^8.2'' @ dq @ lit ''}}'' then Some (JObj [(lit ''require'', JObj [(lit ''php'', JStr (lit ''^8.2''))])]) else None) (\<lparr>files = [([lit ''proj''], Dir),
        ([lit ''proj'', lit ''composer.json''], File (lit ''{'' @ dq @ lit ''require'' @ dq @ lit '': {'' @ dq @ lit ''php'' @ dq @ lit '': '' @ dq @ lit ''^8.2'' @ dq @ lit ''}}'')),
        ([lit ''proj'', lit ''package.json''], File (lit ''{ dependencies: '')),
        ([lit ''proj'', lit ''README.md''], File (lit ''# proj''))], console = []\<rparr>) [lit ''proj''] (lit ''react'')"
    "\<not> package_declares (\<lambda>t. if t = lit ''{'' @ dq @ lit ''require'' @ dq @ lit '': {'' @ dq @ lit ''php'' @ dq @ lit '': '' @ dq @ lit ''^8.2'' @ dq @ lit ''}}'' then Some (JObj [(lit ''require'', JObj [(lit ''php'', JStr (lit ''^8.2''))])]) else None) (\<lparr>files = [([lit ''proj''], Dir),
        ([lit ''proj'', lit ''composer.json''], File (lit ''{'' @ dq @ lit ''require'' @ dq @ lit '': {'' @ dq @ lit ''php'' @ dq @ lit '': '' @ dq @ lit ''^8.2'' @ dq @ lit ''}}'')),
        ([lit ''proj'', lit ''package.json''], File (lit ''{ dependencies: '')),
        ([lit ''proj'', lit ''README.md''], File (lit ''# proj''))], console = []\<rparr>) [lit ''proj''] (lit ''react-dom'')"
    "\<not> package_declares (\<lambda>t. if t = lit ''{'' @ dq @ lit ''require'' @ dq @ lit '': {'' @ dq @ lit ''php'' @ dq @ lit '': '' @ dq @ lit ''^8.2'' @ dq @ lit ''}}'' then Some (JObj [(lit ''require'', JObj [(lit ''php'', JStr (lit ''^8.2''))])]) else None) (\<lparr>files = [([lit ''proj''], Dir),
        ([lit ''proj'', lit ''composer.json''], File (lit ''{'' @ dq @ lit ''require'' @ dq @ lit '': {'' @ dq @ lit ''php'' @ dq @ lit '': '' @ dq @ lit ''^8.2'' @ dq @ lit ''}}'')),
        ([lit ''proj'', lit ''package.json''], File (lit ''{ dependencies: '')),
        ([lit ''proj'', lit ''README.md''], File (lit ''# proj''))], console = []\<rparr>) [lit ''proj''] (lit ''express'')"
    "\<not> package_declares (\<lambda>t. if t = lit ''{'' @ dq @ lit ''require'' @ dq @ lit '': {'' @ dq @ lit ''php'' @ dq @ lit '': '' @ dq @ lit ''^8.2'' @ dq @ lit ''}}'' then Some (JObj [(lit ''require'', JObj [(lit ''php'', JStr (lit ''^8.2''))])]) else None) (\<lparr>files = [([lit ''proj''], Dir),
        ([lit ''proj'', lit ''composer.json''], File (lit ''{'' @ dq @ lit ''require'' @ dq @ lit '': {'' @ dq @ lit ''php'' @ dq @ lit '': '' @ dq @ lit ''^8.2'' @ dq @ lit ''}}'')),
        ([lit ''proj'', lit ''package.json''], File (lit ''{ dependencies: '')),
        ([lit ''proj'', lit ''README.md''], File (lit ''# proj''))], console = []\<rparr>) [lit ''proj''] (lit ''typescript'')"
    by (simp_all add: package_declares_def declares_def manifest_deps_def node_at_def merged_deps_def lit_def dq_def)
  have t3: "top_level_files (\<lparr>files = [([lit ''proj''], Dir),
        ([lit ''proj'', lit ''composer.json''], File (lit ''{'' @ dq @ lit ''require'' @ dq @ lit '': {'' @ dq @ lit ''php'' @ dq @ lit '': '' @ dq @ lit ''^8.2'' @ dq @ lit ''}}'')),
        ([lit ''proj'', lit ''package.json''], File (lit ''{ dependencies: '')),
        ([lit ''proj'', lit ''README.md''], File (lit ''# proj''))], console = []\<rparr>) [lit ''proj''] = [lit ''composer.json'', lit ''package.json'', lit ''README.md'']"
    by (simp add: top_level_files_def is_dir_def node_at_def dir_entries_def lit_def)
  have e3: "\<not> list_ex (\<lambda>f. endsWith f (lit ''.tsx'')) (top_level_files (\<lparr>files = [([lit ''proj''], Dir),
        ([lit ''proj'', lit ''composer.json''], File (lit ''{'' @ dq @ lit ''require'' @ dq @ lit '': {'' @ dq @ lit ''php'' @ dq @ lit '': '' @ dq @ lit ''^8.2'' @ dq @ lit ''}}'')),
        ([lit ''proj'', lit ''package.json''], File (lit ''{ dependencies: '')),
        ([lit ''proj'', lit ''README.md''], File (lit ''# proj''))], console = []\<rparr>) [lit ''proj''])"
    "\<not> list_ex (\<lambda>f. endsWith f (lit ''.php'')) (top_level_files (\<lparr>files = [([lit ''proj''], Dir),
        ([lit ''proj'', lit ''composer.json''], File (lit ''{'' @ dq @ lit ''require'' @ dq @ lit '': {'' @ dq @ lit ''php'' @ dq @ lit '': '' @ dq @ lit ''^8.2'' @ dq @ lit ''}}'')),
        ([lit ''proj'', lit ''package.json''], File (lit ''{ dependencies: '')),
        ([lit ''proj'', lit ''README.md''], File (lit ''# proj''))], console = []\<rparr>) [lit ''proj''])"
    unfolding t3 by (simp_all add: endsWith_def lit_def)
  have d3: "detectStack (\<lambda>t. if t = lit ''{'' @ dq @ lit ''require'' @ dq @ lit '': {'' @ dq @ lit ''php'' @ dq @ lit '': '' @ dq @ lit ''^8.2'' @ dq @ lit ''}}'' then Some (JObj [(lit ''require'', JObj [(lit ''php'', JStr (lit ''^8.2''))])]) else None) [lit ''proj''] (\<lparr>files = [([lit ''proj''], Dir),
        ([lit ''proj'', lit ''composer.json''], File (lit ''{'' @ dq @ lit ''require'' @ dq @ lit '': {'' @ dq @ lit ''php'' @ dq @ lit '': '' @ dq @ lit ''^8.2'' @ dq @ lit ''}}'')),
        ([lit ''proj'', lit ''package.json''], File (lit ''{ dependencies: '')),
        ([lit ''proj'', lit ''README.md''], File (lit ''# proj''))], console = []\<rparr>) = (Inr \<lparr>stack = None, confidence = low, reason = lit ''Could not detect stack''\<rparr>, \<lparr>files = [([lit ''proj''], Dir),
        ([lit ''proj'', lit ''composer.json''], File (lit ''{'' @ dq @ lit ''require'' @ dq @ lit '': {'' @ dq @ lit ''php'' @ dq @ lit '': '' @ dq @ lit ''^8.2'' @ dq @ lit ''}}'')),
        ([lit ''proj'', lit ''package.json''], File (lit ''{ dependencies: '')),
        ([lit ''proj'', lit ''README.md''], File (lit ''# proj''))], console = []\<rparr>)"
    using detectStack_falls_back[OF c3 p3]
    by (simp only: e3 if_True if_False)
  show ?thesis
    by (intro conjI c1 p1 t1 d1 c2 p2 t2 d2 c3 p3 t3 d3)
qed

text \<open>
  Claim C6. The manifests are tested in a fixed order and the first match wins:
  \<^verbatim>\<open>laravel/framework\<close> in \<^verbatim>\<open>composer.json\<close> gives \<^verbatim>\<open>php-laravel\<close> also when
  \<^verbatim>\<open>package.json\<close> declares \<^verbatim>\<open>react\<close>, and within \<^verbatim>\<open>package.json\<close> a manifest that
  declares \<^verbatim>\<open>react\<close> or \<^verbatim>\<open>react-dom\<close> together with \<^verbatim>\<open>express\<close> gives
  \<^verbatim>\<open>react-typescript\<close>.
\<close>

theorem detectStack_priority:
  "(composer_declares parse_json w dir (lit ''laravel/framework'')
      \<and> package_declares parse_json w dir (lit ''react'') \<longrightarrow>
      detectStack parse_json dir w = (Inr \<lparr>stack = Some php_laravel, confidence = high, reason = lit ''Found laravel/framework in composer.json''\<rparr>, w))
   \<and> (\<not> composer_declares parse_json w dir (lit ''laravel/framework'')
       \<and> (package_declares parse_json w dir (lit ''react'')
            \<or> package_declares parse_json w dir (lit ''react-dom''))
       \<and> package_declares parse_json w dir (lit ''express'') \<longrightarrow>
      detectStack parse_json dir w = (Inr \<lparr>stack = Some react_typescript, confidence = high, reason = lit ''Found react in package.json''\<rparr>, w))"
  by (simp add: detectStack_eq check_composer_eq check_package_eq)

theorem detectStack_priority_witness:
  "composer_declares (\<lambda>t. if t = lit ''{'' @ dq @ lit ''require'' @ dq @ lit '': {'' @ dq @ lit ''php'' @ dq @ lit '': '' @ dq @ lit ''^8.2'' @ dq @ lit '', '' @ dq @ lit ''laravel/framework'' @ dq @ lit '': '' @ dq @ lit ''^11.0'' @ dq @ lit ''}}'' then Some (JObj [(lit ''require'', JObj [(lit ''php'', JStr (lit ''^8.2'')), (lit ''laravel/framework'', JStr (lit ''^11.0''))])]) else if t = lit ''{'' @ dq @ lit ''dependencies'' @ dq @ lit '': {'' @ dq @ lit ''react'' @ dq @ lit '': '' @ dq @ lit ''^18.0.0'' @ dq @ lit ''}}'' then Some (JObj [(lit ''dependencies'', JObj [(lit ''react'', JStr (lit ''^18.0.0''))])]) else None) (\<lparr>files = [([lit ''proj''], Dir),
        ([lit ''proj'', lit ''composer.json''], File (lit ''{'' @ dq @ lit ''require'' @ dq @ lit '': {'' @ dq @ lit ''php'' @ dq @ lit '': '' @ dq @ lit ''^8.2'' @ dq @ lit '', '' @ dq @ lit ''laravel/framework'' @ dq @ lit '': '' @ dq @ lit ''^11.0'' @ dq @ lit ''}}'')),
        ([lit ''proj'', lit ''package.json''], File (lit ''{'' @ dq @ lit ''dependencies'' @ dq @ lit '': {'' @ dq @ lit ''react'' @ dq @ lit '': '' @ dq @ lit ''^18.0.0'' @ dq @ lit ''}}''))], console = []\<rparr>) [lit ''proj''] (lit ''laravel/framework'') \<and> package_declares (\<lambda>t. if t = lit ''{'' @ dq @ lit ''require'' @ dq @ lit '': {'' @ dq @ lit ''php'' @ dq @ lit '': '' @ dq @ lit ''^8.2'' @ dq @ lit '', '' @ dq @ lit ''laravel/framework'' @ dq @ lit '': '' @ dq @ lit ''^11.0'' @ dq @ lit ''}}'' then Some (JObj [(lit ''require'', JObj [(lit ''php'', JStr (lit ''^8.2'')), (lit ''laravel/framework'', JStr (lit ''^11.0''))])]) else if t = lit ''{'' @ dq @ lit ''dependencies'' @ dq @ lit '': {'' @ dq @ lit ''react'' @ dq @ lit '': '' @ dq @ lit ''^18.0.0'' @ dq @ lit ''}}'' then Some (JObj [(lit ''dependencies'', JObj [(lit ''react'', JStr (lit ''^18.0.0''))])]) else None) (\<lparr>files = [([lit ''proj''], Dir),
        ([lit ''proj'', lit ''composer.json''], File (lit ''{'' @ dq @ lit ''require'' @ dq @ lit '': {'' @ dq @ lit ''php'' @ dq @ lit '': '' @ dq @ lit ''^8.2'' @ dq @ lit '', '' @ dq @ lit ''laravel/framework'' @ dq @ lit '': '' @ dq @ lit ''^11.0'' @ dq @ lit ''}}'')),
        ([lit ''proj'', lit ''package.json''], File (lit ''{'' @ dq @ lit ''dependencies'' @ dq @ lit '': {'' @ dq @ lit ''react'' @ dq @ lit '': '' @ dq @ lit ''^18.0.0'' @ dq @ lit ''}}''))], console = []\<rparr>) [lit ''proj''] (lit ''react'')
   \<and> detectStack (\<lambda>t. if t = lit ''{'' @ dq @ lit ''require'' @ dq @ lit '': {'' @ dq @ lit ''php'' @ dq @ lit '': '' @ dq @ lit ''^8.2'' @ dq @ lit '', '' @ dq @ lit ''laravel/framework'' @ dq @ lit '': '' @ dq @ lit ''^11.0'' @ dq @ lit ''}}'' then Some (JObj [(lit ''require'', JObj [(lit ''php'', JStr (lit ''^8.2'')), (lit ''laravel/framework'', JStr (lit ''^11.0''))])]) else if t = lit ''{'' @ dq @ lit ''dependencies'' @ dq @ lit '': {'' @ dq @ lit ''react'' @ dq @ lit '': '' @ dq @ lit ''^18.0.0'' @ dq @ lit ''}}'' then Some (JObj [(lit ''dependencies'', JObj [(lit ''react'', JStr (lit ''^18.0.0''))])]) else None) [lit ''proj''] (\<lparr>files = [([lit ''proj''], Dir),
        ([lit ''proj'', lit ''composer.json''], File (lit ''{'' @ dq @ lit ''require'' @ dq @ lit '': {'' @ dq @ lit ''php'' @ dq @ lit '': '' @ dq @ lit ''^8.2'' @ dq @ lit '', '' @ dq @ lit ''laravel/framework'' @ dq @ lit '': '' @ dq @ lit ''^11.0'' @ dq @ lit ''}}'')),
        ([lit ''proj'', lit ''package.json''], File (lit ''{'' @ dq @ lit ''dependencies'' @ dq @ lit '': {'' @ dq @ lit ''react'' @ dq @ lit '': '' @ dq @ lit ''^18.0.0'' @ dq @ lit ''}}''))], console = []\<rparr>) = (Inr \<lparr>stack = Some php_laravel, confidence = high, reason = lit ''Found laravel/framework in composer.json''\<rparr>, \<lparr>files = [([lit ''proj''], Dir),
        ([lit ''proj'', lit ''composer.json''], File (lit ''{'' @ dq @ lit ''require'' @ dq @ lit '': {'' @ dq @ lit ''php'' @ dq @ lit '': '' @ dq @ lit ''^8.2'' @ dq @ lit '', '' @ dq @ lit ''laravel/framework'' @ dq @ lit '': '' @ dq @ lit ''^11.0'' @ dq @ lit ''}}'')),
        ([lit ''proj'', lit ''package.json''], File (lit ''{'' @ dq @ lit ''dependencies'' @ dq @ lit '': {'' @ dq @ lit ''react'' @ dq @ lit '': '' @ dq @ lit ''^18.0.0'' @ dq @ lit ''}}''))], console = []\<rparr>)
   \<and> \<not> composer_declares (\<lambda>t. if t = lit ''{'' @ dq @ lit ''dependencies'' @ dq @ lit '': {'' @ dq @ lit ''react-dom'' @ dq @ lit '': '' @ dq @ lit ''^18.0.0'' @ dq @ lit '', '' @ dq @ lit ''express'' @ dq @ lit '': '' @ dq @ lit ''^4.19.0'' @ dq @ lit ''}}'' then Some (JObj [(lit ''dependencies'', JObj [(lit ''react-dom'', JStr (lit ''^18.0.0'')), (lit ''express'', JStr (lit ''^4.19.0''))])]) else None) (\<lparr>files = [([lit ''proj''], Dir),
        ([lit ''proj'', lit ''package.json''], File (lit ''{'' @ dq @ lit ''dependencies'' @ dq @ lit '': {'' @ dq @ lit ''react-dom'' @ dq @ lit '': '' @ dq @ lit ''^18.0.0'' @ dq @ lit '', '' @ dq @ lit ''express'' @ dq @ lit '': '' @ dq @ lit ''^4.19.0'' @ dq @ lit ''}}''))], console = []\<rparr>) [lit ''proj''] (lit ''laravel/framework'') \<and> package_declares (\<lambda>t. if t = lit ''{'' @ dq @ lit ''dependencies'' @ dq @ lit '': {'' @ dq @ lit ''react-dom'' @ dq @ lit '': '' @ dq @ lit ''^18.0.0'' @ dq @ lit '', '' @ dq @ lit ''express'' @ dq @ lit '': '' @ dq @ lit ''^4.19.0'' @ dq @ lit ''}}'' then Some (JObj [(lit ''dependencies'', JObj [(lit ''react-dom'', JStr (lit ''^18.0.0'')), (lit ''express'', JStr (lit ''^4.19.0''))])]) else None) (\<lparr>files = [([lit ''proj''], Dir),
        ([lit ''proj'', lit ''package.json''], File (lit ''{'' @ dq @ lit ''dependencies'' @ dq @ lit '': {'' @ dq @ lit ''react-dom'' @ dq @ lit '': '' @ dq @ lit ''^18.0.0'' @ dq @ lit '', '' @ dq @ lit ''express'' @ dq @ lit '': '' @ dq @ lit ''^4.19.0'' @ dq @ lit ''}}''))], console = []\<rparr>) [lit ''proj''] (lit ''react-dom'') \<and> package_declares (\<lambda>t. if t = lit ''{'' @ dq @ lit ''dependencies'' @ dq @ lit '': {'' @ dq @ lit ''react-dom'' @ dq @ lit '': '' @ dq @ lit ''^18.0.0'' @ dq @ lit '', '' @ dq @ lit ''express'' @ dq @ lit '': '' @ dq @ lit ''^4.19.0'' @ dq @ lit ''}}'' then Some (JObj [(lit ''dependencies'', JObj [(lit ''react-dom'', JStr (lit ''^18.0.0'')), (lit ''express'', JStr (lit ''^4.19.0''))])]) else None) (\<lparr>files = [([lit ''proj''], Dir),
        ([lit ''proj'', lit ''package.json''], File (lit ''{'' @ dq @ lit ''dependencies'' @ dq @ lit '': {'' @ dq @ lit ''react-dom'' @ dq @ lit '': '' @ dq @ lit ''^18.0.0'' @ dq @ lit '', '' @ dq @ lit ''express'' @ dq @ lit '': '' @ dq @ lit ''^4.19.0'' @ dq @ lit ''}}''))], console = []\<rparr>) [lit ''proj''] (lit ''express'')
   \<and> detectStack (\<lambda>t. if t = lit ''{'' @ dq @ lit ''dependencies'' @ dq @ lit '': {'' @ dq @ lit ''react-dom'' @ dq @ lit '': '' @ dq @ lit ''^18.0.0'' @ dq @ lit '', '' @ dq @ lit ''express'' @ dq @ lit '': '' @ dq @ lit ''^4.19.0'' @ dq @ lit ''}}'' then Some (JObj [(lit ''dependencies'', JObj [(lit ''react-dom'', JStr (lit ''^18.0.0'')), (lit ''express'', JStr (lit ''^4.19.0''))])]) else None) [lit ''proj''] (\<lparr>files = [([lit ''proj''], Dir),
        ([lit ''proj'', lit ''package.json''], File (lit ''{'' @ dq @ lit ''dependencies'' @ dq @ lit '': {'' @ dq @ lit ''react-dom'' @ dq @ lit '': '' @ dq @ lit ''^18.0.0'' @ dq @ lit '', '' @ dq @ lit ''express'' @ dq @ lit '': '' @ dq @ lit ''^4.19.0'' @ dq @ lit ''}}''))], console = []\<rparr>) = (Inr \<lparr>stack = Some react_typescript, confidence = high, reason = lit ''Found react in package.json''\<rparr>, \<lparr>files = [([lit ''proj''], Dir),
        ([lit ''proj'', lit ''package.json''], File (lit ''{'' @ dq @ lit ''dependencies'' @ dq @ lit '': {'' @ dq @ lit ''react-dom'' @ dq @ lit '': '' @ dq @ lit ''^18.0.0'' @ dq @ lit '', '' @ dq @ lit ''express'' @ dq @ lit '': '' @ dq @ lit ''^4.19.0'' @ dq @ lit ''}}''))], console = []\<rparr>)"
proof -
  have l: "composer_declares (\<lambda>t. if t = lit ''{'' @ dq @ lit ''require'' @ dq @ lit '': {'' @ dq @ lit ''php'' @ dq @ lit '': '' @ dq @ lit ''^8.2'' @ dq @ lit '', '' @ dq @ lit ''laravel/framework'' @ dq @ lit '': '' @ dq @ lit ''^11.0'' @ dq @ lit ''}}'' then Some (JObj [(lit ''require'', JObj [(lit ''php'', JStr (lit ''^8.2'')), (lit ''laravel/framework'', JStr (lit ''^11.0''))])]) else if t = lit ''{'' @ dq @ lit ''dependencies'' @ dq @ lit '': {'' @ dq @ lit ''react'' @ dq @ lit '': '' @ dq @ lit ''^18.0.0'' @ dq @ lit ''}}'' then Some (JObj [(lit ''dependencies'', JObj [(lit ''react'', JStr (lit ''^18.0.0''))])]) else None) (\<lparr>files = [([lit ''proj''], Dir),
        ([lit ''proj'', lit ''composer.json''], File (lit ''{'' @ dq @ lit ''require'' @ dq @ lit '': {'' @ dq @ lit ''php'' @ dq @ lit '': '' @ dq @ lit ''^8.2'' @ dq @ lit '', '' @ dq @ lit ''laravel/framework'' @ dq @ lit '': '' @ dq @ lit ''^11.0'' @ dq @ lit ''}}'')),
        ([lit ''proj'', lit ''package.json''], File (lit ''{'' @ dq @ lit ''dependencies'' @ dq @ lit '': {'' @ dq @ lit ''react'' @ dq @ lit '': '' @ dq @ lit ''^18.0.0'' @ dq @ lit ''}}''))], console = []\<rparr>) [lit ''proj''] (lit ''laravel/framework'')" "package_declares (\<lambda>t. if t = lit ''{'' @ dq @ lit ''require'' @ dq @ lit '': {'' @ dq @ lit ''php'' @ dq @ lit '': '' @ dq @ lit ''^8.2'' @ dq @ lit '', '' @ dq @ lit ''laravel/framework'' @ dq @ lit '': '' @ dq @ lit ''^11.0'' @ dq @ lit ''}}'' then Some (JObj [(lit ''require'', JObj [(lit ''php'', JStr (lit ''^8.2'')), (lit ''laravel/framework'', JStr (lit ''^11.0''))])]) else if t = lit ''{'' @ dq @ lit ''dependencies'' @ dq @ lit '': {'' @ dq @ lit ''react'' @ dq @ lit '': '' @ dq @ lit ''^18.0.0'' @ dq @ lit ''}}'' then Some (JObj [(lit ''dependencies'', JObj [(lit ''react'', JStr (lit ''^18.0.0''))])]) else None) (\<lparr>files = [([lit ''proj''], Dir),
        ([lit ''proj'', lit ''composer.json''], File (lit ''{'' @ dq @ lit ''require'' @ dq @ lit '': {'' @ dq @ lit ''php'' @ dq @ lit '': '' @ dq @ lit ''^8.2'' @ dq @ lit '', '' @ dq @ lit ''laravel/framework'' @ dq @ lit '': '' @ dq @ lit ''^11.0'' @ dq @ lit ''}}'')),
        ([lit ''proj'', lit ''package.json''], File (lit ''{'' @ dq @ lit ''dependencies'' @ dq @ lit '': {'' @ dq @ lit ''react'' @ dq @ lit '': '' @ dq @ lit ''^18.0.0'' @ dq @ lit ''}}''))], console = []\<rparr>) [lit ''proj''] (lit ''react'')" by (simp add: composer_declares_def package_declares_def declares_def manifest_deps_def node_at_def merged_deps_def lit_def dq_def)+
  have b: "\<not> composer_declares (\<lambda>t. if t = lit ''{'' @ dq @ lit ''dependencies'' @ dq @ lit '': {'' @ dq @ lit ''react-dom'' @ dq @ lit '': '' @ dq @ lit ''^18.0.0'' @ dq @ lit '', '' @ dq @ lit ''express'' @ dq @ lit '': '' @ dq @ lit ''^4.19.0'' @ dq @ lit ''}}'' then Some (JObj [(lit ''dependencies'', JObj [(lit ''react-dom'', JStr (lit ''^18.0.0'')), (lit ''express'', JStr (lit ''^4.19.0''))])]) else None) (\<lparr>files = [([lit ''proj''], Dir),
        ([lit ''proj'', lit ''package.json''], File (lit ''{'' @ dq @ lit ''dependencies'' @ dq @ lit '': {'' @ dq @ lit ''react-dom'' @ dq @ lit '': '' @ dq @ lit ''^18.0.0'' @ dq @ lit '', '' @ dq @ lit ''express'' @ dq @ lit '': '' @ dq @ lit ''^4.19.0'' @ dq @ lit ''}}''))], console = []\<rparr>) [lit ''proj''] (lit ''laravel/framework'')" "package_declares (\<lambda>t. if t = lit ''{'' @ dq @ lit ''dependencies'' @ dq @ lit '': {'' @ dq @ lit ''react-dom'' @ dq @ lit '': '' @ dq @ lit ''^18.0.0'' @ dq @ lit '', '' @ dq @ lit ''express'' @ dq @ lit '': '' @ dq @ lit ''^4.19.0'' @ dq @ lit ''}}'' then Some (JObj [(lit ''dependencies'', JObj [(lit ''react-dom'', JStr (lit ''^18.0.0'')), (lit ''express'', JStr (lit ''^4.19.0''))])]) else None) (\<lparr>files = [([lit ''proj''], Dir),
        ([lit ''proj'', lit ''package.json''], File (lit ''{'' @ dq @ lit ''dependencies'' @ dq @ lit '': {'' @ dq @ lit ''react-dom'' @ dq @ lit '': '' @ dq @ lit ''^18.0.0'' @ dq @ lit '', '' @ dq @ lit ''express'' @ dq @ lit '': '' @ dq @ lit ''^4.19.0'' @ dq @ lit ''}}''))], console = []\<rparr>) [lit ''proj''] (lit ''react-dom'')" "package_declares (\<lambda>t. if t = lit ''{'' @ dq @ lit ''dependencies'' @ dq @ lit '': {'' @ dq @ lit ''react-dom'' @ dq @ lit '': '' @ dq @ lit ''^18.0.0'' @ dq @ lit '', '' @ dq @ lit ''express'' @ dq @ lit '': '' @ dq @ lit ''^4.19.0'' @ dq @ lit ''}}'' then Some (JObj [(lit ''dependencies'', JObj [(lit ''react-dom'', JStr (lit ''^18.0.0'')), (lit ''express'', JStr (lit ''^4.19.0''))])]) else None) (\<lparr>files = [([lit ''proj''], Dir),
        ([lit ''proj'', lit ''package.json''], File (lit ''{'' @ dq @ lit ''dependencies'' @ dq @ lit '': {'' @ dq @ lit ''react-dom'' @ dq @ lit '': '' @ dq @ lit ''^18.0.0'' @ dq @ lit '', '' @ dq @ lit ''express'' @ dq @ lit '': '' @ dq @ lit ''^4.19.0'' @ dq @ lit ''}}''))], console = []\<rparr>) [lit ''proj''] (lit ''express'')" by (simp add: composer_declares_def package_declares_def declares_def manifest_deps_def node_at_def merged_deps_def lit_def dq_def)+
  have d1: "detectStack (\<lambda>t. if t = lit ''{'' @ dq @ lit ''require'' @ dq @ lit '': {'' @ dq @ lit ''php'' @ dq @ lit '': '' @ dq @ lit ''^8.2'' @ dq @ lit '', '' @ dq @ lit ''laravel/framework'' @ dq @ lit '': '' @ dq @ lit ''^11.0'' @ dq @ lit ''}}'' then Some (JObj [(lit ''require'', JObj [(lit ''php'', JStr (lit ''^8.2'')), (lit ''laravel/framework'', JStr (lit ''^11.0''))])]) else if t = lit ''{'' @ dq @ lit ''dependencies'' @ dq @ lit '': {'' @ dq @ lit ''react'' @ dq @ lit '': '' @ dq @ lit ''^18.0.0'' @ dq @ lit ''}}'' then Some (JObj [(lit ''dependencies'', JObj [(lit ''react'', JStr (lit ''^18.0.0''))])]) else None) [lit ''proj''] (\<lparr>files = [([lit ''proj''], Dir),
        ([lit ''proj'', lit ''composer.json''], File (lit ''{'' @ dq @ lit ''require'' @ dq @ lit '': {'' @ dq @ lit ''php'' @ dq @ lit '': '' @ dq @ lit ''^8.2'' @ dq @ lit '', '' @ dq @ lit ''laravel/framework'' @ dq @ lit '': '' @ dq @ lit ''^11.0'' @ dq @ lit ''}}'')),
        ([lit ''proj'', lit ''package.json''], File (lit ''{'' @ dq @ lit ''dependencies'' @ dq @ lit '': {'' @ dq @ lit ''react'' @ dq @ lit '': '' @ dq @ lit ''^18.0.0'' @ dq @ lit ''}}''))], console = []\<rparr>) = (Inr \<lparr>stack = Some php_laravel, confidence = high, reason = lit ''Found laravel/framework in composer.json''\<rparr>, \<lparr>files = [([lit ''proj''], Dir),
        ([lit ''proj'', lit ''composer.json''], File (lit ''{'' @ dq @ lit ''require'' @ dq @ lit '': {'' @ dq @ lit ''php'' @ dq @ lit '': '' @ dq @ lit ''^8.2'' @ dq @ lit '', '' @ dq @ lit ''laravel/framework'' @ dq @ lit '': '' @ dq @ lit ''^11.0'' @ dq @ lit ''}}'')),
        ([lit ''proj'', lit ''package.json''], File (lit ''{'' @ dq @ lit ''dependencies'' @ dq @ lit '': {'' @ dq @ lit ''react'' @ dq @ lit '': '' @ dq @ lit ''^18.0.0'' @ dq @ lit ''}}''))], console = []\<rparr>)"
    by (rule detectStack_priority[of "(\<lambda>t. if t = lit ''{'' @ dq @ lit ''require'' @ dq @ lit '': {'' @ dq @ lit ''php'' @ dq @ lit '': '' @ dq @ lit ''^8.2'' @ dq @ lit '', '' @ dq @ lit ''laravel/framework'' @ dq @ lit '': '' @ dq @ lit ''^11.0'' @ dq @ lit ''}}'' then Some (JObj [(lit ''require'', JObj [(lit ''php'', JStr (lit ''^8.2'')), (lit ''laravel/framework'', JStr (lit ''^11.0''))])]) else if t = lit ''{'' @ dq @ lit ''dependencies'' @ dq @ lit '': {'' @ dq @ lit ''react'' @ dq @ lit '': '' @ dq @ lit ''^18.0.0'' @ dq @ lit ''}}'' then Some (JObj [(lit ''dependencies'', JObj [(lit ''react'', JStr (lit ''^18.0.0''))])]) else None)" "\<lparr>files = [([lit ''proj''], Dir),
        ([lit ''proj'', lit ''composer.json''], File (lit ''{'' @ dq @ lit ''require'' @ dq @ lit '': {'' @ dq @ lit ''php'' @ dq @ lit '': '' @ dq @ lit ''^8.2'' @ dq @ lit '', '' @ dq @ lit ''laravel/framework'' @ dq @ lit '': '' @ dq @ lit ''^11.0'' @ dq @ lit ''}}'')),
        ([lit ''proj'', lit ''package.json''], File (lit ''{'' @ dq @ lit ''dependencies'' @ dq @ lit '': {'' @ dq @ lit ''react'' @ dq @ lit '': '' @ dq @ lit ''^18.0.0'' @ dq @ lit ''}}''))], console = []\<rparr>" "[lit ''proj'']", THEN conjunct1, THEN mp, OF conjI[OF l]])
  have d2: "detectStack (\<lambda>t. if t = lit ''{'' @ dq @ lit ''dependencies'' @ dq @ lit '': {'' @ dq @ lit ''react-dom'' @ dq @ lit '': '' @ dq @ lit ''^18.0.0'' @ dq @ lit '', '' @ dq @ lit ''express'' @ dq @ lit '': '' @ dq @ lit ''^4.19.0'' @ dq @ lit ''}}'' then Some (JObj [(lit ''dependencies'', JObj [(lit ''react-dom'', JStr (lit ''^18.0.0'')), (lit ''express'', JStr (lit ''^4.19.0''))])]) else None) [lit ''proj''] (\<lparr>files = [([lit ''proj''], Dir),
        ([lit ''proj'', lit ''package.json''], File (lit ''{'' @ dq @ lit ''dependencies'' @ dq @ lit '': {'' @ dq @ lit ''react-dom'' @ dq @ lit '': '' @ dq @ lit ''^18.0.0'' @ dq @ lit '', '' @ dq @ lit ''express'' @ dq @ lit '': '' @ dq @ lit ''^4.19.0'' @ dq @ lit ''}}''))], console = []\<rparr>) = (Inr \<lparr>stack = Some react_typescript, confidence = high, reason = lit ''Found react in package.json''\<rparr>, \<lparr>files = [([lit ''proj''], Dir),
        ([lit ''proj'', lit ''package.json''], File (lit ''{'' @ dq @ lit ''dependencies'' @ dq @ lit '': {'' @ dq @ lit ''react-dom'' @ dq @ lit '': '' @ dq @ lit ''^18.0.0'' @ dq @ lit '', '' @ dq @ lit ''express'' @ dq @ lit '': '' @ dq @ lit ''^4.19.0'' @ dq @ lit ''}}''))], console = []\<rparr>)"
    by (rule detectStack_priority[of "(\<lambda>t. if t = lit ''{'' @ dq @ lit ''dependencies'' @ dq @ lit '': {'' @ dq @ lit ''react-dom'' @ dq @ lit '': '' @ dq @ lit ''^18.0.0'' @ dq @ lit '', '' @ dq @ lit ''express'' @ dq @ lit '': '' @ dq @ lit ''^4.19.0'' @ dq @ lit ''}}'' then Some (JObj [(lit ''dependencies'', JObj [(lit ''react-dom'', JStr (lit ''^18.0.0'')), (lit ''express'', JStr (lit ''^4.19.0''))])]) else None)" "\<lparr>files = [([lit ''proj''], Dir),
        ([lit ''proj'', lit ''package.json''], File (lit ''{'' @ dq @ lit ''dependencies'' @ dq @ lit '': {'' @ dq @ lit ''react-dom'' @ dq @ lit '': '' @ dq @ lit ''^18.0.0'' @ dq @ lit '', '' @ dq @ lit ''express'' @ dq @ lit '': '' @ dq @ lit ''^4.19.0'' @ dq @ lit ''}}''))], console = []\<rparr>" "[lit ''proj'']", THEN conjunct2, THEN mp, OF conjI[OF b(1) conjI[OF disjI2[OF b(2)] b(3)]]])
  show ?thesis
    by (intro conjI l b d1 d2)
qed

section \<open>The console does not change what the file system holds\<close>

lemma node_at_console [simp]: "node_at (w\<lparr>console := c\<rparr>) p = node_at w p"
  by (simp add: node_at_def)

lemma is_dir_console [simp]: "is_dir (w\<lparr>console := c\<rparr>) p = is_dir w p"
  by (simp add: is_dir_def)

lemma dir_entries_console [simp]: "dir_entries (w\<lparr>console := c\<rparr>) p = dir_entries w p"
  by (simp add: dir_entries_def)

lemma stack_skill_names_console [simp]:
  "stack_skill_names (w\<lparr>console := c\<rparr>) sourceDir stk = stack_skill_names w sourceDir stk"
  by (simp add: stack_skill_names_def)

lemma available_skills_lines_console [simp]:
  "available_skills_lines (w\<lparr>console := c\<rparr>) sourceDir = available_skills_lines w sourceDir"
  by (simp add: available_skills_lines_def core_skill_names_def top_level_files_def)

section \<open>Running the primitives\<close>


lemma io_bind_apply:
  "io_bind m f w = (case m w of (Inl e, w') \<Rightarrow> (Inl e, w') | (Inr x, w') \<Rightarrow> f x w')"
  by (simp add: io_bind_def)

lemma io_catch_apply:
  "io_catch m h w = (case m w of (Inl e, w') \<Rightarrow> h e w' | (Inr x, w') \<Rightarrow> (Inr x, w'))"
  by (simp add: io_catch_def)

lemma console_log_apply: "console_log s w = (Inr (), w\<lparr>console := console w @ [Log s]\<rparr>)"
  by (simp add: console_log_def)

lemma spinner_apply: "spinner ev w = (Inr (), w\<lparr>console := console w @ [ev]\<rparr>)"
  by (simp add: spinner_def)

lemma directoryExists_apply: "directoryExists d w = (Inr (is_dir w d), w)"
  by (simp add: directoryExists_def)



section \<open>The add command on an unknown skill\<close>







text \<open>A name of one segment is appended by \<^verbatim>\<open>path.join\<close>.\<close>

lemma split_on_plain: "sep \<notin> set s \<Longrightarrow> split_on sep s = [s]"
  by (induction s) auto

lemma path_join_segment: "segment name \<Longrightarrow> path_join p name = p @ [name]"
  by (simp add: segment_def path_join_def push_segment_def split_on_plain)




text \<open>Without a \<^verbatim>\<open>stacks\<close> directory in the source tree the \<^verbatim>\<open>readdir\<close> of line 101,
  which has no \<^verbatim>\<open>catch\<close>, rejects: \<^verbatim>\<open>add\<close> catches the exception and reports a
  failure instead of the list. The file system is left as it is in this case too.\<close>

lemma add_skill_without_stacks_directory:
  assumes "is_dir w (getTargetAiDir cwd)"
    and "\<not> is_dir w (path_join (sourceDir @ [lit ''skills'']) name)"
    and "\<not> is_dir w (sourceDir @ [lit ''stacks''])"
  shows "\<exists>e. add error_string cwd sourceDir (lit ''skill'') name w
       = (Inr (), w\<lparr>console := console w
            @ [Log (lit ''\<newline>'' @ [0x2795] @ lit '' Adding '' @ lit ''skill'' @ lit '': '' @ name
                    @ lit ''\<newline>''),
               SpinnerStart (lit ''Adding '' @ lit ''skill'' @ lit ''...''),
               SpinnerFail (lit ''Failed to add '' @ lit ''skill''),
               Log (lit ''  Error: '' @ error_string e)]\<rparr>)"
proof -
  have ne: "lit ''skill'' \<noteq> lit ''stack''"
    by (simp add: lit_def)
  define e where "e = (case node_at w (sourceDir @ [lit ''stacks'']) of None \<Rightarrow> ENOENT | Some n \<Rightarrow> ENOTDIR)"
  have rd: "readdir (sourceDir @ [lit ''stacks'']) (w\<lparr>console := c\<rparr>) = (Inl e, w\<lparr>console := c\<rparr>)" for c
    using assms(3)
    by (simp add: e_def readdir_def readdirSync_def is_dir_def split: option.splits node.splits)
  show ?thesis
    using assms(1,2) ne
    by (intro exI[of _ e])
       (simp add: add_def addSkill_def Let_def io_bind_apply io_catch_apply console_log_apply
          directoryExists_apply spinner_apply rd)
qed



section \<open>What a computation leaves in place\<close>



lemma keeps_mono: "keeps V m \<Longrightarrow> V \<subseteq> W \<Longrightarrow> keeps W m"
  unfolding keeps_def by blast















section \<open>What the sync commands leave in place\<close>















section \<open>What init and add leave in place\<close>




lemma keeps_directoryExists: "keeps W (directoryExists d)"
  by (simp add: keeps_def directoryExists_def)












lemma tree_console [simp]: "tree (w\<lparr>console := c\<rparr>) = tree w"
  by (simp add: tree_def)

lemma is_file_console [simp]: "is_file (w\<lparr>console := c\<rparr>) p = is_file w p"
  by (simp add: is_file_def)

















section \<open>No command overwrites a file, but for the files that sync generates\<close>






section \<open>The Directory Synchronizer run twice\<close>

lemma map_of_mkdir_fold:
  "map_of (foldl (\<lambda>fs q. if q = [] \<or> map_of fs q \<noteq> None then fs else AList.update q Dir fs) fs qs) p
     = (if p \<in> set qs \<and> p \<noteq> [] \<and> map_of fs p = None then Some Dir else map_of fs p)"
proof (induction qs arbitrary: fs)
  case Nil
  show ?case by simp
next
  case (Cons q qs)
  show ?case
    by (simp add: Cons.IH update_conv' del: not_None_eq)
qed

lemma grows_refl: "grows w w"
  by (simp add: grows_def)

lemma grows_trans: "grows w w1 \<Longrightarrow> grows w1 w2 \<Longrightarrow> grows w w2"
  by (simp add: grows_def)

lemma grows_is_file: "grows w w' \<Longrightarrow> is_file w p \<Longrightarrow> is_file w' p"
proof -
  assume g: "grows w w'" and f: "is_file w p"
  from f have "node_at w p \<noteq> None"
    by (cases "node_at w p") (auto simp: is_file_def)
  with g have "node_at w' p = node_at w p"
    by (simp add: grows_def)
  with f show ?thesis
    by (simp add: is_file_def)
qed

lemma grows_blocked: "grows w w' \<Longrightarrow> blocked w dest \<Longrightarrow> blocked w' dest"
  unfolding blocked_def list_ex_iff by (blast intro: grows_is_file)

lemma grows_present: "grows w w' \<Longrightarrow> node_at w p \<noteq> None \<Longrightarrow> node_at w' p \<noteq> None"
  by (auto simp: grows_def)

lemma mkdirSync_blocked:
  "list_ex (is_file w) (prefixes d) \<Longrightarrow> \<exists>e. mkdirSync_recursive d w = (Inl e, w)"
  by (simp add: mkdirSync_recursive_def)

lemma mkdirSync_free:
  assumes "\<not> list_ex (is_file w) (prefixes d)"
  shows "\<exists>w1. mkdirSync_recursive d w = (Inr (), w1) \<and> grows w w1 \<and> is_dir w1 d
           \<and> (\<forall>p. p \<notin> set (prefixes d) \<longrightarrow> node_at w1 p = node_at w p)"
proof -
  have nf: "\<not> is_file w d"
    using assms by (auto simp: list_ex_iff)
  define w1 where "w1 = w\<lparr>files :=
      foldl (\<lambda>fs q. if q = [] \<or> map_of fs q \<noteq> None then fs else AList.update q Dir fs)
            (files w) (prefixes d)\<rparr>"
  have run: "mkdirSync_recursive d w = (Inr (), w1)"
    using assms nf by (simp add: mkdirSync_recursive_def w1_def)
  have at: "node_at w1 p = (if p \<in> set (prefixes d) \<and> p \<noteq> [] \<and> map_of (files w) p = None
      then Some Dir else node_at w p)" for p
    by (simp add: w1_def node_at_def map_of_mkdir_fold del: not_None_eq)
  have g: "grows w w1"
    unfolding grows_def
  proof (intro allI impI)
    fix p assume "node_at w p \<noteq> None"
    then have "p = [] \<or> map_of (files w) p \<noteq> None"
      by (auto simp: node_at_def)
    then show "node_at w1 p = node_at w p"
      by (auto simp: at)
  qed
  have "node_at w1 d = Some Dir"
  proof (cases "d \<noteq> [] \<and> map_of (files w) d = None")
    case True
    then show ?thesis by (simp add: at)
  next
    case False
    then have "node_at w1 d = node_at w d"
      by (auto simp: at)
    moreover from False nf have "node_at w d = Some Dir"
      by (auto simp: node_at_def is_file_def split: option.splits node.splits)
    ultimately show ?thesis by simp
  qed
  then have "is_dir w1 d"
    by (simp add: is_dir_def)
  with run g at show ?thesis by auto
qed

lemma copy_item_present:
  "node_at w (targetRoot @ fst item) \<noteq> None
   \<Longrightarrow> copy_item targetRoot False item w = (Inr Skipped, w)"
  by (simp add: copy_item_def Let_def io_bind_def existsSync_def io_return_def)

lemma copy_item_blocked:
  assumes "node_at w (targetRoot @ fst item) = None" and "blocked w (targetRoot @ fst item)"
  shows "copy_item targetRoot False item w = (Inr Failed, w)"
proof -
  from assms(2) obtain e where "mkdirSync_recursive (butlast (targetRoot @ fst item)) w = (Inl e, w)"
    unfolding blocked_def by (blast dest: mkdirSync_blocked)
  with assms(1) show ?thesis
    by (simp add: copy_item_def Let_def io_bind_def io_catch_def existsSync_def io_return_def)
qed

lemma copy_item_free:
  assumes "node_at w (targetRoot @ fst item) = None" and "\<not> blocked w (targetRoot @ fst item)"
  shows "\<exists>w'. copy_item targetRoot False item w = (Inr Copied, w') \<and> grows w w'
           \<and> node_at w' (targetRoot @ fst item) = Some (File (snd item))"
proof -
  let ?dest = "targetRoot @ fst item"
  from assms(1) have ne: "?dest \<noteq> []"
    by (auto simp: node_at_def)
  from assms(2) obtain w1 where mk: "mkdirSync_recursive (butlast ?dest) w = (Inr (), w1)"
    and g1: "grows w w1" and d1: "is_dir w1 (butlast ?dest)"
    and other: "\<forall>p. p \<notin> set (prefixes (butlast ?dest)) \<longrightarrow> node_at w1 p = node_at w p"
    unfolding blocked_def using mkdirSync_free by blast
  have "?dest \<notin> set (prefixes (butlast ?dest))"
  proof
    assume "?dest \<in> set (prefixes (butlast ?dest))"
    then have "prefix ?dest (butlast ?dest)" by simp
    then have "length ?dest \<le> length (butlast ?dest)" by (rule prefix_length_le)
    moreover have "length (butlast ?dest) < length ?dest"
      using ne unfolding length_butlast by (metis diff_less length_greater_0_conv zero_less_one)
    ultimately show False by linarith
  qed
  with other assms(1) have absent: "node_at w1 ?dest = None" by simp
  define w2 where "w2 = w1\<lparr>files := AList.update ?dest (File (snd item)) (files w1)\<rparr>"
  have wr: "writeFileSync ?dest (snd item) w1 = (Inr (), w2)"
    using absent d1 by (simp add: writeFileSync_def is_dir_def w2_def)
  have at2: "node_at w2 p = (if p = ?dest then Some (File (snd item)) else node_at w1 p)" for p
    using ne by (simp add: w2_def node_at_def update_conv')
  have g2: "grows w1 w2"
    using absent by (auto simp: grows_def at2)
  have "copy_item targetRoot False item w = (Inr Copied, w2)"
    using assms(1) mk wr
    by (simp add: copy_item_def Let_def io_bind_def io_catch_def existsSync_def io_return_def)
  with grows_trans[OF g1 g2] at2 show ?thesis by auto
qed

text \<open>A run on a world in which every item is present or blocked changes nothing.\<close>

lemma copy_items_settled:
  assumes "\<forall>item \<in> set items. node_at w (targetRoot @ fst item) \<noteq> None
              \<or> blocked w (targetRoot @ fst item)"
  shows "\<exists>r'. copy_items targetRoot False items r w = (Inr r', w) \<and> copied r' = copied r
           \<and> ((\<forall>item \<in> set items. node_at w (targetRoot @ fst item) \<noteq> None) \<longrightarrow>
                skipped r' = skipped r @ map fst items \<and> errors r' = errors r)"
  using assms
proof (induction items arbitrary: r)
  case Nil
  show ?case by (simp add: io_return_def)
next
  case (Cons item items)
  show ?case
  proof (cases "node_at w (targetRoot @ fst item) \<noteq> None")
    case True
    from Cons.IH[of "record_outcome Skipped (fst item) r"] Cons.prems
    obtain r' where "copy_items targetRoot False items (record_outcome Skipped (fst item) r) w = (Inr r', w)"
      and "copied r' = copied r"
      and "(\<forall>item \<in> set items. node_at w (targetRoot @ fst item) \<noteq> None) \<longrightarrow>
             skipped r' = skipped r @ fst item # map fst items \<and> errors r' = errors r"
      by auto
    with True show ?thesis
      by (auto simp: io_bind_def copy_item_present)
  next
    case False
    with Cons.prems have b: "blocked w (targetRoot @ fst item)" by simp
    from False have a: "node_at w (targetRoot @ fst item) = None" by simp
    from Cons.IH[of "record_outcome Failed (fst item) r"] Cons.prems
    obtain r' where "copy_items targetRoot False items (record_outcome Failed (fst item) r) w = (Inr r', w)"
      and "copied r' = copied r"
      by auto
    with False show ?thesis
      by (auto simp: io_bind_def copy_item_blocked[OF a b])
  qed
qed

text \<open>The first run settles every item and only adds to the world.\<close>

lemma copy_items_settles:
  "\<exists>r1 w1. copy_items targetRoot False items r w = (Inr r1, w1) \<and> grows w w1
     \<and> (\<exists>more. errors r1 = errors r @ more)
     \<and> (\<forall>item \<in> set items. node_at w1 (targetRoot @ fst item) \<noteq> None
            \<or> blocked w1 (targetRoot @ fst item))
     \<and> (errors r1 = errors r \<longrightarrow>
          (\<forall>item \<in> set items. node_at w1 (targetRoot @ fst item) \<noteq> None))"
proof (induction items arbitrary: r w)
  case Nil
  show ?case by (simp add: io_return_def grows_refl)
next
  case (Cons item items)
  let ?dest = "targetRoot @ fst item"
  consider (present) "node_at w ?dest \<noteq> None"
    | (stuck) "node_at w ?dest = None" "blocked w ?dest"
    | (free) "node_at w ?dest = None" "\<not> blocked w ?dest"
    by blast
  then obtain out w' where step: "copy_item targetRoot False item w = (Inr out, w')"
    and g: "grows w w'"
    and settled: "node_at w' ?dest \<noteq> None \<or> blocked w' ?dest"
    and ok: "out \<noteq> Failed \<longrightarrow> node_at w' ?dest \<noteq> None"
  proof cases
    case present
    then show ?thesis using that[of Skipped w] by (simp add: copy_item_present grows_refl)
  next
    case stuck
    then show ?thesis using that[of Failed w] by (simp add: copy_item_blocked grows_refl)
  next
    case free
    from copy_item_free[OF free] obtain w' where
      "copy_item targetRoot False item w = (Inr Copied, w')" "grows w w'"
      "node_at w' ?dest = Some (File (snd item))" by blast
    then show ?thesis using that[of Copied w'] by simp
  qed
  from Cons.IH[of "record_outcome out (fst item) r" w']
  obtain r1 w1 more where rest: "copy_items targetRoot False items (record_outcome out (fst item) r) w' = (Inr r1, w1)"
    and g1: "grows w' w1"
    and more: "errors r1 = errors (record_outcome out (fst item) r) @ more"
    and all: "\<forall>item \<in> set items. node_at w1 (targetRoot @ fst item) \<noteq> None
            \<or> blocked w1 (targetRoot @ fst item)"
    and good: "errors r1 = errors (record_outcome out (fst item) r) \<longrightarrow>
          (\<forall>item \<in> set items. node_at w1 (targetRoot @ fst item) \<noteq> None)"
    by blast
  have run: "copy_items targetRoot False (item # items) r w = (Inr r1, w1)"
    using step rest by (simp add: io_bind_def)
  have s1: "node_at w1 ?dest \<noteq> None \<or> blocked w1 ?dest"
    using settled grows_present[OF g1, of ?dest] grows_blocked[OF g1, of ?dest] by blast
  have ex: "\<exists>more. errors r1 = errors r @ more"
    using more by (cases out) auto
  have "errors r1 = errors r \<Longrightarrow> out \<noteq> Failed \<and> errors r1 = errors (record_outcome out (fst item) r)"
    using more by (cases out) auto
  with ok good grows_present[OF g1, of ?dest] have all_ok: "errors r1 = errors r \<longrightarrow>
      (\<forall>item \<in> set (item # items). node_at w1 (targetRoot @ fst item) \<noteq> None)"
    by (auto simp del: not_None_eq)
  show ?case
    using run grows_trans[OF g g1] ex s1 all all_ok by auto
qed

text \<open>
  Claim C4, as amended. Without the overwrite flag, a second run of the Directory
  Synchronizer on the world that the first run left returns that world unchanged and
  copies nothing; when the first run reported no error, the second run reports every
  relevant item as skipped and none as failed.
\<close>

theorem copyAiDirectory_twice:
  assumes "copyAiDirectory source targetRoot stackFilter False w = (res1, w1)"
  shows "\<exists>r1 r2. res1 = Inr r1
       \<and> copyAiDirectory source targetRoot stackFilter False w1 = (Inr r2, w1)
       \<and> copied r2 = []
       \<and> (errors r1 = [] \<longrightarrow>
            skipped r2 = map fst (filter (\<lambda>item. relevant stackFilter (fst item)) source)
            \<and> errors r2 = [])"
proof -
  let ?items = "filter (\<lambda>item. relevant stackFilter (fst item)) source"
  let ?r0 = "\<lparr>copied = [], skipped = [], errors = []\<rparr>"
  from copy_items_settles[of targetRoot ?items ?r0 w] assms
  obtain r1 where r1: "res1 = Inr r1"
    and all: "\<forall>item \<in> set ?items. node_at w1 (targetRoot @ fst item) \<noteq> None
            \<or> blocked w1 (targetRoot @ fst item)"
    and good: "errors r1 = [] \<longrightarrow> (\<forall>item \<in> set ?items. node_at w1 (targetRoot @ fst item) \<noteq> None)"
    by (auto simp: copyAiDirectory_def)
  from copy_items_settled[OF all, of ?r0]
  obtain r2 where "copy_items targetRoot False ?items ?r0 w1 = (Inr r2, w1)" "copied r2 = []"
    "(\<forall>item \<in> set ?items. node_at w1 (targetRoot @ fst item) \<noteq> None) \<longrightarrow>
       skipped r2 = map fst ?items \<and> errors r2 = []"
    by auto
  with r1 good show ?thesis
    by (auto simp: copyAiDirectory_def)
qed


theorem copyAiDirectory_twice_witness:
  "fst (copyAiDirectory ([([lit ''context'', lit ''index.md''], lit ''# Context Index''),
      ([lit ''stacks'', lit ''php-laravel'', lit ''standards'', lit ''laravel.md''], lit ''# Laravel''),
      ([lit ''stacks'', lit ''react-typescript'', lit ''standards'', lit ''react.md''], lit ''# React'')])
      ([lit ''proj'', lit ''.ai'']) (Some react_typescript) False (\<lparr>files = [([lit ''proj''], Dir)], console = []\<rparr>)) = Inr \<lparr>copied = [[lit ''context'', lit ''index.md''],
        [lit ''stacks'', lit ''react-typescript'', lit ''standards'', lit ''react.md'']], skipped = [], errors = []\<rparr>
   \<and> copyAiDirectory ([([lit ''context'', lit ''index.md''], lit ''# Context Index''),
      ([lit ''stacks'', lit ''php-laravel'', lit ''standards'', lit ''laravel.md''], lit ''# Laravel''),
      ([lit ''stacks'', lit ''react-typescript'', lit ''standards'', lit ''react.md''], lit ''# React'')])
      ([lit ''proj'', lit ''.ai'']) (Some react_typescript) False (snd (copyAiDirectory ([([lit ''context'', lit ''index.md''], lit ''# Context Index''),
      ([lit ''stacks'', lit ''php-laravel'', lit ''standards'', lit ''laravel.md''], lit ''# Laravel''),
      ([lit ''stacks'', lit ''react-typescript'', lit ''standards'', lit ''react.md''], lit ''# React'')])
      ([lit ''proj'', lit ''.ai'']) (Some react_typescript) False (\<lparr>files = [([lit ''proj''], Dir)], console = []\<rparr>)))
       = (Inr \<lparr>copied = [], skipped = [[lit ''context'', lit ''index.md''],
        [lit ''stacks'', lit ''react-typescript'', lit ''standards'', lit ''react.md'']], errors = []\<rparr>,
          snd (copyAiDirectory ([([lit ''context'', lit ''index.md''], lit ''# Context Index''),
      ([lit ''stacks'', lit ''php-laravel'', lit ''standards'', lit ''laravel.md''], lit ''# Laravel''),
      ([lit ''stacks'', lit ''react-typescript'', lit ''standards'', lit ''react.md''], lit ''# React'')])
      ([lit ''proj'', lit ''.ai'']) (Some react_typescript) False (\<lparr>files = [([lit ''proj''], Dir)], console = []\<rparr>)))"
proof -
  have first: "fst (copyAiDirectory ([([lit ''context'', lit ''index.md''], lit ''# Context Index''),
      ([lit ''stacks'', lit ''php-laravel'', lit ''standards'', lit ''laravel.md''], lit ''# Laravel''),
      ([lit ''stacks'', lit ''react-typescript'', lit ''standards'', lit ''react.md''], lit ''# React'')])
      ([lit ''proj'', lit ''.ai'']) (Some react_typescript) False (\<lparr>files = [([lit ''proj''], Dir)], console = []\<rparr>)) = Inr \<lparr>copied = [[lit ''context'', lit ''index.md''],
        [lit ''stacks'', lit ''react-typescript'', lit ''standards'', lit ''react.md'']], skipped = [], errors = []\<rparr>"
    by (simp add: copyAiDirectory_def copy_item_def Let_def io_bind_def io_catch_def io_return_def existsSync_def mkdirSync_recursive_def writeFileSync_def is_file_def is_dir_def node_at_def lit_def)
  from copyAiDirectory_twice[OF prod.collapse[symmetric]]
  obtain r1 r2 where r1: "fst (copyAiDirectory ([([lit ''context'', lit ''index.md''], lit ''# Context Index''),
      ([lit ''stacks'', lit ''php-laravel'', lit ''standards'', lit ''laravel.md''], lit ''# Laravel''),
      ([lit ''stacks'', lit ''react-typescript'', lit ''standards'', lit ''react.md''], lit ''# React'')])
      ([lit ''proj'', lit ''.ai'']) (Some react_typescript) False (\<lparr>files = [([lit ''proj''], Dir)], console = []\<rparr>)) = Inr r1"
    and second: "copyAiDirectory ([([lit ''context'', lit ''index.md''], lit ''# Context Index''),
      ([lit ''stacks'', lit ''php-laravel'', lit ''standards'', lit ''laravel.md''], lit ''# Laravel''),
      ([lit ''stacks'', lit ''react-typescript'', lit ''standards'', lit ''react.md''], lit ''# React'')])
      ([lit ''proj'', lit ''.ai'']) (Some react_typescript) False (snd (copyAiDirectory ([([lit ''context'', lit ''index.md''], lit ''# Context Index''),
      ([lit ''stacks'', lit ''php-laravel'', lit ''standards'', lit ''laravel.md''], lit ''# Laravel''),
      ([lit ''stacks'', lit ''react-typescript'', lit ''standards'', lit ''react.md''], lit ''# React'')])
      ([lit ''proj'', lit ''.ai'']) (Some react_typescript) False (\<lparr>files = [([lit ''proj''], Dir)], console = []\<rparr>)))
       = (Inr r2, snd (copyAiDirectory ([([lit ''context'', lit ''index.md''], lit ''# Context Index''),
      ([lit ''stacks'', lit ''php-laravel'', lit ''standards'', lit ''laravel.md''], lit ''# Laravel''),
      ([lit ''stacks'', lit ''react-typescript'', lit ''standards'', lit ''react.md''], lit ''# React'')])
      ([lit ''proj'', lit ''.ai'']) (Some react_typescript) False (\<lparr>files = [([lit ''proj''], Dir)], console = []\<rparr>)))"
    and c: "copied r2 = []"
    and s: "errors r1 = [] \<longrightarrow>
        skipped r2 = map fst (filter (\<lambda>item. relevant (Some react_typescript) (fst item))
          ([([lit ''context'', lit ''index.md''], lit ''# Context Index''),
      ([lit ''stacks'', lit ''php-laravel'', lit ''standards'', lit ''laravel.md''], lit ''# Laravel''),
      ([lit ''stacks'', lit ''react-typescript'', lit ''standards'', lit ''react.md''], lit ''# React'')]))
        \<and> errors r2 = []"
    by blast
  from first r1 have "errors r1 = []" by simp
  with s c have "r2 = \<lparr>copied = [], skipped = [[lit ''context'', lit ''index.md''],
        [lit ''stacks'', lit ''react-typescript'', lit ''standards'', lit ''react.md'']], errors = []\<rparr>"
    by (cases r2) (simp add: lit_def)
  with first second show ?thesis by simp
qed

text \<open>The claim as stated fails: an item whose directory cannot be created, a file
  lying on the way, fails in the first run and again in the second, where it is
  reported as an error and not as skipped.\<close>

theorem blocked_item_is_never_skipped:
  "copyAiDirectory ([([lit ''context'', lit ''index.md''], lit ''# Context Index'')])
      ([lit ''proj'', lit ''.ai'']) None False (\<lparr>files = [([lit ''proj''], Dir), ([lit ''proj'', lit ''.ai''], Dir),
        ([lit ''proj'', lit ''.ai'', lit ''context''], File (lit ''not a directory''))], console = []\<rparr>)
     = (Inr \<lparr>copied = [], skipped = [], errors = [[lit ''context'', lit ''index.md'']]\<rparr>, \<lparr>files = [([lit ''proj''], Dir), ([lit ''proj'', lit ''.ai''], Dir),
        ([lit ''proj'', lit ''.ai'', lit ''context''], File (lit ''not a directory''))], console = []\<rparr>)
   \<and> copyAiDirectory ([([lit ''context'', lit ''index.md''], lit ''# Context Index'')])
      ([lit ''proj'', lit ''.ai'']) None False (snd (copyAiDirectory ([([lit ''context'', lit ''index.md''], lit ''# Context Index'')])
      ([lit ''proj'', lit ''.ai'']) None False (\<lparr>files = [([lit ''proj''], Dir), ([lit ''proj'', lit ''.ai''], Dir),
        ([lit ''proj'', lit ''.ai'', lit ''context''], File (lit ''not a directory''))], console = []\<rparr>)))
     = (Inr \<lparr>copied = [], skipped = [], errors = [[lit ''context'', lit ''index.md'']]\<rparr>, \<lparr>files = [([lit ''proj''], Dir), ([lit ''proj'', lit ''.ai''], Dir),
        ([lit ''proj'', lit ''.ai'', lit ''context''], File (lit ''not a directory''))], console = []\<rparr>)"
proof -
  have first: "copyAiDirectory ([([lit ''context'', lit ''index.md''], lit ''# Context Index'')])
      ([lit ''proj'', lit ''.ai'']) None False (\<lparr>files = [([lit ''proj''], Dir), ([lit ''proj'', lit ''.ai''], Dir),
        ([lit ''proj'', lit ''.ai'', lit ''context''], File (lit ''not a directory''))], console = []\<rparr>)
     = (Inr \<lparr>copied = [], skipped = [], errors = [[lit ''context'', lit ''index.md'']]\<rparr>, \<lparr>files = [([lit ''proj''], Dir), ([lit ''proj'', lit ''.ai''], Dir),
        ([lit ''proj'', lit ''.ai'', lit ''context''], File (lit ''not a directory''))], console = []\<rparr>)"
    by (simp add: copyAiDirectory_def copy_item_def Let_def io_bind_def io_catch_def io_return_def existsSync_def mkdirSync_recursive_def writeFileSync_def is_file_def is_dir_def node_at_def lit_def)
  show ?thesis
    unfolding first snd_conv by (simp add: first)
qed

end
